theory Spec2Isabelle
  imports Main
begin

section \<open>Errors, formatted text and outcomes\<close>

text \<open>
  Go errors are values. The errors of the Kubernetes client are the first five constructors
  (the status reasons the API server answers with, and a broken exec stream);
  \<open>Errorf f args\<close> is \<^verbatim>\<open>fmt.Errorf(f, args...)\<close>, kept as the format string
  and its arguments, so that a wrapped error still shows the error it wraps.
\<close>

datatype error =
    NotFound
  | AlreadyExists
  | Forbidden
  | Unavailable
  | StreamBroken
  | Errorf string "fmtarg list"
and fmtarg =
    AStr string
  | ANat nat
  | AErr error

text \<open>
  A Go function returning \<^verbatim>\<open>(T, error)\<close> ends in one of three ways: it returns a
  value, it returns an error, or it panics (\<^verbatim>\<open>resource.MustParse\<close> panics on a
  malformed quantity). A function returning only \<^verbatim>\<open>error\<close> is a \<open>unit result\<close>.
\<close>

datatype 'a result = Ok 'a | Err error | Panic string

section \<open>The objects of the cluster\<close>

text \<open>\<^verbatim>\<open>LonghornVolume\<close> of main.go.\<close>

record LonghornVolume =
  Name :: string
  Size :: string
  State :: string
  PVName :: string

text \<open>
  An item of the dynamic client's list of \<^verbatim>\<open>volumes.longhorn.io\<close>: its name and the
  three nested strings \<^verbatim>\<open>getLonghornVolumes\<close> reads (\<open>None\<close>: the field is absent or
  not a string).
\<close>

record item =
  item_Name :: string
  item_State :: "string option"
  item_Size :: "string option"
  item_PVName :: "string option"

text \<open>The fields of the core/v1 objects that main.go reads or writes. Phases are strings in Go.\<close>

record VolumeMount =
  mount_Name :: string
  mount_MountPath :: string

record Container =
  container_Name :: string
  container_Image :: string
  container_Command :: "string list"
  container_VolumeMounts :: "VolumeMount list"

record Volume =
  volume_Name :: string
  volume_ClaimName :: "string option"

record Pod =
  pod_Name :: string
  pod_Namespace :: string
  pod_Labels :: "(string \<times> string) list"
  pod_Containers :: "Container list"
  pod_Volumes :: "Volume list"
  pod_RestartPolicy :: string
  pod_Phase :: string

record PersistentVolumeClaim =
  pvc_Name :: string
  pvc_Namespace :: string
  pvc_Labels :: "(string \<times> string) list"
  pvc_AccessModes :: "string list"
  pvc_Storage :: string
  pvc_StorageClassName :: string
  pvc_VolumeName :: string
  pvc_Phase :: string

record PersistentVolume =
  pv_Name :: string
  pv_Labels :: "(string \<times> string) list"
  pv_Storage :: string
  pv_AccessModes :: "string list"
  pv_ReclaimPolicy :: string
  pv_StorageClassName :: string
  pv_Driver :: string
  pv_VolumeHandle :: string
  pv_FSType :: string
  pv_VolumeAttributes :: "(string \<times> string) list"
  pv_Phase :: string

definition ClaimBound :: string where
  "ClaimBound = ''Bound''"

definition PodRunning :: string where
  "PodRunning = ''Running''"

section \<open>The environment: the cluster's API, the exec channel, the console\<close>

text \<open>
  Where the standard streams of a remote command go: \<^verbatim>\<open>execInPod\<close> wires them to the
  console, \<^verbatim>\<open>execInPodWithOutput\<close> sends stdout to the pipe's writer,
  \<^verbatim>\<open>execInPodWithInput\<close> takes stdin from the pipe's reader.
\<close>

datatype stream = Console | ToWriter | FromReader

text \<open>
  Everything the program does to its environment, in the order it does it: one event per
  call of the client (followed by \<open>EFailed e\<close> when the call returned the error \<open>e\<close>),
  per line printed, per sleep (with its seconds), per line read (with the text read) and
  per receive on the copy's result channel (with the result received); \<open>EUsage\<close> is the
  usage text of \<^verbatim>\<open>printUsage\<close>.
\<close>

datatype event =
    EInClusterConfig
  | EKubeConfig
  | ENewExecutor
  | EExec string string string "string list" stream
  | EListVolumes
  | EListPVCs string string
  | EListPods string string
  | EListPVs string
  | EGetPV string
  | EGetPVC string string
  | EGetPod string string
  | ECreatePV PersistentVolume
  | ECreatePVC string PersistentVolumeClaim
  | ECreatePod string Pod
  | EDeletePod string string
  | EDeletePVC string string
  | EDeletePV string
  | EPrintf string "fmtarg list"
  | ESleep nat
  | EScanln string
  | ERecv "error option"
  | EUsage
  | EFailed error

text \<open>
  The client libraries are not part of the repository: they are a parameter. A client
  over worlds \<open>'w\<close> answers every call from the current world and gives the next one;
  nothing is assumed about its answers. \<open>api_readLine\<close> is the console's input: the
  line the operator types, as bytes, without the newline that ends it. \<open>api_sleep\<close> is
  what the world does while the program sleeps. \<open>api_validQuantity\<close> says which strings
  \<^verbatim>\<open>resource.MustParse\<close> accepts.
\<close>

record 'w client =
  api_inClusterConfig :: "'w \<Rightarrow> error option \<times> 'w"
  api_kubeConfig :: "'w \<Rightarrow> error option \<times> 'w"
  api_newExecutor :: "'w \<Rightarrow> error option \<times> 'w"
  api_stream :: "string \<Rightarrow> string \<Rightarrow> string \<Rightarrow> string list \<Rightarrow> stream \<Rightarrow> 'w \<Rightarrow> error option \<times> 'w"
  api_listVolumes :: "'w \<Rightarrow> (error + item list) \<times> 'w"
  api_listPVCs :: "string \<Rightarrow> string \<Rightarrow> 'w \<Rightarrow> (error + PersistentVolumeClaim list) \<times> 'w"
  api_listPods :: "string \<Rightarrow> string \<Rightarrow> 'w \<Rightarrow> (error + Pod list) \<times> 'w"
  api_listPVs :: "string \<Rightarrow> 'w \<Rightarrow> (error + PersistentVolume list) \<times> 'w"
  api_getPV :: "string \<Rightarrow> 'w \<Rightarrow> (error + PersistentVolume) \<times> 'w"
  api_getPVC :: "string \<Rightarrow> string \<Rightarrow> 'w \<Rightarrow> (error + PersistentVolumeClaim) \<times> 'w"
  api_getPod :: "string \<Rightarrow> string \<Rightarrow> 'w \<Rightarrow> (error + Pod) \<times> 'w"
  api_createPV :: "PersistentVolume \<Rightarrow> 'w \<Rightarrow> error option \<times> 'w"
  api_createPVC :: "string \<Rightarrow> PersistentVolumeClaim \<Rightarrow> 'w \<Rightarrow> error option \<times> 'w"
  api_createPod :: "string \<Rightarrow> Pod \<Rightarrow> 'w \<Rightarrow> error option \<times> 'w"
  api_deletePod :: "string \<Rightarrow> string \<Rightarrow> 'w \<Rightarrow> error option \<times> 'w"
  api_deletePVC :: "string \<Rightarrow> string \<Rightarrow> 'w \<Rightarrow> error option \<times> 'w"
  api_deletePV :: "string \<Rightarrow> 'w \<Rightarrow> error option \<times> 'w"
  api_readLine :: "'w \<Rightarrow> string \<times> 'w"
  api_sleep :: "nat \<Rightarrow> 'w \<Rightarrow> 'w"
  api_validQuantity :: "string \<Rightarrow> bool"

text \<open>The state threaded through the program: the world and the events so far.\<close>

type_synonym 'w st = "'w \<times> event list"

text \<open>
  A call of the client is logged, and after it the error it returned, if it returned one:
  \<open>call\<close> is a call that returns only an error, \<open>query\<close> one that returns a value or an
  error.
\<close>

definition call :: "event \<Rightarrow> ('w \<Rightarrow> error option \<times> 'w) \<Rightarrow> 'w st \<Rightarrow> error option \<times> 'w st" where
  "call ev f s =
     (case f (fst s) of
        (r, w') \<Rightarrow> (r, (w', snd s @ ev # (case r of Some e \<Rightarrow> [EFailed e] | None \<Rightarrow> []))))"

definition query :: "event \<Rightarrow> ('w \<Rightarrow> (error + 'a) \<times> 'w) \<Rightarrow> 'w st \<Rightarrow> (error + 'a) \<times> 'w st" where
  "query ev f s =
     (case f (fst s) of
        (r, w') \<Rightarrow> (r, (w', snd s @ ev # (case r of Inl e \<Rightarrow> [EFailed e] | Inr _ \<Rightarrow> []))))"

definition emit :: "event \<Rightarrow> 'w st \<Rightarrow> 'w st" where
  "emit ev s = (fst s, snd s @ [ev])"

definition emits :: "event list \<Rightarrow> 'w st \<Rightarrow> 'w st" where
  "emits evs s = (fst s, snd s @ evs)"

text \<open>\<^verbatim>\<open>time.Sleep(n * time.Second)\<close>.\<close>

definition sleep :: "'w client \<Rightarrow> nat \<Rightarrow> 'w st \<Rightarrow> 'w st" where
  "sleep api seconds s = (api_sleep api seconds (fst s), snd s @ [ESleep seconds])"

text \<open>
  \<^verbatim>\<open>fmt.Scanln(&response)\<close>, whose result the program drops. The function of Go's library
  skips the spaces at the start of the line, stores in \<^verbatim>\<open>response\<close> the characters up
  to the next space or the end of the line, and returns an error when the line holds no
  word (\<^verbatim>\<open>response\<close> keeps its zero value, the empty string) or more than one (the first
  is stored all the same). A space is one of the characters of the library's table
  \<^verbatim>\<open>space\<close>: U+0009 to U+000D, U+0020, U+0085, U+00A0, U+1680, U+2000 to U+200A, U+2028,
  U+2029, U+202F, U+205F and U+3000. \<open>spaceLen\<close> is the number of bytes of the space a
  string starts with, in UTF-8, and 0 when it starts with none.
\<close>

definition spaceLen :: "string \<Rightarrow> nat" where
  "spaceLen s =
     (case map of_char s of
        [] \<Rightarrow> 0
      | b1 # rest \<Rightarrow>
          (if b1 = (0x20::nat) \<or> (0x09 \<le> b1 \<and> b1 \<le> 0x0D) then 1
           else
             (case rest of
                [] \<Rightarrow> 0
              | b2 # rest2 \<Rightarrow>
                  (if b1 = 0xC2 \<and> (b2 = 0x85 \<or> b2 = 0xA0) then 2
                   else
                     (case rest2 of
                        [] \<Rightarrow> 0
                      | b3 # _ \<Rightarrow>
                          (if b1 = 0xE1 \<and> b2 = 0x9A \<and> b3 = 0x80 then 3
                           else if b1 = 0xE2 \<and> b2 = 0x80
                                   \<and> (0x80 \<le> b3 \<and> b3 \<le> 0x8A \<or> b3 = 0xA8 \<or> b3 = 0xA9 \<or> b3 = 0xAF)
                           then 3
                           else if b1 = 0xE2 \<and> b2 = 0x81 \<and> b3 = 0x9F then 3
                           else if b1 = 0xE3 \<and> b2 = 0x80 \<and> b3 = 0x80 then 3
                           else 0))))))"

fun skipSpace :: "string \<Rightarrow> string" where
  "skipSpace [] = []"
| "skipSpace (c # cs) =
     (if spaceLen (c # cs) = 0 then c # cs else skipSpace (drop (spaceLen (c # cs) - 1) cs))"

fun token :: "string \<Rightarrow> string" where
  "token [] = []"
| "token (c # cs) = (if spaceLen (c # cs) = 0 then c # token cs else [])"

text \<open>What \<^verbatim>\<open>Scanln\<close> leaves in \<^verbatim>\<open>response\<close>, for each line typed.\<close>

definition scanlnWord :: "string \<Rightarrow> string" where
  "scanlnWord line = token (skipSpace line)"

text \<open>The line read is logged; the program gets the word.\<close>

definition scan :: "'w client \<Rightarrow> 'w st \<Rightarrow> string \<times> 'w st" where
  "scan api s =
     (case api_readLine api (fst s) of
        (line, w') \<Rightarrow> (scanlnWord line, (w', snd s @ [EScanln line])))"

section \<open>Remote commands\<close>

definition getConfig :: "'w client \<Rightarrow> 'w st \<Rightarrow> unit result \<times> 'w st" where
  "getConfig api s =
     (case call EInClusterConfig (api_inClusterConfig api) s of
        (None, s1) \<Rightarrow> (Ok (), s1)
      | (Some _, s1) \<Rightarrow>
          (case call EKubeConfig (api_kubeConfig api) s1 of
             (Some e, s2) \<Rightarrow> (Err (Errorf ''failed to build config: %v'' [AErr e]), s2)
           | (None, s2) \<Rightarrow> (Ok (), s2)))"

text \<open>
  The three exec functions of main.go have one body and differ in the streams they pass
  to \<^verbatim>\<open>exec.Stream\<close>; \<open>execStream\<close> is that body.
\<close>

definition execStream ::
  "stream \<Rightarrow> 'w client \<Rightarrow> string \<Rightarrow> string \<Rightarrow> string \<Rightarrow> string list \<Rightarrow> 'w st \<Rightarrow> unit result \<times> 'w st" where
  "execStream io api namespace podName containerName command s =
     (case getConfig api s of
        (Err e, s1) \<Rightarrow> (Err (Errorf ''failed to get config: %v'' [AErr e]), s1)
      | (Panic p, s1) \<Rightarrow> (Panic p, s1)
      | (Ok _, s1) \<Rightarrow>
          (case call ENewExecutor (api_newExecutor api) s1 of
             (Some e, s2) \<Rightarrow> (Err (Errorf ''failed to create executor: %v'' [AErr e]), s2)
           | (None, s2) \<Rightarrow>
               (case call (EExec namespace podName containerName command io)
                       (api_stream api namespace podName containerName command io) s2 of
                  (Some e, s3) \<Rightarrow> (Err (Errorf ''failed to execute command: %v'' [AErr e]), s3)
                | (None, s3) \<Rightarrow> (Ok (), s3))))"

definition execInPod ::
  "'w client \<Rightarrow> string \<Rightarrow> string \<Rightarrow> string \<Rightarrow> string list \<Rightarrow> 'w st \<Rightarrow> unit result \<times> 'w st" where
  "execInPod = execStream Console"

definition execInPodWithOutput ::
  "'w client \<Rightarrow> string \<Rightarrow> string \<Rightarrow> string \<Rightarrow> string list \<Rightarrow> 'w st \<Rightarrow> unit result \<times> 'w st" where
  "execInPodWithOutput = execStream ToWriter"

definition execInPodWithInput ::
  "'w client \<Rightarrow> string \<Rightarrow> string \<Rightarrow> string \<Rightarrow> string list \<Rightarrow> 'w st \<Rightarrow> unit result \<times> 'w st" where
  "execInPodWithInput = execStream FromReader"

section \<open>The streaming copy\<close>

text \<open>
  \<^verbatim>\<open>for i := 0; i < 2; i++ { if err := <-errChan; err != nil { return ... } }\<close>:
  \<open>n\<close> is the number of iterations left and \<open>chan\<close> the results in the order they reach
  the channel. A receive on a channel nothing will be sent on blocks for ever; the two tasks
  always send, so the loop never gets there, and the model gives the value \<open>Panic\<close> to it.
\<close>

fun recvLoop :: "nat \<Rightarrow> unit result list \<Rightarrow> 'w st \<Rightarrow> unit result \<times> 'w st" where
  "recvLoop 0 chan s = (Ok (), s)"
| "recvLoop (Suc n) [] s = (Panic ''receive on an empty channel'', s)"
| "recvLoop (Suc n) (Ok _ # chan) s = recvLoop n chan (emit (ERecv None) s)"
| "recvLoop (Suc n) (Err e # chan) s =
     (Err (Errorf ''stream copy failed: %v'' [AErr e]), emit (ERecv (Some e)) s)"
| "recvLoop (Suc n) (Panic p # chan) s = (Panic p, s)"

text \<open>
  The producer and the consumer run concurrently. The model records their exec calls in the
  order the tasks are started, and takes as a parameter which of the two results reaches
  the channel first (\<open>producerFirst\<close>): the scheduler decides that, not the program.
\<close>

definition streamCopyBetweenPods ::
  "'w client \<Rightarrow> bool \<Rightarrow> string \<Rightarrow> string \<Rightarrow> string \<Rightarrow> string \<Rightarrow> string \<Rightarrow> string \<Rightarrow> string
     \<Rightarrow> 'w st \<Rightarrow> unit result \<times> 'w st" where
  "streamCopyBetweenPods api producerFirst namespace sourcePod sourceContainer sourcePath
       destPod destContainer destPath s =
     (case execInPodWithOutput api namespace sourcePod sourceContainer
             [''tar'', ''-cf'', ''-'', ''-C'', sourcePath, ''.''] s of
        (producer, s1) \<Rightarrow>
          (case execInPodWithInput api namespace destPod destContainer
                  [''tar'', ''-xf'', ''-'', ''-C'', destPath] s1 of
             (consumer, s2) \<Rightarrow>
               recvLoop 2 (if producerFirst then [producer, consumer] else [consumer, producer]) s2))"

text \<open>How many results the copy engine took from the channel.\<close>

definition received :: "event list \<Rightarrow> nat" where
  "received tr = length (filter (\<lambda>ev. case ev of ERecv _ \<Rightarrow> True | _ \<Rightarrow> False) tr)"

section \<open>Longhorn volumes\<close>

definition toVolume :: "item \<Rightarrow> LonghornVolume" where
  "toVolume it =
     \<lparr>Name = item_Name it,
      Size = (case item_Size it of Some z \<Rightarrow> z | None \<Rightarrow> ''Unknown''),
      State = (case item_State it of Some st \<Rightarrow> st | None \<Rightarrow> ''Unknown''),
      PVName = (case item_PVName it of Some p \<Rightarrow> p | None \<Rightarrow> [])\<rparr>"

definition getLonghornVolumes :: "'w client \<Rightarrow> 'w st \<Rightarrow> LonghornVolume list result \<times> 'w st" where
  "getLonghornVolumes api s =
     (case query EListVolumes (api_listVolumes api) s of
        (Inl e, s1) \<Rightarrow> (Err (Errorf ''failed to list Longhorn volumes: %v'' [AErr e]), s1)
      | (Inr items, s1) \<Rightarrow> (Ok (map toVolume items), s1))"

definition getLonghornVolume :: "'w client \<Rightarrow> string \<Rightarrow> 'w st \<Rightarrow> LonghornVolume result \<times> 'w st" where
  "getLonghornVolume api volumeName s =
     (case getLonghornVolumes api s of
        (Err e, s1) \<Rightarrow> (Err e, s1)
      | (Panic p, s1) \<Rightarrow> (Panic p, s1)
      | (Ok volumes, s1) \<Rightarrow>
          (case find (\<lambda>volume. Name volume = volumeName) volumes of
             Some volume \<Rightarrow> (Ok volume, s1)
           | None \<Rightarrow> (Err (Errorf ''Longhorn volume %s not found'' [AStr volumeName]), s1)))"

section \<open>Is the volume in use, and by which pod\<close>

text \<open>
  The first claim of the list that names the PV and is bound; the empty string when there
  is none (\<^verbatim>\<open>var targetPVC string\<close> keeps its zero value).
\<close>

definition targetPVCOf :: "PersistentVolumeClaim list \<Rightarrow> string \<Rightarrow> string" where
  "targetPVCOf pvcs pvName =
     (case find (\<lambda>pvc. pvc_VolumeName pvc = pvName \<and> pvc_Phase pvc = ClaimBound) pvcs of
        Some pvc \<Rightarrow> pvc_Name pvc
      | None \<Rightarrow> [])"

definition mountsClaim :: "string \<Rightarrow> Pod \<Rightarrow> bool" where
  "mountsClaim targetPVC pod =
     (pod_Phase pod = PodRunning \<and>
      list_ex (\<lambda>volume. volume_ClaimName volume = Some targetPVC) (pod_Volumes pod))"

definition isVolumeInUse :: "'w client \<Rightarrow> string \<Rightarrow> string \<Rightarrow> 'w st \<Rightarrow> bool result \<times> 'w st" where
  "isVolumeInUse api pvName namespace s =
     (case query (EListPVCs namespace []) (api_listPVCs api namespace []) s of
        (Inl e, s1) \<Rightarrow> (Err (Errorf ''failed to list PVCs: %v'' [AErr e]), s1)
      | (Inr pvcs, s1) \<Rightarrow>
          (if targetPVCOf pvcs pvName = [] then (Ok False, s1)
           else
             (case query (EListPods namespace []) (api_listPods api namespace []) s1 of
                (Inl e, s2) \<Rightarrow> (Err (Errorf ''failed to list pods: %v'' [AErr e]), s2)
              | (Inr pods, s2) \<Rightarrow> (Ok (list_ex (mountsClaim (targetPVCOf pvcs pvName)) pods), s2))))"

text \<open>A loop that returns from inside at the first hit.\<close>

fun firstSome :: "('a \<Rightarrow> 'b option) \<Rightarrow> 'a list \<Rightarrow> 'b option" where
  "firstSome f [] = None"
| "firstSome f (x # xs) = (case f x of Some y \<Rightarrow> Some y | None \<Rightarrow> firstSome f xs)"

text \<open>
  The two inner loops of \<^verbatim>\<open>findExistingPodForVolume\<close>: the first mount, over the
  pod's containers in order, whose name is the volume's.
\<close>

definition mountOf :: "Pod \<Rightarrow> Volume \<Rightarrow> (string \<times> string \<times> string) option" where
  "mountOf pod volume =
     firstSome (\<lambda>container.
        firstSome (\<lambda>mount.
           if mount_Name mount = volume_Name volume
           then Some (pod_Name pod, mount_MountPath mount, container_Name container)
           else None)
          (container_VolumeMounts container))
       (pod_Containers pod)"

definition podMount :: "string \<Rightarrow> Pod \<Rightarrow> (string \<times> string \<times> string) option" where
  "podMount targetPVC pod =
     (if pod_Phase pod = PodRunning
      then firstSome (\<lambda>volume.
             if volume_ClaimName volume = Some targetPVC then mountOf pod volume else None)
             (pod_Volumes pod)
      else None)"

definition findExistingPodForVolume ::
  "'w client \<Rightarrow> string \<Rightarrow> string \<Rightarrow> 'w st \<Rightarrow> (string \<times> string \<times> string) result \<times> 'w st" where
  "findExistingPodForVolume api pvName namespace s =
     (case query (EListPVCs namespace []) (api_listPVCs api namespace []) s of
        (Inl e, s1) \<Rightarrow> (Err (Errorf ''failed to list PVCs: %v'' [AErr e]), s1)
      | (Inr pvcs, s1) \<Rightarrow>
          (if targetPVCOf pvcs pvName = []
           then (Err (Errorf ''no PVC found for PV %s'' [AStr pvName]), s1)
           else
             (case query (EListPods namespace []) (api_listPods api namespace []) s1 of
                (Inl e, s2) \<Rightarrow> (Err (Errorf ''failed to list pods: %v'' [AErr e]), s2)
              | (Inr pods, s2) \<Rightarrow>
                  (case firstSome (podMount (targetPVCOf pvcs pvName)) pods of
                     Some access \<Rightarrow> (Ok access, s2)
                   | None \<Rightarrow>
                       (Err (Errorf ''no running pod found using PVC %s''
                               [AStr (targetPVCOf pvcs pvName)]), s2)))))"

section \<open>The temporary objects\<close>

definition tempLabels :: "(string \<times> string) list" where
  "tempLabels = [(''app'', ''lhc-temp'')]"

text \<open>The PV that \<^verbatim>\<open>createTemporaryPV\<close> builds.\<close>

definition temporaryPV :: "string \<Rightarrow> string \<Rightarrow> string \<Rightarrow> string \<Rightarrow> PersistentVolume" where
  "temporaryPV pvName volumeName storageClass size0 =
     \<lparr>pv_Name = pvName, pv_Labels = tempLabels, pv_Storage = size0,
      pv_AccessModes = [''ReadWriteMany''], pv_ReclaimPolicy = ''Retain'',
      pv_StorageClassName = storageClass, pv_Driver = ''driver.longhorn.io'',
      pv_VolumeHandle = volumeName, pv_FSType = ''ext4'',
      pv_VolumeAttributes = [(''numberOfReplicas'', ''3''), (''staleReplicaTimeout'', ''2880'')],
      pv_Phase = []\<rparr>"

text \<open>The PV that \<^verbatim>\<open>createTemporaryRWXPV\<close> builds.\<close>

definition temporaryRWXPV :: "string \<Rightarrow> string \<Rightarrow> string \<Rightarrow> string \<Rightarrow> PersistentVolume" where
  "temporaryRWXPV pvName volumeName storageClass size0 =
     \<lparr>pv_Name = pvName, pv_Labels = tempLabels, pv_Storage = size0,
      pv_AccessModes = [''ReadWriteMany''], pv_ReclaimPolicy = ''Delete'',
      pv_StorageClassName = storageClass, pv_Driver = ''driver.longhorn.io'',
      pv_VolumeHandle = volumeName, pv_FSType = ''ext4'',
      pv_VolumeAttributes = [(''numberOfReplicas'', ''1''), (''staleReplicaTimeout'', ''2880'')],
      pv_Phase = []\<rparr>"

definition temporaryPVC :: "string \<Rightarrow> string \<Rightarrow> string \<Rightarrow> string \<Rightarrow> string \<Rightarrow> PersistentVolumeClaim" where
  "temporaryPVC pvcName namespace storageClass pvName size0 =
     \<lparr>pvc_Name = pvcName, pvc_Namespace = namespace, pvc_Labels = tempLabels,
      pvc_AccessModes = [''ReadWriteMany''], pvc_Storage = size0,
      pvc_StorageClassName = storageClass, pvc_VolumeName = pvName, pvc_Phase = []\<rparr>"

definition temporaryPod :: "string \<Rightarrow> string \<Rightarrow> string \<Rightarrow> string \<Rightarrow> string \<Rightarrow> Pod" where
  "temporaryPod podName namespace containerName mountPath pvcName =
     \<lparr>pod_Name = podName, pod_Namespace = namespace, pod_Labels = tempLabels,
      pod_Containers =
        [\<lparr>container_Name = containerName, container_Image = ''busybox:latest'',
          container_Command = [''sleep'', ''3600''],
          container_VolumeMounts = [\<lparr>mount_Name = ''volume'', mount_MountPath = mountPath\<rparr>]\<rparr>],
      pod_Volumes = [\<lparr>volume_Name = ''volume'', volume_ClaimName = Some pvcName\<rparr>],
      pod_RestartPolicy = ''Never'', pod_Phase = []\<rparr>"

definition createTemporaryPV ::
  "'w client \<Rightarrow> string \<Rightarrow> string \<Rightarrow> string \<Rightarrow> 'w st \<Rightarrow> string result \<times> 'w st" where
  "createTemporaryPV api volumeName namespace storageClass s =
     (case query (EGetPV (''lhc-temp-pv-'' @ volumeName))
             (api_getPV api (''lhc-temp-pv-'' @ volumeName)) s of
        (Inr _, s1) \<Rightarrow> (Ok (''lhc-temp-pv-'' @ volumeName), s1)
      | (Inl _, s1) \<Rightarrow>
          (case getLonghornVolume api volumeName s1 of
             (Err e, s2) \<Rightarrow> (Err (Errorf ''failed to get Longhorn volume info: %v'' [AErr e]), s2)
           | (Panic p, s2) \<Rightarrow> (Panic p, s2)
           | (Ok volume, s2) \<Rightarrow>
               (if \<not> api_validQuantity api (Size volume)
                then (Panic ''cannot parse quantity'', s2)
                else
                  (case call (ECreatePV (temporaryPV (''lhc-temp-pv-'' @ volumeName) volumeName
                                           storageClass (Size volume)))
                          (api_createPV api (temporaryPV (''lhc-temp-pv-'' @ volumeName) volumeName
                                           storageClass (Size volume))) s2 of
                     (Some e, s3) \<Rightarrow>
                       (Err (Errorf ''failed to create temporary PV: %v'' [AErr e]), s3)
                   | (None, s3) \<Rightarrow> (Ok (''lhc-temp-pv-'' @ volumeName), s3)))))"

definition createTemporaryRWXPV ::
  "'w client \<Rightarrow> string \<Rightarrow> string \<Rightarrow> string \<Rightarrow> string \<Rightarrow> 'w st \<Rightarrow> string result \<times> 'w st" where
  "createTemporaryRWXPV api volumeName namespace storageClass size0 s =
     (case query (EGetPV (''lhc-temp-pv-'' @ volumeName))
             (api_getPV api (''lhc-temp-pv-'' @ volumeName)) s of
        (Inr _, s1) \<Rightarrow> (Ok (''lhc-temp-pv-'' @ volumeName), s1)
      | (Inl _, s1) \<Rightarrow>
          (if \<not> api_validQuantity api size0
           then (Panic ''cannot parse quantity'', s1)
           else
             (case call (ECreatePV (temporaryRWXPV (''lhc-temp-pv-'' @ volumeName) volumeName
                                      storageClass size0))
                     (api_createPV api (temporaryRWXPV (''lhc-temp-pv-'' @ volumeName) volumeName
                                      storageClass size0)) s1 of
                (Some e, s2) \<Rightarrow>
                  (Err (Errorf ''failed to create temporary RWX PV: %v'' [AErr e]), s2)
              | (None, s2) \<Rightarrow> (Ok (''lhc-temp-pv-'' @ volumeName), s2))))"

text \<open>
  \<^verbatim>\<open>for i := 0; i < 60; i++\<close>, waiting for the claim to be bound: \<open>n\<close> is the number
  of iterations left, 60 at the start. Leaving the loop by \<^verbatim>\<open>break\<close> or by its bound
  gives \<open>Ok ()\<close>: the code after the loop runs either way.
\<close>

fun waitPVCBound :: "'w client \<Rightarrow> string \<Rightarrow> string \<Rightarrow> nat \<Rightarrow> 'w st \<Rightarrow> unit result \<times> 'w st" where
  "waitPVCBound api namespace pvcName 0 s = (Ok (), s)"
| "waitPVCBound api namespace pvcName (Suc n) s =
     (case query (EGetPVC namespace pvcName) (api_getPVC api namespace pvcName) s of
        (Inl e, s1) \<Rightarrow> (Err (Errorf ''failed to get PVC status: %v'' [AErr e]), s1)
      | (Inr pvc, s1) \<Rightarrow>
          (if pvc_Phase pvc = ClaimBound
           then (Ok (), emit (EPrintf ''PVC %s is now bound to PV %s\<newline>''
                                 [AStr pvcName, AStr (pvc_VolumeName pvc)]) s1)
           else waitPVCBound api namespace pvcName n (sleep api 1 s1)))"

text \<open>
  \<^verbatim>\<open>for i := 0; i < 120; i++\<close>, waiting for the pod to run: \<open>n\<close> is the number of
  iterations left, 120 at the start; the statement after the loop returns the error.
\<close>

fun waitPodRunning ::
  "'w client \<Rightarrow> string \<Rightarrow> string \<Rightarrow> string \<Rightarrow> string \<Rightarrow> nat \<Rightarrow> 'w st
     \<Rightarrow> (string \<times> string \<times> string) result \<times> 'w st" where
  "waitPodRunning api namespace podName mountPath containerName 0 s =
     (Err (Errorf ''temporary pod %s did not become ready in time'' [AStr podName]), s)"
| "waitPodRunning api namespace podName mountPath containerName (Suc n) s =
     (case query (EGetPod namespace podName) (api_getPod api namespace podName) s of
        (Inl e, s1) \<Rightarrow> (Err (Errorf ''failed to get pod status: %v'' [AErr e]), s1)
      | (Inr pod, s1) \<Rightarrow>
          (if pod_Phase pod = PodRunning then (Ok (podName, mountPath, containerName), s1)
           else waitPodRunning api namespace podName mountPath containerName n (sleep api 1 s1)))"

text \<open>
  The claim step and the pod step are written twice in main.go, word for word, in
  \<^verbatim>\<open>createTemporaryPodForLonghorn\<close> and in \<^verbatim>\<open>createTemporaryPodForRWXVolume\<close>;
  the two differ in where the size0 comes from.
\<close>

definition ensureTemporaryPVC ::
  "'w client \<Rightarrow> string \<Rightarrow> string \<Rightarrow> string \<Rightarrow> string \<Rightarrow> string \<Rightarrow> 'w st \<Rightarrow> unit result \<times> 'w st" where
  "ensureTemporaryPVC api namespace pvcName pvName storageClass size0 s =
     (case query (EGetPVC namespace pvcName) (api_getPVC api namespace pvcName) s of
        (Inr _, s1) \<Rightarrow> (Ok (), s1)
      | (Inl _, s1) \<Rightarrow>
          (if \<not> api_validQuantity api size0
           then (Panic ''cannot parse quantity'', s1)
           else
             (case call (ECreatePVC namespace (temporaryPVC pvcName namespace storageClass pvName size0))
                     (api_createPVC api namespace
                        (temporaryPVC pvcName namespace storageClass pvName size0)) s1 of
                (Some e, s2) \<Rightarrow> (Err (Errorf ''failed to create temporary PVC: %v'' [AErr e]), s2)
              | (None, s2) \<Rightarrow>
                  waitPVCBound api namespace pvcName 60
                    (emit (EPrintf ''Waiting for PVC %s to be bound...\<newline>'' [AStr pvcName]) s2))))"

definition podIsRunning :: "error + Pod \<Rightarrow> bool" where
  "podIsRunning r = (case r of Inl _ \<Rightarrow> False | Inr pod \<Rightarrow> pod_Phase pod = PodRunning)"

definition ensureTemporaryPod ::
  "'w client \<Rightarrow> string \<Rightarrow> string \<Rightarrow> string \<Rightarrow> string \<Rightarrow> string \<Rightarrow> 'w st
     \<Rightarrow> (string \<times> string \<times> string) result \<times> 'w st" where
  "ensureTemporaryPod api namespace podName pvcName mountPath containerName s =
     (case query (EGetPod namespace podName) (api_getPod api namespace podName) s of
        (existing, s1) \<Rightarrow>
          (if podIsRunning existing then (Ok (podName, mountPath, containerName), s1)
           else
             (case call (ECreatePod namespace
                           (temporaryPod podName namespace containerName mountPath pvcName))
                     (api_createPod api namespace
                        (temporaryPod podName namespace containerName mountPath pvcName)) s1 of
                (Some e, s2) \<Rightarrow> (Err (Errorf ''failed to create temporary pod: %v'' [AErr e]), s2)
              | (None, s2) \<Rightarrow>
                  waitPodRunning api namespace podName mountPath containerName 120
                    (emit (EPrintf ''Waiting for temporary pod %s to be ready...\<newline>''
                             [AStr podName]) s2))))"

definition createTemporaryPodForLonghorn ::
  "'w client \<Rightarrow> string \<Rightarrow> string \<Rightarrow> string \<Rightarrow> 'w st \<Rightarrow> (string \<times> string \<times> string) result \<times> 'w st" where
  "createTemporaryPodForLonghorn api volumeName namespace storageClass s =
     (case getLonghornVolume api volumeName s of
        (Err e, s1) \<Rightarrow> (Err (Errorf ''failed to get Longhorn volume info: %v'' [AErr e]), s1)
      | (Panic p, s1) \<Rightarrow> (Panic p, s1)
      | (Ok volume, s1) \<Rightarrow>
          (case createTemporaryPV api volumeName namespace storageClass s1 of
             (Err e, s2) \<Rightarrow> (Err (Errorf ''failed to create temporary PV: %v'' [AErr e]), s2)
           | (Panic p, s2) \<Rightarrow> (Panic p, s2)
           | (Ok _, s2) \<Rightarrow>
               (case ensureTemporaryPVC api namespace (''lhc-temp-pvc-'' @ volumeName)
                       (''lhc-temp-pv-'' @ volumeName) storageClass (Size volume) s2 of
                  (Err e, s3) \<Rightarrow> (Err e, s3)
                | (Panic p, s3) \<Rightarrow> (Panic p, s3)
                | (Ok _, s3) \<Rightarrow>
                    ensureTemporaryPod api namespace (''lhc-temp-pod-'' @ volumeName)
                      (''lhc-temp-pvc-'' @ volumeName) ''/mnt/volume'' ''temp-container'' s3)))"

definition createTemporaryPodForRWXVolume ::
  "'w client \<Rightarrow> string \<Rightarrow> string \<Rightarrow> string \<Rightarrow> string \<Rightarrow> 'w st
     \<Rightarrow> (string \<times> string \<times> string) result \<times> 'w st" where
  "createTemporaryPodForRWXVolume api volumeName namespace storageClass size0 s =
     (case ensureTemporaryPVC api namespace (''lhc-temp-pvc-'' @ volumeName)
             (''lhc-temp-pv-'' @ volumeName) storageClass size0 s of
        (Err e, s1) \<Rightarrow> (Err e, s1)
      | (Panic p, s1) \<Rightarrow> (Panic p, s1)
      | (Ok _, s1) \<Rightarrow>
          ensureTemporaryPod api namespace (''lhc-temp-pod-'' @ volumeName)
            (''lhc-temp-pvc-'' @ volumeName) ''/mnt/volume'' ''temp-container'' s1)"

definition createSnapshotBasedAccess ::
  "'w client \<Rightarrow> string \<Rightarrow> string \<Rightarrow> string \<Rightarrow> 'w st \<Rightarrow> (string \<times> string \<times> string) result \<times> 'w st" where
  "createSnapshotBasedAccess api volumeName namespace storageClass s =
     (case getLonghornVolume api volumeName
             (emit (EPrintf ''Creating temporary RWX volume for multi-attach access to %s...\<newline>''
                      [AStr volumeName]) s) of
        (Err e, s1) \<Rightarrow> (Err (Errorf ''failed to get original volume info: %v'' [AErr e]), s1)
      | (Panic p, s1) \<Rightarrow> (Panic p, s1)
      | (Ok volume, s1) \<Rightarrow>
          (case createTemporaryRWXPV api (''lhc-temp-rwx-'' @ volumeName) namespace storageClass
                  (Size volume) s1 of
             (Err e, s2) \<Rightarrow> (Err (Errorf ''failed to create temporary RWX PV: %v'' [AErr e]), s2)
           | (Panic p, s2) \<Rightarrow> (Panic p, s2)
           | (Ok _, s2) \<Rightarrow>
               createTemporaryPodForRWXVolume api (''lhc-temp-rwx-'' @ volumeName) namespace
                 storageClass (Size volume) s2))"

section \<open>Resolving access to a volume\<close>

definition getVolumeInfo ::
  "'w client \<Rightarrow> string \<Rightarrow> string \<Rightarrow> string \<Rightarrow> 'w st \<Rightarrow> (string \<times> string \<times> string) result \<times> 'w st" where
  "getVolumeInfo api volumeName namespace storageClass s =
     (case getLonghornVolume api volumeName s of
        (Err e, s1) \<Rightarrow>
          (Err (Errorf ''Longhorn volume %s not found: %v'' [AStr volumeName, AErr e]), s1)
      | (Panic p, s1) \<Rightarrow> (Panic p, s1)
      | (Ok volume, s1) \<Rightarrow>
          (case (if PVName volume \<noteq> [] then isVolumeInUse api (PVName volume) namespace s1
                 else (Ok False, s1)) of
             (Err e, s2) \<Rightarrow>
               (Err (Errorf ''failed to check if volume is in use: %v'' [AErr e]), s2)
           | (Panic p, s2) \<Rightarrow> (Panic p, s2)
           | (Ok volumeInUse, s2) \<Rightarrow>
               (if volumeInUse
                then
                  (case findExistingPodForVolume api (PVName volume) namespace
                          (emit (EPrintf ''Volume %s is currently in use. Checking for existing access pod...\<newline>''
                                   [AStr volumeName]) s2) of
                     (Ok access, s3) \<Rightarrow>
                       (Ok access,
                        emit (EPrintf ''Found existing pod %s using volume %s\<newline>''
                                [AStr (fst access), AStr volumeName]) s3)
                   | (Panic p, s3) \<Rightarrow> (Panic p, s3)
                   | (Err _, s3) \<Rightarrow>
                       createSnapshotBasedAccess api volumeName namespace storageClass
                         (emit (EPrintf ''Cannot access volume %s directly (multi-attach limitation). Creating temporary snapshot-based access...\<newline>''
                                  [AStr volumeName]) s3))
                else
                  (case (if PVName volume = []
                         then createTemporaryPV api volumeName namespace storageClass s2
                         else (Ok (PVName volume), s2)) of
                     (Err e, s3) \<Rightarrow>
                       (Err (Errorf ''failed to create temporary PV: %v'' [AErr e]), s3)
                   | (Panic p, s3) \<Rightarrow> (Panic p, s3)
                   | (Ok _, s3) \<Rightarrow>
                       createTemporaryPodForLonghorn api volumeName namespace storageClass s3))))"

section \<open>Copying a volume\<close>

text \<open>
  The command line that clears the destination:
  \<^verbatim>\<open>fmt.Sprintf("rm -rf %s/* %s/.[^.] %s/..?*", destMountPath, destMountPath, destMountPath)\<close>.
\<close>

definition clearCommand :: "string \<Rightarrow> string" where
  "clearCommand destMountPath =
     ''rm -rf '' @ destMountPath @ ''/* '' @ destMountPath @ ''/.[^.] '' @ destMountPath @ ''/..?*''"

definition CopyVolume ::
  "'w client \<Rightarrow> bool \<Rightarrow> string \<Rightarrow> string \<Rightarrow> string \<Rightarrow> string \<Rightarrow> 'w st \<Rightarrow> unit result \<times> 'w st" where
  "CopyVolume api producerFirst sourceVolume destVolume namespace storageClass s =
     (case getVolumeInfo api sourceVolume namespace storageClass s of
        (Err e, s1) \<Rightarrow> (Err (Errorf ''source volume error: %v'' [AErr e]), s1)
      | (Panic p, s1) \<Rightarrow> (Panic p, s1)
      | (Ok (sourcePod, sourceMountPath, sourceContainer), s1) \<Rightarrow>
          (case getVolumeInfo api destVolume namespace storageClass s1 of
             (Err e, s2) \<Rightarrow> (Err (Errorf ''destination volume error: %v'' [AErr e]), s2)
           | (Panic p, s2) \<Rightarrow> (Panic p, s2)
           | (Ok (destPod, destMountPath, destContainer), s2) \<Rightarrow>
               (case execInPod api namespace destPod destContainer
                       [''sh'', ''-c'', clearCommand destMountPath]
                       (emits
                          [EPrintf ''Source Volume: %s\<newline>'' [AStr sourceVolume],
                           EPrintf ''Source Pod: %s, Container: %s, Mount: %s\<newline>''
                             [AStr sourcePod, AStr sourceContainer, AStr sourceMountPath],
                           EPrintf ''Destination Volume: %s\<newline>'' [AStr destVolume],
                           EPrintf ''Destination Pod: %s, Container: %s, Mount: %s\<newline>\<newline>''
                             [AStr destPod, AStr destContainer, AStr destMountPath],
                           EPrintf ''Copying volume contents...\<newline>'' [],
                           EPrintf ''Clearing destination directory...\<newline>'' []] s2) of
                  (Err e, s3) \<Rightarrow> (Err (Errorf ''failed to clear destination: %v'' [AErr e]), s3)
                | (Panic p, s3) \<Rightarrow> (Panic p, s3)
                | (Ok _, s3) \<Rightarrow>
                    (case execInPod api namespace sourcePod sourceContainer
                            [''ls'', ''-la'', sourceMountPath]
                            (emits
                               [EPrintf ''Streaming data from source to destination...\<newline>'' [],
                                EPrintf ''Checking source volume contents...\<newline>'' []] s3) of
                       (Panic p, s4) \<Rightarrow> (Panic p, s4)
                     | (listed, s4) \<Rightarrow>
                         (case streamCopyBetweenPods api producerFirst namespace
                                 sourcePod sourceContainer sourceMountPath
                                 destPod destContainer destMountPath
                                 (case listed of
                                    Err e \<Rightarrow>
                                      emit (EPrintf ''Warning: failed to list source contents: %v\<newline>''
                                              [AErr e]) s4
                                  | _ \<Rightarrow> s4) of
                            (Err e, s5) \<Rightarrow> (Err (Errorf ''failed to copy data: %v'' [AErr e]), s5)
                          | (Panic p, s5) \<Rightarrow> (Panic p, s5)
                          | (Ok _, s5) \<Rightarrow>
                              (case execInPod api namespace destPod destContainer
                                      [''ls'', ''-la'', destMountPath]
                                      (emit (EPrintf ''Verifying destination volume contents...\<newline>'' [])
                                         s5) of
                                 (Err e, s6) \<Rightarrow>
                                   (Ok (),
                                    emit (EPrintf ''Warning: failed to list destination contents: %v\<newline>''
                                            [AErr e]) s6)
                               | (Panic p, s6) \<Rightarrow> (Panic p, s6)
                               | (Ok _, s6) \<Rightarrow> (Ok (), s6)))))))"

section \<open>What the clearing command removes\<close>

text \<open>
  The command runs in the pod's shell (\<^verbatim>\<open>sh -c\<close>), which splits it into words and
  replaces each pattern by the names it matches; \<^verbatim>\<open>rm -rf\<close> removes those. The shell is
  not part of the repository: \<open>globMatch\<close> is the pattern matching of the shell of busybox,
  the image of the tool's own pods, and of bash, for the four pattern elements the command
  uses (an ordinary character, \<^verbatim>\<open>?\<close>, \<^verbatim>\<open>*\<close>, and the bracket \<^verbatim>\<open>[^c]\<close> that matches one
  character other than \<open>c\<close>), on one file name. POSIX writes that bracket \<^verbatim>\<open>[!c]\<close> and
  leaves \<^verbatim>\<open>[^c]\<close> open; a shell that reads it as the set of \<^verbatim>\<open>^\<close> and \<open>c\<close>, as dash
  does, removes less.
\<close>

datatype glob = GLit char | GAny | GStar | GNot char

fun parseGlob :: "string \<Rightarrow> glob list" where
  "parseGlob [] = []"
| "parseGlob (c # cs) =
     (if c = CHR ''*'' then GStar # parseGlob cs
      else if c = CHR ''?'' then GAny # parseGlob cs
      else if c = CHR ''['' then
        (case cs of
           a # x # b # rest \<Rightarrow>
             (if a = CHR ''^'' \<and> b = CHR '']'' then GNot x # parseGlob rest
              else GLit c # parseGlob cs)
         | _ \<Rightarrow> GLit c # parseGlob cs)
      else GLit c # parseGlob cs)"

fun globMatch :: "glob list \<Rightarrow> string \<Rightarrow> bool" where
  "globMatch [] s = (s = [])"
| "globMatch (GStar # ps) [] = globMatch ps []"
| "globMatch (GStar # ps) (c # cs) = (globMatch ps (c # cs) \<or> globMatch (GStar # ps) cs)"
| "globMatch (GLit x # ps) (c # cs) = (x = c \<and> globMatch ps cs)"
| "globMatch (GAny # ps) (c # cs) = globMatch ps cs"
| "globMatch (GNot x # ps) (c # cs) = (x \<noteq> c \<and> globMatch ps cs)"
| "globMatch (GLit x # ps) [] = False"
| "globMatch (GAny # ps) [] = False"
| "globMatch (GNot x # ps) [] = False"

text \<open>
  A name that starts with a period is matched only by a pattern that starts with a period
  written out: \<^verbatim>\<open>*\<close>, \<^verbatim>\<open>?\<close> and a bracket do not match a leading period.
\<close>

definition globMatchesName :: "string \<Rightarrow> string \<Rightarrow> bool" where
  "globMatchesName pattern name =
     (case name of
        [] \<Rightarrow> False
      | c # _ \<Rightarrow>
          (if c = CHR ''.'' \<and> (case parseGlob pattern of GLit _ # _ \<Rightarrow> False | _ \<Rightarrow> True)
           then False
           else globMatch (parseGlob pattern) name))"

text \<open>
  The shell splits the command at the spaces. The words after \<^verbatim>\<open>rm -rf\<close> are the three
  patterns, each behind the mount path and a slash; what is left of a word after them is
  matched against the names of the entries of the mount root.
\<close>

primrec splitWords :: "string \<Rightarrow> string \<Rightarrow> string list" where
  "splitWords [] word = (if word = [] then [] else [word])"
| "splitWords (c # cs) word =
     (if c = CHR '' '' then (if word = [] then splitWords cs [] else word # splitWords cs [])
      else splitWords cs (word @ [c]))"

definition shellWords :: "string \<Rightarrow> string list" where
  "shellWords command = splitWords command []"

definition clearPatterns :: "string \<Rightarrow> string list" where
  "clearPatterns destMountPath =
     map (drop (length destMountPath + 1)) (drop 2 (shellWords (clearCommand destMountPath)))"

definition removedByClear :: "string \<Rightarrow> string \<Rightarrow> bool" where
  "removedByClear destMountPath name =
     list_ex (\<lambda>pattern. globMatchesName pattern name) (clearPatterns destMountPath)"

text \<open>The entries of the destination's mount root that are still there after the command.\<close>

definition leftAfterClear :: "string \<Rightarrow> string list \<Rightarrow> string list" where
  "leftAfterClear destMountPath entries =
     filter (\<lambda>name. \<not> removedByClear destMountPath name) entries"

section \<open>Cleaning up\<close>

fun deletePods :: "'w client \<Rightarrow> string \<Rightarrow> Pod list \<Rightarrow> 'w st \<Rightarrow> 'w st" where
  "deletePods api namespace [] s = s"
| "deletePods api namespace (pod # pods) s =
     (case call (EDeletePod namespace (pod_Name pod)) (api_deletePod api namespace (pod_Name pod))
             (emit (EPrintf ''Deleting pod %s...\<newline>'' [AStr (pod_Name pod)]) s) of
        (Some e, s1) \<Rightarrow>
          deletePods api namespace pods
            (emit (EPrintf ''Warning: failed to delete pod %s: %v\<newline>''
                     [AStr (pod_Name pod), AErr e]) s1)
      | (None, s1) \<Rightarrow> deletePods api namespace pods s1)"

fun deletePVCs :: "'w client \<Rightarrow> string \<Rightarrow> PersistentVolumeClaim list \<Rightarrow> 'w st \<Rightarrow> 'w st" where
  "deletePVCs api namespace [] s = s"
| "deletePVCs api namespace (pvc # pvcs) s =
     (case call (EDeletePVC namespace (pvc_Name pvc)) (api_deletePVC api namespace (pvc_Name pvc))
             (emit (EPrintf ''Deleting PVC %s...\<newline>'' [AStr (pvc_Name pvc)]) s) of
        (Some e, s1) \<Rightarrow>
          deletePVCs api namespace pvcs
            (emit (EPrintf ''Warning: failed to delete PVC %s: %v\<newline>''
                     [AStr (pvc_Name pvc), AErr e]) s1)
      | (None, s1) \<Rightarrow> deletePVCs api namespace pvcs s1)"

fun deletePVs :: "'w client \<Rightarrow> PersistentVolume list \<Rightarrow> 'w st \<Rightarrow> 'w st" where
  "deletePVs api [] s = s"
| "deletePVs api (pv # pvs) s =
     (case call (EDeletePV (pv_Name pv)) (api_deletePV api (pv_Name pv))
             (emit (EPrintf ''Deleting PV %s...\<newline>'' [AStr (pv_Name pv)]) s) of
        (Some e, s1) \<Rightarrow>
          deletePVs api pvs
            (emit (EPrintf ''Warning: failed to delete PV %s: %v\<newline>''
                     [AStr (pv_Name pv), AErr e]) s1)
      | (None, s1) \<Rightarrow> deletePVs api pvs s1)"

text \<open>The three blocks that display what was found; an empty list prints nothing.\<close>

definition foundResources ::
  "Pod list \<Rightarrow> PersistentVolumeClaim list \<Rightarrow> PersistentVolume list \<Rightarrow> event list" where
  "foundResources pods pvcs pvs =
     [EPrintf ''Found %d temporary resources:\<newline>\<newline>''
        [ANat (length pods + length pvcs + length pvs)]] @
     (if pods = [] then []
      else [EPrintf ''Pods:\<newline>'' []] @
           map (\<lambda>pod. EPrintf ''  - %s (Status: %s)\<newline>'' [AStr (pod_Name pod), AStr (pod_Phase pod)])
             pods @
           [EPrintf ''\<newline>'' []]) @
     (if pvcs = [] then []
      else [EPrintf ''PersistentVolumeClaims:\<newline>'' []] @
           map (\<lambda>pvc. EPrintf ''  - %s (Status: %s)\<newline>'' [AStr (pvc_Name pvc), AStr (pvc_Phase pvc)])
             pvcs @
           [EPrintf ''\<newline>'' []]) @
     (if pvs = [] then []
      else [EPrintf ''PersistentVolumes:\<newline>'' []] @
           map (\<lambda>pv. EPrintf ''  - %s (Status: %s)\<newline>'' [AStr (pv_Name pv), AStr (pv_Phase pv)])
             pvs @
           [EPrintf ''\<newline>'' []])"

definition confirmPrompt :: event where
  "confirmPrompt = EPrintf ''Do you want to delete these resources? (y/N): '' []"

text \<open>The sweep of the \<^verbatim>\<open>cleanup\<close> command.\<close>

definition CleanupTemporaryResources :: "'w client \<Rightarrow> string \<Rightarrow> 'w st \<Rightarrow> unit result \<times> 'w st" where
  "CleanupTemporaryResources api namespace s =
     (case query (EListPods namespace ''app=lhc-temp'') (api_listPods api namespace ''app=lhc-temp'')
             (emit (EPrintf ''Searching for temporary resources with 'lhc-temp-' prefix in namespace '%s'...\<newline>\<newline>''
                      [AStr namespace]) s) of
        (Inl e, s1) \<Rightarrow> (Err (Errorf ''failed to list temporary pods: %v'' [AErr e]), s1)
      | (Inr pods, s1) \<Rightarrow>
          (case query (EListPVCs namespace ''app=lhc-temp'')
                  (api_listPVCs api namespace ''app=lhc-temp'') s1 of
             (Inl e, s2) \<Rightarrow> (Err (Errorf ''failed to list temporary PVCs: %v'' [AErr e]), s2)
           | (Inr pvcs, s2) \<Rightarrow>
               (case query (EListPVs ''app=lhc-temp'') (api_listPVs api ''app=lhc-temp'') s2 of
                  (Inl e, s3) \<Rightarrow> (Err (Errorf ''failed to list temporary PVs: %v'' [AErr e]), s3)
                | (Inr pvs, s3) \<Rightarrow>
                    (if length pods + length pvcs + length pvs = 0
                     then (Ok (), emit (EPrintf ''No temporary resources found.\<newline>'' []) s3)
                     else
                       (case scan api
                               (emit confirmPrompt (emits (foundResources pods pvcs pvs) s3)) of
                          (response, s4) \<Rightarrow>
                            (if response \<noteq> ''y'' \<and> response \<noteq> ''Y''
                             then (Ok (), emit (EPrintf ''Cleanup cancelled.\<newline>'' []) s4)
                             else
                               (Ok (),
                                emit (EPrintf ''\<newline>Cleanup completed.\<newline>'' [])
                                  (deletePVs api pvs
                                     (deletePVCs api namespace pvcs
                                        (deletePods api namespace pods
                                           (emit (EPrintf ''\<newline>Deleting resources...\<newline>'' [])
                                              s4)))))))))))"

text \<open>The cleanup of one volume's temporary objects, after a copy.\<close>

definition cleanupTemporaryResources :: "'w client \<Rightarrow> string \<Rightarrow> string \<Rightarrow> 'w st \<Rightarrow> unit result \<times> 'w st" where
  "cleanupTemporaryResources api volumeName namespace s =
     (case call (EDeletePod namespace (''lhc-temp-pod-'' @ volumeName))
             (api_deletePod api namespace (''lhc-temp-pod-'' @ volumeName)) s of
        (podErr, s1) \<Rightarrow>
          (case call (EDeletePVC namespace (''lhc-temp-pvc-'' @ volumeName))
                  (api_deletePVC api namespace (''lhc-temp-pvc-'' @ volumeName))
                  (case podErr of
                     Some e \<Rightarrow>
                       emit (EPrintf ''Warning: failed to delete temporary pod %s: %v\<newline>''
                               [AStr (''lhc-temp-pod-'' @ volumeName), AErr e]) s1
                   | None \<Rightarrow> s1) of
             (pvcErr, s2) \<Rightarrow>
               (case call (EDeletePV (''lhc-temp-pv-'' @ volumeName))
                       (api_deletePV api (''lhc-temp-pv-'' @ volumeName))
                       (case pvcErr of
                          Some e \<Rightarrow>
                            emit (EPrintf ''Warning: failed to delete temporary PVC %s: %v\<newline>''
                                    [AStr (''lhc-temp-pvc-'' @ volumeName), AErr e]) s2
                        | None \<Rightarrow> s2) of
                  (pvErr, s3) \<Rightarrow>
                    (Ok (),
                     (case pvErr of
                        Some e \<Rightarrow>
                          emit (EPrintf ''Warning: failed to delete temporary PV %s: %v\<newline>''
                                  [AStr (''lhc-temp-pv-'' @ volumeName), AErr e]) s3
                      | None \<Rightarrow> s3)))))"

section \<open>The commands of \<^verbatim>\<open>main\<close>\<close>

text \<open>
  The \<^verbatim>\<open>copy\<close> and \<^verbatim>\<open>cleanup\<close> cases of the switch in \<^verbatim>\<open>main\<close>, with the process's
  exit status as the result: 0 when \<^verbatim>\<open>main\<close> returns, 1 after \<^verbatim>\<open>os.Exit(1)\<close> or
  \<^verbatim>\<open>log.Fatalf\<close>, 2 after a panic.
\<close>

definition copyCommand ::
  "'w client \<Rightarrow> bool \<Rightarrow> string \<Rightarrow> string \<Rightarrow> string \<Rightarrow> string \<Rightarrow> 'w st \<Rightarrow> nat \<times> 'w st" where
  "copyCommand api producerFirst source dest namespace storageClass s =
     (if source = []
      then (1, emits [EPrintf ''Error: -s (source) flag is required for copy command\<newline>'' [], EUsage] s)
      else if dest = []
      then (1, emits [EPrintf ''Error: -d (dest) flag is required for copy command\<newline>'' [], EUsage] s)
      else
        (case CopyVolume api producerFirst source dest namespace storageClass s of
           (Err e, s1) \<Rightarrow> (1, emit (EPrintf ''Failed to copy volume: %v'' [AErr e]) s1)
         | (Panic p, s1) \<Rightarrow> (2, s1)
         | (Ok _, s1) \<Rightarrow>
             (case cleanupTemporaryResources api source namespace s1 of
                (_, s2) \<Rightarrow>
                  (case cleanupTemporaryResources api dest namespace s2 of
                     (_, s3) \<Rightarrow>
                       (0, emit (EPrintf ''\<newline>Copy completed: %s -> %s\<newline>''
                                   [AStr source, AStr dest]) s3)))))"

definition cleanupCommand :: "'w client \<Rightarrow> string \<Rightarrow> 'w st \<Rightarrow> nat \<times> 'w st" where
  "cleanupCommand api namespace s =
     (case CleanupTemporaryResources api namespace s of
        (Err e, s1) \<Rightarrow> (1, emit (EPrintf ''Failed to cleanup temporary resources: %v'' [AErr e]) s1)
      | (Panic p, s1) \<Rightarrow> (2, s1)
      | (Ok _, s1) \<Rightarrow> (0, s1))"

section \<open>A cluster to run the program on\<close>

text \<open>
  A client that can be run: an API server that keeps the objects it is given, with the
  controllers that bind claims and start pods, and with faults that can be injected. The
  theorems about every client hold for it; it gives them their examples, and it is the
  cluster of the theorems about what the objects are after a run.

    \<^item> \<open>cl_delay\<close>: the seconds the controllers still stay idle. Time passes while the
      program sleeps (\<open>tick\<close> is one second): once the delay is over, every second the
      volume controller binds the claims whose PV exists, and the kubelet starts the
      pending pods whose claims are bound.
    \<^item> \<open>cl_faults\<close>: the calls that fail whatever the objects are, and with which error.
    \<^item> \<open>cl_input\<close>: the line the operator types at the confirmation prompt.
\<close>

record cluster =
  cl_volumes :: "item list"
  cl_pvs :: "PersistentVolume list"
  cl_pvcs :: "PersistentVolumeClaim list"
  cl_pods :: "Pod list"
  cl_delay :: nat
  cl_faults :: "event \<Rightarrow> error option"
  cl_input :: string

definition answer :: "event \<Rightarrow> (error \<Rightarrow> 'a) \<Rightarrow> (cluster \<Rightarrow> 'a \<times> cluster) \<Rightarrow> cluster \<Rightarrow> 'a \<times> cluster" where
  "answer ev failed served c = (case cl_faults c ev of Some e \<Rightarrow> (failed e, c) | None \<Rightarrow> served c)"

text \<open>The two label selectors the program uses: none, and \<^verbatim>\<open>app=lhc-temp\<close>.\<close>

definition selected :: "string \<Rightarrow> (string \<times> string) list \<Rightarrow> bool" where
  "selected selector labels =
     (selector = [] \<or> list_ex (\<lambda>label. fst label @ ''='' @ snd label = selector) labels)"

definition isPV :: "string \<Rightarrow> PersistentVolume \<Rightarrow> bool" where
  "isPV name pv = (pv_Name pv = name)"

definition isPVC :: "string \<Rightarrow> string \<Rightarrow> PersistentVolumeClaim \<Rightarrow> bool" where
  "isPVC namespace name pvc = (pvc_Name pvc = name \<and> pvc_Namespace pvc = namespace)"

definition isPod :: "string \<Rightarrow> string \<Rightarrow> Pod \<Rightarrow> bool" where
  "isPod namespace name pod = (pod_Name pod = name \<and> pod_Namespace pod = namespace)"

definition bindClaim :: "cluster \<Rightarrow> PersistentVolumeClaim \<Rightarrow> PersistentVolumeClaim" where
  "bindClaim c pvc =
     (if pvc_Phase pvc \<noteq> ClaimBound \<and> list_ex (isPV (pvc_VolumeName pvc)) (cl_pvs c)
      then pvc\<lparr>pvc_Phase := ClaimBound\<rparr> else pvc)"

definition claimsBound :: "cluster \<Rightarrow> Pod \<Rightarrow> bool" where
  "claimsBound c pod =
     list_all (\<lambda>volume.
        case volume_ClaimName volume of
          None \<Rightarrow> True
        | Some claim \<Rightarrow>
            list_ex (\<lambda>pvc. isPVC (pod_Namespace pod) claim pvc \<and> pvc_Phase pvc = ClaimBound)
              (cl_pvcs c))
       (pod_Volumes pod)"

definition startPod :: "cluster \<Rightarrow> Pod \<Rightarrow> Pod" where
  "startPod c pod =
     (if pod_Phase pod = ''Pending'' \<and> claimsBound c pod
      then pod\<lparr>pod_Phase := PodRunning\<rparr> else pod)"

definition tick :: "cluster \<Rightarrow> cluster" where
  "tick c =
     (if 0 < cl_delay c then c\<lparr>cl_delay := cl_delay c - 1\<rparr>
      else c\<lparr>cl_pvcs := map (bindClaim c) (cl_pvcs c), cl_pods := map (startPod c) (cl_pods c)\<rparr>)"

primrec ticks :: "nat \<Rightarrow> cluster \<Rightarrow> cluster" where
  "ticks 0 c = c"
| "ticks (Suc n) c = ticks n (tick c)"

definition lookup :: "('a \<Rightarrow> bool) \<Rightarrow> 'a list \<Rightarrow> error + 'a" where
  "lookup p xs = (case find p xs of Some x \<Rightarrow> Inr x | None \<Rightarrow> Inl NotFound)"

definition sim_createPV :: "PersistentVolume \<Rightarrow> cluster \<Rightarrow> error option \<times> cluster" where
  "sim_createPV pv c =
     (if list_ex (isPV (pv_Name pv)) (cl_pvs c) then (Some AlreadyExists, c)
      else (None, c\<lparr>cl_pvs := cl_pvs c @ [pv\<lparr>pv_Phase := ''Available''\<rparr>]\<rparr>))"

definition sim_createPVC :: "string \<Rightarrow> PersistentVolumeClaim \<Rightarrow> cluster \<Rightarrow> error option \<times> cluster" where
  "sim_createPVC namespace pvc c =
     (if list_ex (isPVC namespace (pvc_Name pvc)) (cl_pvcs c) then (Some AlreadyExists, c)
      else (None, c\<lparr>cl_pvcs := cl_pvcs c @ [pvc\<lparr>pvc_Namespace := namespace, pvc_Phase := ''Pending''\<rparr>]\<rparr>))"

definition sim_createPod :: "string \<Rightarrow> Pod \<Rightarrow> cluster \<Rightarrow> error option \<times> cluster" where
  "sim_createPod namespace pod c =
     (if list_ex (isPod namespace (pod_Name pod)) (cl_pods c) then (Some AlreadyExists, c)
      else (None, c\<lparr>cl_pods := cl_pods c @ [pod\<lparr>pod_Namespace := namespace, pod_Phase := ''Pending''\<rparr>]\<rparr>))"

definition sim_deletePod :: "string \<Rightarrow> string \<Rightarrow> cluster \<Rightarrow> error option \<times> cluster" where
  "sim_deletePod namespace name c =
     (if list_ex (isPod namespace name) (cl_pods c)
      then (None, c\<lparr>cl_pods := filter (\<lambda>pod. \<not> isPod namespace name pod) (cl_pods c)\<rparr>)
      else (Some NotFound, c))"

definition sim_deletePVC :: "string \<Rightarrow> string \<Rightarrow> cluster \<Rightarrow> error option \<times> cluster" where
  "sim_deletePVC namespace name c =
     (if list_ex (isPVC namespace name) (cl_pvcs c)
      then (None, c\<lparr>cl_pvcs := filter (\<lambda>pvc. \<not> isPVC namespace name pvc) (cl_pvcs c)\<rparr>)
      else (Some NotFound, c))"

definition sim_deletePV :: "string \<Rightarrow> cluster \<Rightarrow> error option \<times> cluster" where
  "sim_deletePV name c =
     (if list_ex (isPV name) (cl_pvs c)
      then (None, c\<lparr>cl_pvs := filter (\<lambda>pv. \<not> isPV name pv) (cl_pvs c)\<rparr>)
      else (Some NotFound, c))"

text \<open>A command runs in a pod that exists and is running; what it does there is not modelled.\<close>

definition sim_stream :: "string \<Rightarrow> string \<Rightarrow> cluster \<Rightarrow> error option \<times> cluster" where
  "sim_stream namespace podName c =
     (if list_ex (\<lambda>pod. isPod namespace podName pod \<and> pod_Phase pod = PodRunning) (cl_pods c)
      then (None, c) else (Some NotFound, c))"

definition sim :: "(string \<Rightarrow> bool) \<Rightarrow> cluster client" where
  "sim valid =
     \<lparr>api_inClusterConfig = answer EInClusterConfig Some (\<lambda>c. (None, c)),
      api_kubeConfig = answer EKubeConfig Some (\<lambda>c. (None, c)),
      api_newExecutor = answer ENewExecutor Some (\<lambda>c. (None, c)),
      api_stream = (\<lambda>namespace podName containerName command io.
         answer (EExec namespace podName containerName command io) Some
           (sim_stream namespace podName)),
      api_listVolumes = answer EListVolumes Inl (\<lambda>c. (Inr (cl_volumes c), c)),
      api_listPVCs = (\<lambda>namespace selector.
         answer (EListPVCs namespace selector) Inl
           (\<lambda>c. (Inr (filter (\<lambda>pvc. pvc_Namespace pvc = namespace \<and> selected selector (pvc_Labels pvc))
                         (cl_pvcs c)), c))),
      api_listPods = (\<lambda>namespace selector.
         answer (EListPods namespace selector) Inl
           (\<lambda>c. (Inr (filter (\<lambda>pod. pod_Namespace pod = namespace \<and> selected selector (pod_Labels pod))
                         (cl_pods c)), c))),
      api_listPVs = (\<lambda>selector.
         answer (EListPVs selector) Inl
           (\<lambda>c. (Inr (filter (\<lambda>pv. selected selector (pv_Labels pv)) (cl_pvs c)), c))),
      api_getPV = (\<lambda>name. answer (EGetPV name) Inl (\<lambda>c. (lookup (isPV name) (cl_pvs c), c))),
      api_getPVC = (\<lambda>namespace name.
         answer (EGetPVC namespace name) Inl (\<lambda>c. (lookup (isPVC namespace name) (cl_pvcs c), c))),
      api_getPod = (\<lambda>namespace name.
         answer (EGetPod namespace name) Inl (\<lambda>c. (lookup (isPod namespace name) (cl_pods c), c))),
      api_createPV = (\<lambda>pv. answer (ECreatePV pv) Some (sim_createPV pv)),
      api_createPVC = (\<lambda>namespace pvc. answer (ECreatePVC namespace pvc) Some (sim_createPVC namespace pvc)),
      api_createPod = (\<lambda>namespace pod. answer (ECreatePod namespace pod) Some (sim_createPod namespace pod)),
      api_deletePod = (\<lambda>namespace name. answer (EDeletePod namespace name) Some (sim_deletePod namespace name)),
      api_deletePVC = (\<lambda>namespace name. answer (EDeletePVC namespace name) Some (sim_deletePVC namespace name)),
      api_deletePV = (\<lambda>name. answer (EDeletePV name) Some (sim_deletePV name)),
      api_readLine = (\<lambda>c. (cl_input c, c)),
      api_sleep = ticks,
      api_validQuantity = valid\<rparr>"

text \<open>
  Longhorn writes a volume's size as a number of bytes in decimal; those are the quantities
  of the example clusters.
\<close>

definition decimalQuantity :: "string \<Rightarrow> bool" where
  "decimalQuantity q = (q \<noteq> [] \<and> list_all (\<lambda>c. c \<in> set ''0123456789'') q)"

definition noFaults :: "event \<Rightarrow> error option" where
  "noFaults ev = None"

text \<open>
  A cluster with one Longhorn volume, \<^verbatim>\<open>data\<close>, of 1 GiB, that no PV is bound to, and
  nothing else; its controllers are awake.
\<close>

definition detachedCluster :: cluster where
  "detachedCluster =
     \<lparr>cl_volumes = [\<lparr>item_Name = ''data'', item_State = Some ''detached'',
                      item_Size = Some ''1073741824'', item_PVName = None\<rparr>],
      cl_pvs = [], cl_pvcs = [], cl_pods = [], cl_delay = 0, cl_faults = noFaults,
      cl_input = ''n''\<rparr>"

text \<open>The objects of a workload that uses a volume: a bound PV, a bound claim, a running pod.\<close>

definition exampleVolume :: "string \<Rightarrow> string \<Rightarrow> string option \<Rightarrow> item" where
  "exampleVolume name state pvName =
     \<lparr>item_Name = name, item_State = Some state, item_Size = Some ''1073741824'',
      item_PVName = pvName\<rparr>"

definition examplePV :: "string \<Rightarrow> string \<Rightarrow> PersistentVolume" where
  "examplePV name handle =
     \<lparr>pv_Name = name, pv_Labels = [], pv_Storage = ''1073741824'',
      pv_AccessModes = [''ReadWriteOnce''], pv_ReclaimPolicy = ''Delete'',
      pv_StorageClassName = ''longhorn'', pv_Driver = ''driver.longhorn.io'',
      pv_VolumeHandle = handle, pv_FSType = ''ext4'', pv_VolumeAttributes = [],
      pv_Phase = ''Bound''\<rparr>"

definition exampleClaim :: "string \<Rightarrow> string \<Rightarrow> PersistentVolumeClaim" where
  "exampleClaim name pvName =
     \<lparr>pvc_Name = name, pvc_Namespace = ''default'', pvc_Labels = [],
      pvc_AccessModes = [''ReadWriteOnce''], pvc_Storage = ''1073741824'',
      pvc_StorageClassName = ''longhorn'', pvc_VolumeName = pvName, pvc_Phase = ''Bound''\<rparr>"

definition examplePod :: "string \<Rightarrow> string \<Rightarrow> string \<Rightarrow> string \<Rightarrow> Pod" where
  "examplePod name containerName claim path =
     \<lparr>pod_Name = name, pod_Namespace = ''default'', pod_Labels = [(''app'', name)],
      pod_Containers =
        [\<lparr>container_Name = containerName, container_Image = ''postgres:16'',
          container_Command = [],
          container_VolumeMounts = [\<lparr>mount_Name = ''storage'', mount_MountPath = path\<rparr>]\<rparr>],
      pod_Volumes = [\<lparr>volume_Name = ''storage'', volume_ClaimName = Some claim\<rparr>],
      pod_RestartPolicy = ''Always'', pod_Phase = ''Running''\<rparr>"

text \<open>
  A cluster where the volume \<^verbatim>\<open>data\<close> is in use: it is bound to the PV \<^verbatim>\<open>pv-data\<close>,
  the claim \<^verbatim>\<open>data-claim\<close> is bound to that PV, and the running pod \<^verbatim>\<open>db-0\<close> mounts
  the claim at \<^verbatim>\<open>/var/lib/db\<close> in its container \<^verbatim>\<open>db\<close>.
\<close>

definition attachedCluster :: cluster where
  "attachedCluster =
     \<lparr>cl_volumes = [exampleVolume ''data'' ''attached'' (Some ''pv-data'')],
      cl_pvs = [examplePV ''pv-data'' ''data''],
      cl_pvcs = [exampleClaim ''data-claim'' ''pv-data''],
      cl_pods = [examplePod ''db-0'' ''db'' ''data-claim'' ''/var/lib/db''],
      cl_delay = 0, cl_faults = noFaults, cl_input = ''n''\<rparr>"

text \<open>
  The same, with a second volume \<^verbatim>\<open>backup\<close> in use by the pod \<^verbatim>\<open>restore-0\<close>, which
  mounts it at \<^verbatim>\<open>/restore\<close>.
\<close>

definition copyCluster :: cluster where
  "copyCluster =
     \<lparr>cl_volumes = [exampleVolume ''data'' ''attached'' (Some ''pv-data''),
                     exampleVolume ''backup'' ''attached'' (Some ''pv-backup'')],
      cl_pvs = [examplePV ''pv-data'' ''data'', examplePV ''pv-backup'' ''backup''],
      cl_pvcs = [exampleClaim ''data-claim'' ''pv-data'', exampleClaim ''backup-claim'' ''pv-backup''],
      cl_pods = [examplePod ''db-0'' ''db'' ''data-claim'' ''/var/lib/db'',
                 examplePod ''restore-0'' ''tool'' ''backup-claim'' ''/restore''],
      cl_delay = 0, cl_faults = noFaults, cl_input = ''n''\<rparr>"

text \<open>
  What a run on the first cluster leaves behind: the temporary PV, claim and pod of the
  volume \<^verbatim>\<open>data\<close>.
\<close>

definition leftoverCluster :: cluster where
  "leftoverCluster =
     \<lparr>cl_volumes = [\<lparr>item_Name = ''data'', item_State = Some ''attached'',
                      item_Size = Some ''1073741824'', item_PVName = None\<rparr>],
      cl_pvs = [temporaryPV ''lhc-temp-pv-data'' ''data'' ''longhorn'' ''1073741824''
                  \<lparr>pv_Phase := ''Bound''\<rparr>],
      cl_pvcs = [temporaryPVC ''lhc-temp-pvc-data'' ''default'' ''longhorn'' ''lhc-temp-pv-data''
                   ''1073741824''\<lparr>pvc_Phase := ClaimBound\<rparr>],
      cl_pods = [temporaryPod ''lhc-temp-pod-data'' ''default'' ''temp-container'' ''/mnt/volume''
                   ''lhc-temp-pvc-data''\<lparr>pod_Phase := PodRunning\<rparr>],
      cl_delay = 0, cl_faults = noFaults, cl_input = ''n''\<rparr>"

text \<open>The same objects where the operator may not delete anything, and answers \<^verbatim>\<open>y\<close>.\<close>

definition forbiddenDeletes :: "event \<Rightarrow> error option" where
  "forbiddenDeletes ev =
     (case ev of
        EDeletePod _ _ \<Rightarrow> Some Forbidden
      | EDeletePVC _ _ \<Rightarrow> Some Forbidden
      | EDeletePV _ \<Rightarrow> Some Forbidden
      | _ \<Rightarrow> None)"

definition lockedCluster :: cluster where
  "lockedCluster = leftoverCluster\<lparr>cl_faults := forbiddenDeletes, cl_input := ''y''\<rparr>"

text \<open>The same objects where the operator types more than the one letter.\<close>

definition chattyCluster :: cluster where
  "chattyCluster = leftoverCluster\<lparr>cl_input := ''y n''\<rparr>"

text \<open>
  Two running pods, and an exec channel that breaks whenever a command's output goes to
  the pipe: the archive command of the source fails, every other command runs.
\<close>

definition brokenSource :: "event \<Rightarrow> error option" where
  "brokenSource ev =
     (case ev of
        EExec _ _ _ _ io \<Rightarrow> (if io = ToWriter then Some StreamBroken else None)
      | _ \<Rightarrow> None)"

definition twoPods :: cluster where
  "twoPods =
     \<lparr>cl_volumes = [], cl_pvs = [], cl_pvcs = [],
      cl_pods =
        [temporaryPod ''lhc-temp-pod-a'' ''default'' ''temp-container'' ''/mnt/volume''
           ''lhc-temp-pvc-a''\<lparr>pod_Phase := PodRunning\<rparr>,
         temporaryPod ''lhc-temp-pod-b'' ''default'' ''temp-container'' ''/mnt/volume''
           ''lhc-temp-pvc-b''\<lparr>pod_Phase := PodRunning\<rparr>],
      cl_delay = 0, cl_faults = brokenSource, cl_input = []\<rparr>"

section \<open>Reading the log\<close>

definition isDelete :: "event \<Rightarrow> bool" where
  "isDelete ev = (case ev of EDeletePod _ _ \<Rightarrow> True | EDeletePVC _ _ \<Rightarrow> True | EDeletePV _ \<Rightarrow> True | _ \<Rightarrow> False)"

definition isScan :: "event \<Rightarrow> bool" where
  "isScan ev = (case ev of EScanln _ \<Rightarrow> True | _ \<Rightarrow> False)"

definition isWarning :: "event \<Rightarrow> bool" where
  "isWarning ev = (case ev of EPrintf f _ \<Rightarrow> take 9 f = ''Warning: '' | _ \<Rightarrow> False)"

definition isFailed :: "event \<Rightarrow> bool" where
  "isFailed ev = (case ev of EFailed _ \<Rightarrow> True | _ \<Rightarrow> False)"

definition unreported :: "event list \<Rightarrow> int" where
  "unreported tr = int (length (filter isFailed tr)) - int (length (filter isWarning tr))"

section \<open>Footprints of the provisioning steps\<close>

text \<open>A cluster whose claim and pod reads fail, and the relation saying that a step only appends
  events of a given kind to the log.\<close>

definition unreadable :: "event \<Rightarrow> error option" where
  "unreadable ev =
     (case ev of
        EGetPVC _ _ \<Rightarrow> Some Unavailable
      | EGetPod _ _ \<Rightarrow> Some Unavailable
      | _ \<Rightarrow> None)"

definition unreadableCluster :: cluster where
  "unreadableCluster = detachedCluster\<lparr>cl_faults := unreadable\<rparr>"

definition logs :: "(event \<Rightarrow> bool) \<Rightarrow> 'w st \<Rightarrow> 'w st \<Rightarrow> bool" where
  "logs A s s' = (\<exists>evs. snd s' = snd s @ evs \<and> list_all A evs)"

text \<open>The events of a direct provisioning of \<open>volumeName\<close> in \<open>namespace\<close>.\<close>

definition provisionEvent :: "string \<Rightarrow> string \<Rightarrow> event \<Rightarrow> bool" where
  "provisionEvent volumeName namespace ev =
     (case ev of
        EListVolumes \<Rightarrow> True
      | EFailed _ \<Rightarrow> True
      | EGetPV name \<Rightarrow> name = ''lhc-temp-pv-'' @ volumeName
      | ECreatePV pv \<Rightarrow> pv_Name pv = ''lhc-temp-pv-'' @ volumeName \<and> pv_ReclaimPolicy pv = ''Retain''
      | EGetPVC ns name \<Rightarrow> ns = namespace \<and> name = ''lhc-temp-pvc-'' @ volumeName
      | ECreatePVC ns pvc \<Rightarrow> ns = namespace \<and> pvc_Name pvc = ''lhc-temp-pvc-'' @ volumeName
      | EGetPod ns name \<Rightarrow> ns = namespace \<and> name = ''lhc-temp-pod-'' @ volumeName
      | ECreatePod ns pod \<Rightarrow> ns = namespace \<and> pod_Name pod = ''lhc-temp-pod-'' @ volumeName
      | ESleep n \<Rightarrow> n = 1
      | EPrintf f _ \<Rightarrow>
          f = ''Waiting for PVC %s to be bound...\<newline>''
          \<or> f = ''PVC %s is now bound to PV %s\<newline>''
          \<or> f = ''Waiting for temporary pod %s to be ready...\<newline>''
      | _ \<Rightarrow> False)"

section \<open>Clusters whose reads fail\<close>

text \<open>
  An outage of the API server's reads of single objects: every \<^verbatim>\<open>Get\<close> of a PV, a claim or
  a pod fails with \<^verbatim>\<open>Unavailable\<close>; listing and creating work. The cluster holds the
  temporary objects of the volume \<^verbatim>\<open>data\<close> already.
\<close>

definition outage :: "event \<Rightarrow> error option" where
  "outage ev =
     (case ev of
        EGetPV _ \<Rightarrow> Some Unavailable
      | EGetPVC _ _ \<Rightarrow> Some Unavailable
      | EGetPod _ _ \<Rightarrow> Some Unavailable
      | _ \<Rightarrow> None)"

definition outageCluster :: cluster where
  "outageCluster = leftoverCluster\<lparr>cl_faults := outage\<rparr>"

text \<open>
  A cluster whose controllers are slow: the volume \<^verbatim>\<open>data\<close> is detached and has no
  PV, and nothing is bound or started during the first 1000 seconds.
\<close>

definition slowCluster :: cluster where
  "slowCluster = detachedCluster\<lparr>cl_delay := 1000\<rparr>"

text \<open>
  A cluster where only the reads of single pods fail; its controllers bind a claim and
  start a pod after one second.
\<close>

definition unreadablePods :: "event \<Rightarrow> error option" where
  "unreadablePods ev = (case ev of EGetPod _ _ \<Rightarrow> Some Unavailable | _ \<Rightarrow> None)"

definition unwatchedCluster :: cluster where
  "unwatchedCluster = detachedCluster\<lparr>cl_faults := unreadablePods\<rparr>"


section \<open>The fallback path\<close>

text \<open>
  The events that only \<^verbatim>\<open>createSnapshotBasedAccess\<close> produces: the line it prints first,
  and the creation of a PV with reclaim policy \<^verbatim>\<open>Delete\<close> (the PV that
  \<^verbatim>\<open>createTemporaryPV\<close> builds has \<^verbatim>\<open>Retain\<close>).
\<close>

definition fallbackEvent :: "event \<Rightarrow> bool" where
  "fallbackEvent ev =
     (case ev of
        EPrintf f _ \<Rightarrow> f = ''Creating temporary RWX volume for multi-attach access to %s...\<newline>''
      | ECreatePV pv \<Rightarrow> pv_ReclaimPolicy pv = ''Delete''
      | _ \<Rightarrow> False)"

text \<open>
  The cluster of the workload where the pod mounts the claim in no container: the volume is
  in use, and no existing mount gives access to it.
\<close>

definition sidecarCluster :: cluster where
  "sidecarCluster =
     attachedCluster\<lparr>cl_pods :=
       [examplePod ''db-0'' ''db'' ''data-claim'' ''/var/lib/db''\<lparr>pod_Containers :=
          [\<lparr>container_Name = ''db'', container_Image = ''postgres:16'', container_Command = [],
            container_VolumeMounts = []\<rparr>]\<rparr>]\<rparr>"

text \<open>The cluster of the workload without its pod: the volume has a bound PV and is not in use.\<close>

definition idleCluster :: cluster where
  "idleCluster = attachedCluster\<lparr>cl_pods := []\<rparr>"

text \<open>
  The cluster of the workload without its pod, where the operator may not create pods: the
  provisioning fails at its last step.
\<close>

definition podsForbidden :: "event \<Rightarrow> error option" where
  "podsForbidden ev = (case ev of ECreatePod _ _ \<Rightarrow> Some Forbidden | _ \<Rightarrow> None)"

definition deniedCluster :: cluster where
  "deniedCluster = idleCluster\<lparr>cl_faults := podsForbidden\<rparr>"

section \<open>What a cluster keeps\<close>

text \<open>
  From \<open>c\<close> to \<open>c'\<close> the cluster keeps its Longhorn volumes and its faults, and every PV and
  every claim of \<open>c\<close> is still there in \<open>c'\<close>, under its name.
\<close>

definition keeps :: "cluster \<Rightarrow> cluster \<Rightarrow> bool" where
  "keeps c c' =
     (cl_volumes c' = cl_volumes c \<and> cl_faults c' = cl_faults c
      \<and> (\<forall>name. list_ex (isPV name) (cl_pvs c) \<longrightarrow> list_ex (isPV name) (cl_pvs c'))
      \<and> (\<forall>namespace name. list_ex (isPVC namespace name) (cl_pvcs c)
            \<longrightarrow> list_ex (isPVC namespace name) (cl_pvcs c')))"

text \<open>The pod that a lookup of the name finds is running.\<close>

definition runs :: "string \<Rightarrow> string \<Rightarrow> cluster \<Rightarrow> bool" where
  "runs namespace podName c =
     (case lookup (isPod namespace podName) (cl_pods c) of
        Inr pod \<Rightarrow> pod_Phase pod = PodRunning
      | Inl _ \<Rightarrow> False)"

section \<open>Evaluating the loops on numerals\<close>

lemma recvLoop_numeral:
  "recvLoop (numeral k) chan s = recvLoop (Suc (pred_numeral k)) chan s"
  by (simp add: numeral_eq_Suc)

lemma waitPVCBound_numeral:
  "waitPVCBound api namespace pvcName (numeral k) s =
   waitPVCBound api namespace pvcName (Suc (pred_numeral k)) s"
  by (simp add: numeral_eq_Suc)

lemma waitPodRunning_numeral:
  "waitPodRunning api namespace podName mountPath containerName (numeral k) s =
   waitPodRunning api namespace podName mountPath containerName (Suc (pred_numeral k)) s"
  by (simp add: numeral_eq_Suc)

lemmas loop_numerals = recvLoop_numeral waitPVCBound_numeral waitPodRunning_numeral

lemmas exec_defs =
  loop_numerals call_def query_def emit_def emits_def sleep_def scan_def scanlnWord_def spaceLen_def
  getConfig_def execStream_def execInPod_def execInPodWithOutput_def execInPodWithInput_def

lemmas sim_defs =
  sim_def answer_def lookup_def selected_def isPV_def isPVC_def isPod_def bindClaim_def
  claimsBound_def startPod_def tick_def sim_createPV_def sim_createPVC_def sim_createPod_def
  sim_deletePod_def sim_deletePVC_def sim_deletePV_def sim_stream_def decimalQuantity_def
  noFaults_def PodRunning_def ClaimBound_def temporaryPV_def temporaryRWXPV_def
  temporaryPVC_def temporaryPod_def tempLabels_def

section \<open>The streaming copy takes one result or two\<close>

text \<open>
  C1. The claim: whenever one of the two tasks reports an error, the copy engine takes both
  results from the channel before it returns. The loop of \<^verbatim>\<open>streamCopyBetweenPods\<close>
  is under the comment \<^verbatim>\<open>// Wait for both operations to complete\<close>, and returns
  from inside at the first error it receives. Here the archive command of the source fails
  and its result reaches the channel first: the copy fails, as the claim says, after one
  receive, the consumer's result still unread.
\<close>

theorem streamCopy_returns_at_first_error:
  "fst (streamCopyBetweenPods (sim decimalQuantity) True ''default''
          ''lhc-temp-pod-a'' ''temp-container'' ''/mnt/volume''
          ''lhc-temp-pod-b'' ''temp-container'' ''/mnt/volume'' (twoPods, []))
     = Err (Errorf ''stream copy failed: %v''
              [AErr (Errorf ''failed to execute command: %v'' [AErr StreamBroken])])
   \<and> received (snd (snd (streamCopyBetweenPods (sim decimalQuantity) True ''default''
          ''lhc-temp-pod-a'' ''temp-container'' ''/mnt/volume''
          ''lhc-temp-pod-b'' ''temp-container'' ''/mnt/volume'' (twoPods, [])))) = 1"
  by (simp add: exec_defs sim_defs streamCopyBetweenPods_def received_def twoPods_def
        brokenSource_def)

section \<open>What the clearing of the destination leaves behind\<close>

text \<open>
  C6. The claim: the destination's mount root is cleared of all its contents, hidden
  entries included, before the stream starts. The command has three patterns, the second
  and third for the hidden entries; the second, \<^verbatim>\<open>.[^.]\<close>, matches a period and
  exactly one more character. A hidden entry of three characters or more whose second
  character is not a period, such as \<^verbatim>\<open>.git\<close>, is matched by none of the three and
  stays in the destination.
\<close>

theorem clearCommand_leaves_hidden_entry:
  "shellWords (clearCommand ''/mnt/volume'') =
     [''rm'', ''-rf'', ''/mnt/volume/*'', ''/mnt/volume/.[^.]'', ''/mnt/volume/..?*'']
   \<and> leftAfterClear ''/mnt/volume'' [''data.db'', ''lost+found'', ''.git'', ''.a'', ''..old'']
       = [''.git'']"
  by (simp add: leftAfterClear_def removedByClear_def clearPatterns_def shellWords_def
        clearCommand_def globMatchesName_def)

section \<open>The sweep asks before it deletes\<close>

lemma isDelete_simps [simp]:
  "\<not> isDelete (EPrintf f args)" "\<not> isDelete (EFailed e)" "\<not> isDelete (EListPods n l)"
  "\<not> isDelete (EListPVCs n l)" "\<not> isDelete (EListPVs l)" "\<not> isDelete (EScanln r)"
  "isDelete (EDeletePod n p)" "isDelete (EDeletePVC n p)" "isDelete (EDeletePV p)"
  by (simp_all add: isDelete_def)

lemma isScan_simps [simp]:
  "\<not> isScan (EPrintf f args)" "\<not> isScan (EFailed e)" "\<not> isScan (EListPods n l)"
  "\<not> isScan (EListPVCs n l)" "\<not> isScan (EListPVs l)" "isScan (EScanln r)"
  "\<not> isScan (EDeletePod n p)" "\<not> isScan (EDeletePVC n p)" "\<not> isScan (EDeletePV p)"
  by (simp_all add: isScan_def)

lemma foundResources_quiet:
  "\<not> list_ex isDelete (foundResources pods pvcs pvs)" "\<not> list_ex isScan (foundResources pods pvcs pvs)"
  by (auto simp: foundResources_def list_ex_iff)

lemma call_trace:
  "call ev f s = (r, s') \<Longrightarrow> snd s' = snd s @ ev # (case r of Some e \<Rightarrow> [EFailed e] | None \<Rightarrow> [])"
  by (auto simp: call_def split: prod.splits)

lemma query_trace:
  "query ev f s = (r, s') \<Longrightarrow> snd s' = snd s @ ev # (case r of Inl e \<Rightarrow> [EFailed e] | Inr _ \<Rightarrow> [])"
  by (auto simp: query_def split: prod.splits)

lemma scan_trace:
  "scan api s = (r, s') \<Longrightarrow> \<exists>line. r = scanlnWord line \<and> snd s' = snd s @ [EScanln line]"
  by (auto simp: scan_def split: prod.splits)

lemma deletePods_appends:
  "\<exists>evs. snd (deletePods api namespace pods s) = snd s @ evs \<and> \<not> list_ex isScan evs"
proof (induction pods arbitrary: s)
  case Nil
  show ?case by simp
next
  case (Cons pod pods)
  obtain r s1 where c: "call (EDeletePod namespace (pod_Name pod)) (api_deletePod api namespace (pod_Name pod))
             (emit (EPrintf ''Deleting pod %s...\<newline>'' [AStr (pod_Name pod)]) s) = (r, s1)"
    by (metis surj_pair)
  from call_trace [OF c] have s1: "\<exists>evs. snd s1 = snd s @ evs \<and> \<not> list_ex isScan evs"
    by (cases r) (simp_all add: emit_def)
  show ?case
  proof (cases r)
    case None
    with c Cons.IH [of s1] s1 show ?thesis by auto
  next
    case (Some e)
    with c Cons.IH [of "emit (EPrintf ''Warning: failed to delete pod %s: %v\<newline>'' [AStr (pod_Name pod), AErr e]) s1"] s1
    show ?thesis by (auto simp: emit_def)
  qed
qed

lemma deletePVCs_appends:
  "\<exists>evs. snd (deletePVCs api namespace pvcs s) = snd s @ evs \<and> \<not> list_ex isScan evs"
proof (induction pvcs arbitrary: s)
  case Nil
  show ?case by simp
next
  case (Cons pvc pvcs)
  obtain r s1 where c: "call (EDeletePVC namespace (pvc_Name pvc)) (api_deletePVC api namespace (pvc_Name pvc))
             (emit (EPrintf ''Deleting PVC %s...\<newline>'' [AStr (pvc_Name pvc)]) s) = (r, s1)"
    by (metis surj_pair)
  from call_trace [OF c] have s1: "\<exists>evs. snd s1 = snd s @ evs \<and> \<not> list_ex isScan evs"
    by (cases r) (simp_all add: emit_def)
  show ?case
  proof (cases r)
    case None
    with c Cons.IH [of s1] s1 show ?thesis by auto
  next
    case (Some e)
    with c Cons.IH [of "emit (EPrintf ''Warning: failed to delete PVC %s: %v\<newline>'' [AStr (pvc_Name pvc), AErr e]) s1"] s1
    show ?thesis by (auto simp: emit_def)
  qed
qed

lemma deletePVs_appends:
  "\<exists>evs. snd (deletePVs api pvs s) = snd s @ evs \<and> \<not> list_ex isScan evs"
proof (induction pvs arbitrary: s)
  case Nil
  show ?case by simp
next
  case (Cons pv pvs)
  obtain r s1 where c: "call (EDeletePV (pv_Name pv)) (api_deletePV api (pv_Name pv))
             (emit (EPrintf ''Deleting PV %s...\<newline>'' [AStr (pv_Name pv)]) s) = (r, s1)"
    by (metis surj_pair)
  from call_trace [OF c] have s1: "\<exists>evs. snd s1 = snd s @ evs \<and> \<not> list_ex isScan evs"
    by (cases r) (simp_all add: emit_def)
  show ?case
  proof (cases r)
    case None
    with c Cons.IH [of s1] s1 show ?thesis by auto
  next
    case (Some e)
    with c Cons.IH [of "emit (EPrintf ''Warning: failed to delete PV %s: %v\<newline>'' [AStr (pv_Name pv), AErr e]) s1"] s1
    show ?thesis by (auto simp: emit_def)
  qed
qed

lemma sweep_structure:
  "(\<exists>e. fst (CleanupTemporaryResources api namespace (w, [])) = Err e
        \<and> \<not> list_ex isDelete (snd (snd (CleanupTemporaryResources api namespace (w, []))))
        \<and> \<not> list_ex isScan (snd (snd (CleanupTemporaryResources api namespace (w, [])))))
   \<or> (fst (CleanupTemporaryResources api namespace (w, [])) = Ok ()
        \<and> \<not> list_ex isDelete (snd (snd (CleanupTemporaryResources api namespace (w, []))))
        \<and> \<not> list_ex isScan (snd (snd (CleanupTemporaryResources api namespace (w, [])))))
   \<or> (\<exists>pre line post. fst (CleanupTemporaryResources api namespace (w, [])) = Ok ()
        \<and> snd (snd (CleanupTemporaryResources api namespace (w, []))) = pre @ EScanln line # post
        \<and> scanlnWord line \<noteq> ''y'' \<and> scanlnWord line \<noteq> ''Y''
        \<and> \<not> list_ex isDelete pre \<and> \<not> list_ex isScan pre
        \<and> \<not> list_ex isDelete post \<and> \<not> list_ex isScan post)
   \<or> (\<exists>pre line post. fst (CleanupTemporaryResources api namespace (w, [])) = Ok ()
        \<and> snd (snd (CleanupTemporaryResources api namespace (w, []))) = pre @ EScanln line # post
        \<and> (scanlnWord line = ''y'' \<or> scanlnWord line = ''Y'')
        \<and> \<not> list_ex isDelete pre \<and> \<not> list_ex isScan pre \<and> \<not> list_ex isScan post)"
proof -
  let ?R = "CleanupTemporaryResources api namespace (w, [])"
  obtain r1 s1 where q1:
    "query (EListPods namespace ''app=lhc-temp'') (api_listPods api namespace ''app=lhc-temp'')
       (emit (EPrintf ''Searching for temporary resources with 'lhc-temp-' prefix in namespace '%s'...\<newline>\<newline>''
                [AStr namespace]) (w, [])) = (r1, s1)"
    by (metis surj_pair)
  have t1: "\<not> list_ex isDelete (snd s1)" "\<not> list_ex isScan (snd s1)"
    using query_trace [OF q1] by (cases r1; simp add: emit_def)+
  show ?thesis
  proof (cases r1)
    case (Inl e)
    then have "?R = (Err (Errorf ''failed to list temporary pods: %v'' [AErr e]), s1)"
      by (simp add: CleanupTemporaryResources_def q1)
    with t1 show ?thesis by simp
  next
    case pods: (Inr pods)
    obtain r2 s2 where q2:
      "query (EListPVCs namespace ''app=lhc-temp'') (api_listPVCs api namespace ''app=lhc-temp'') s1 = (r2, s2)"
      by (metis surj_pair)
    have t2: "\<not> list_ex isDelete (snd s2)" "\<not> list_ex isScan (snd s2)"
      using query_trace [OF q2] t1 by (cases r2; simp)+
    show ?thesis
    proof (cases r2)
      case (Inl e)
      then have "?R = (Err (Errorf ''failed to list temporary PVCs: %v'' [AErr e]), s2)"
        by (simp add: CleanupTemporaryResources_def q1 q2 pods)
      with t2 show ?thesis by simp
    next
      case pvcs: (Inr pvcs)
      obtain r3 s3 where q3:
        "query (EListPVs ''app=lhc-temp'') (api_listPVs api ''app=lhc-temp'') s2 = (r3, s3)"
        by (metis surj_pair)
      have t3: "\<not> list_ex isDelete (snd s3)" "\<not> list_ex isScan (snd s3)"
        using query_trace [OF q3] t2 by (cases r3; simp)+
      show ?thesis
      proof (cases r3)
        case (Inl e)
        then have "?R = (Err (Errorf ''failed to list temporary PVs: %v'' [AErr e]), s3)"
          by (simp add: CleanupTemporaryResources_def q1 q2 q3 pods pvcs)
        with t3 show ?thesis by simp
      next
        case pvs: (Inr pvs)
        show ?thesis
        proof (cases "length pods + length pvcs + length pvs = 0")
          case True
          then have "?R = (Ok (), emit (EPrintf ''No temporary resources found.\<newline>'' []) s3)"
            by (simp add: CleanupTemporaryResources_def q1 q2 q3 pods pvcs pvs)
          with t3 show ?thesis by (simp add: emit_def)
        next
          case False
          obtain r s4 where sc:
            "scan api (emit confirmPrompt (emits (foundResources pods pvcs pvs) s3)) = (r, s4)"
            by (metis surj_pair)
          let ?pre = "snd s3 @ foundResources pods pvcs pvs @ [confirmPrompt]"
          from scan_trace [OF sc] obtain line where
            word: "r = scanlnWord line"
            and t4: "snd s4 = ?pre @ [EScanln line]"
            by (auto simp: emit_def emits_def)
          have pre: "\<not> list_ex isDelete ?pre" "\<not> list_ex isScan ?pre"
            using t3 foundResources_quiet by (simp_all add: confirmPrompt_def)
          show ?thesis
          proof (cases "r \<noteq> ''y'' \<and> r \<noteq> ''Y''")
            case True
            then have "?R = (Ok (), emit (EPrintf ''Cleanup cancelled.\<newline>'' []) s4)"
              using False by (auto simp add: CleanupTemporaryResources_def q1 q2 q3 pods pvcs pvs sc)
            then have "fst ?R = Ok ()"
              and "snd (snd ?R) = ?pre @ EScanln line # [EPrintf ''Cleanup cancelled.\<newline>'' []]"
              using t4 by (simp_all add: emit_def)
            with True pre word have "\<exists>pre line post. fst ?R = Ok ()
                \<and> snd (snd ?R) = pre @ EScanln line # post
                \<and> scanlnWord line \<noteq> ''y'' \<and> scanlnWord line \<noteq> ''Y''
                \<and> \<not> list_ex isDelete pre \<and> \<not> list_ex isScan pre
                \<and> \<not> list_ex isDelete post \<and> \<not> list_ex isScan post"
              by (intro exI [of _ ?pre] exI [of _ line]
                    exI [of _ "[EPrintf ''Cleanup cancelled.\<newline>'' []]"]) simp
            then show ?thesis by (rule disjI2 [OF disjI2 [OF disjI1]])
          next
            case yes: False
            let ?s5 = "emit (EPrintf ''\<newline>Deleting resources...\<newline>'' []) s4"
            from yes have R: "?R = (Ok (), emit (EPrintf ''\<newline>Cleanup completed.\<newline>'' [])
                    (deletePVs api pvs (deletePVCs api namespace pvcs (deletePods api namespace pods ?s5))))"
              using False by (auto simp add: CleanupTemporaryResources_def q1 q2 q3 pods pvcs pvs sc)
            obtain e1 where e1: "snd (deletePods api namespace pods ?s5) = snd ?s5 @ e1" "\<not> list_ex isScan e1"
              using deletePods_appends by blast
            obtain e2 where e2: "snd (deletePVCs api namespace pvcs (deletePods api namespace pods ?s5))
                 = snd (deletePods api namespace pods ?s5) @ e2" "\<not> list_ex isScan e2"
              using deletePVCs_appends by blast
            obtain e3 where e3: "snd (deletePVs api pvs (deletePVCs api namespace pvcs (deletePods api namespace pods ?s5)))
                 = snd (deletePVCs api namespace pvcs (deletePods api namespace pods ?s5)) @ e3" "\<not> list_ex isScan e3"
              using deletePVs_appends by blast
            let ?post = "EPrintf ''\<newline>Deleting resources...\<newline>'' [] # e1 @ e2 @ e3 @ [EPrintf ''\<newline>Cleanup completed.\<newline>'' []]"
            have "fst ?R = Ok ()" and "snd (snd ?R) = ?pre @ EScanln line # ?post"
              using R e1 e2 e3 t4 by (simp_all add: emit_def)
            moreover have "\<not> list_ex isScan ?post" using e1 e2 e3 by simp
            ultimately have "\<exists>pre line post. fst ?R = Ok ()
                \<and> snd (snd ?R) = pre @ EScanln line # post
                \<and> (scanlnWord line = ''y'' \<or> scanlnWord line = ''Y'')
                \<and> \<not> list_ex isDelete pre \<and> \<not> list_ex isScan pre \<and> \<not> list_ex isScan post"
              using yes pre word by (intro exI [of _ ?pre] exI [of _ line] exI [of _ ?post]) simp
            then show ?thesis by (rule disjI2 [OF disjI2 [OF disjI2]])
          qed
        qed
      qed
    qed
  qed
qed

text \<open>
  C8, as the claim states it, fails. The program compares with \<^verbatim>\<open>y\<close> and \<^verbatim>\<open>Y\<close> the word
  that \<^verbatim>\<open>Scanln\<close> stored, not the line the operator typed, and drops the error that
  \<^verbatim>\<open>Scanln\<close> returns for a line of more than one word. Here the cluster holds the three
  temporary objects of the volume \<^verbatim>\<open>data\<close> and the operator types \<^verbatim>\<open>y n\<close>, a response
  other than \<^verbatim>\<open>y\<close> and \<^verbatim>\<open>Y\<close>: the sweep calls the three deletions and the cluster
  holds no pod, claim or PV afterwards.
\<close>

theorem sweep_deletes_on_longer_response:
  "EScanln ''y n'' \<in> set (snd (snd (CleanupTemporaryResources (sim decimalQuantity) ''default''
                                      (chattyCluster, []))))
   \<and> filter isDelete (snd (snd (CleanupTemporaryResources (sim decimalQuantity) ''default''
                                  (chattyCluster, [])))) =
       [EDeletePod ''default'' ''lhc-temp-pod-data'', EDeletePVC ''default'' ''lhc-temp-pvc-data'',
        EDeletePV ''lhc-temp-pv-data'']
   \<and> cl_pods (fst (snd (CleanupTemporaryResources (sim decimalQuantity) ''default'' (chattyCluster, [])))) = []
   \<and> cl_pvcs (fst (snd (CleanupTemporaryResources (sim decimalQuantity) ''default'' (chattyCluster, [])))) = []
   \<and> cl_pvs (fst (snd (CleanupTemporaryResources (sim decimalQuantity) ''default'' (chattyCluster, [])))) = []"
  by code_simp

text \<open>
  C8, as amended. The sweep deletes only after a line whose first word is \<^verbatim>\<open>y\<close> or
  \<^verbatim>\<open>Y\<close>, the word being what stands between the spaces at the start of the line and the
  next space or the end of the line. Whatever the cluster answers: if the log of a sweep
  has a deletion, it has the reading of a line with that first word, and nothing is deleted
  before the line is read; if a line with any other first word, or with no word, was read,
  the sweep returns success and its log has no deletion; and when the three lists are empty
  the sweep returns success at once, its log being the search line, the three list calls
  and the line that nothing was found: no prompt, no reading, no deletion.
\<close>

theorem sweep_deletes_only_when_confirmed:
  "(list_ex isDelete (snd (snd (CleanupTemporaryResources api namespace (w, []))))
      \<longrightarrow> (\<exists>line. EScanln line \<in> set (snd (snd (CleanupTemporaryResources api namespace (w, []))))
                  \<and> (scanlnWord line = ''y'' \<or> scanlnWord line = ''Y'')))
   \<and> \<not> list_ex isDelete
         (takeWhile (\<lambda>ev. \<not> isScan ev) (snd (snd (CleanupTemporaryResources api namespace (w, [])))))
   \<and> (\<forall>line. EScanln line \<in> set (snd (snd (CleanupTemporaryResources api namespace (w, []))))
            \<and> scanlnWord line \<noteq> ''y'' \<and> scanlnWord line \<noteq> ''Y''
          \<longrightarrow> fst (CleanupTemporaryResources api namespace (w, [])) = Ok ()
              \<and> \<not> list_ex isDelete (snd (snd (CleanupTemporaryResources api namespace (w, [])))))
   \<and> (api_listPods api namespace ''app=lhc-temp'' w = (Inr [], w1)
        \<and> api_listPVCs api namespace ''app=lhc-temp'' w1 = (Inr [], w2)
        \<and> api_listPVs api ''app=lhc-temp'' w2 = (Inr [], w3)
          \<longrightarrow> CleanupTemporaryResources api namespace (w, []) =
                (Ok (),
                 (w3, [EPrintf ''Searching for temporary resources with 'lhc-temp-' prefix in namespace '%s'...\<newline>\<newline>''
                         [AStr namespace],
                       EListPods namespace ''app=lhc-temp'', EListPVCs namespace ''app=lhc-temp'',
                       EListPVs ''app=lhc-temp'',
                       EPrintf ''No temporary resources found.\<newline>'' []])))"
proof -
  let ?R = "CleanupTemporaryResources api namespace (w, [])"
  let ?T = "snd (snd ?R)"
  have tw: "takeWhile (\<lambda>ev. \<not> isScan ev) (pre @ EScanln r # post) = pre"
    if "\<not> list_ex isScan pre" for pre r post
    using that by (simp add: list_ex_iff takeWhile_append2)
  have tw': "takeWhile (\<lambda>ev. \<not> isScan ev) tr = tr" if "\<not> list_ex isScan tr" for tr
    using that by (simp add: list_ex_iff)
  have a: "list_ex isDelete ?T
      \<longrightarrow> (\<exists>line. EScanln line \<in> set ?T \<and> (scanlnWord line = ''y'' \<or> scanlnWord line = ''Y''))"
    using sweep_structure [of api namespace w] by (auto simp: list_ex_iff)
  have b: "\<not> list_ex isDelete (takeWhile (\<lambda>ev. \<not> isScan ev) ?T)"
    using sweep_structure [of api namespace w] by (auto simp: tw tw')
  have scanned: "list_ex isScan tr" if "EScanln r \<in> set tr" for r tr
    using that by (auto simp: list_ex_iff intro!: bexI [of _ "EScanln r"])
  have c: "\<forall>line. EScanln line \<in> set ?T \<and> scanlnWord line \<noteq> ''y'' \<and> scanlnWord line \<noteq> ''Y''
             \<longrightarrow> fst ?R = Ok () \<and> \<not> list_ex isDelete ?T"
    using sweep_structure [of api namespace w] by (auto dest: scanned)
  have d: "api_listPods api namespace ''app=lhc-temp'' w = (Inr [], w1)
        \<and> api_listPVCs api namespace ''app=lhc-temp'' w1 = (Inr [], w2)
        \<and> api_listPVs api ''app=lhc-temp'' w2 = (Inr [], w3)
          \<longrightarrow> ?R =
                (Ok (),
                 (w3, [EPrintf ''Searching for temporary resources with 'lhc-temp-' prefix in namespace '%s'...\<newline>\<newline>''
                         [AStr namespace],
                       EListPods namespace ''app=lhc-temp'', EListPVCs namespace ''app=lhc-temp'',
                       EListPVs ''app=lhc-temp'',
                       EPrintf ''No temporary resources found.\<newline>'' []]))"
    by (simp add: CleanupTemporaryResources_def query_def emit_def)
  from a b c d show ?thesis by blast
qed

lemma sweep_run_no:
  "CleanupTemporaryResources (sim decimalQuantity) ''default'' (leftoverCluster, []) =
   (Ok (),
    (leftoverCluster,
     [EPrintf ''Searching for temporary resources with 'lhc-temp-' prefix in namespace '%s'...\<newline>\<newline>''
        [AStr ''default''],
      EListPods ''default'' ''app=lhc-temp'', EListPVCs ''default'' ''app=lhc-temp'',
      EListPVs ''app=lhc-temp'',
      EPrintf ''Found %d temporary resources:\<newline>\<newline>'' [ANat 3],
      EPrintf ''Pods:\<newline>'' [],
      EPrintf ''  - %s (Status: %s)\<newline>'' [AStr ''lhc-temp-pod-data'', AStr ''Running''],
      EPrintf ''\<newline>'' [],
      EPrintf ''PersistentVolumeClaims:\<newline>'' [],
      EPrintf ''  - %s (Status: %s)\<newline>'' [AStr ''lhc-temp-pvc-data'', AStr ''Bound''],
      EPrintf ''\<newline>'' [],
      EPrintf ''PersistentVolumes:\<newline>'' [],
      EPrintf ''  - %s (Status: %s)\<newline>'' [AStr ''lhc-temp-pv-data'', AStr ''Bound''],
      EPrintf ''\<newline>'' [],
      EPrintf ''Do you want to delete these resources? (y/N): '' [],
      EScanln ''n'',
      EPrintf ''Cleanup cancelled.\<newline>'' []]))"
  by (simp add: CleanupTemporaryResources_def exec_defs sim_defs leftoverCluster_def
        foundResources_def confirmPrompt_def)

lemma sweep_run_yes:
  "list_ex isDelete (snd (snd (CleanupTemporaryResources (sim decimalQuantity) ''default'' (lockedCluster, []))))
   \<and> list_ex isDelete (snd (snd (CleanupTemporaryResources (sim decimalQuantity) ''default'' (chattyCluster, []))))
   \<and> EScanln '' no'' \<in> set (snd (snd (CleanupTemporaryResources (sim decimalQuantity) ''default''
                                        (leftoverCluster\<lparr>cl_input := '' no''\<rparr>, []))))"
  by code_simp

lemma sweep_words:
  "scanlnWord ''n'' \<noteq> ''y''" "scanlnWord ''n'' \<noteq> ''Y''"
  "scanlnWord '' no'' \<noteq> ''y''" "scanlnWord '' no'' \<noteq> ''Y''"
  by (simp_all add: scanlnWord_def spaceLen_def)

theorem sweep_deletes_only_when_confirmed_witness:
  "CleanupTemporaryResources (sim decimalQuantity) ''default'' (detachedCluster, []) =
     (Ok (),
      (detachedCluster,
       [EPrintf ''Searching for temporary resources with 'lhc-temp-' prefix in namespace '%s'...\<newline>\<newline>''
          [AStr ''default''],
        EListPods ''default'' ''app=lhc-temp'', EListPVCs ''default'' ''app=lhc-temp'',
        EListPVs ''app=lhc-temp'',
        EPrintf ''No temporary resources found.\<newline>'' []]))
   \<and> EScanln ''n'' \<in> set (snd (snd (CleanupTemporaryResources (sim decimalQuantity) ''default'' (leftoverCluster, []))))
   \<and> fst (CleanupTemporaryResources (sim decimalQuantity) ''default'' (leftoverCluster, [])) = Ok ()
   \<and> \<not> list_ex isDelete (snd (snd (CleanupTemporaryResources (sim decimalQuantity) ''default'' (leftoverCluster, []))))
   \<and> fst (CleanupTemporaryResources (sim decimalQuantity) ''default''
            (leftoverCluster\<lparr>cl_input := '' no''\<rparr>, [])) = Ok ()
   \<and> \<not> list_ex isDelete (snd (snd (CleanupTemporaryResources (sim decimalQuantity) ''default''
                                     (leftoverCluster\<lparr>cl_input := '' no''\<rparr>, []))))
   \<and> list_ex isDelete (snd (snd (CleanupTemporaryResources (sim decimalQuantity) ''default'' (lockedCluster, []))))
   \<and> (\<exists>line. EScanln line \<in> set (snd (snd (CleanupTemporaryResources (sim decimalQuantity) ''default''
                                              (lockedCluster, []))))
            \<and> (scanlnWord line = ''y'' \<or> scanlnWord line = ''Y''))
   \<and> list_ex isDelete (snd (snd (CleanupTemporaryResources (sim decimalQuantity) ''default'' (chattyCluster, []))))
   \<and> (\<exists>line. EScanln line \<in> set (snd (snd (CleanupTemporaryResources (sim decimalQuantity) ''default''
                                              (chattyCluster, []))))
            \<and> (scanlnWord line = ''y'' \<or> scanlnWord line = ''Y''))"
proof -
  have empty:
    "api_listPods (sim decimalQuantity) ''default'' ''app=lhc-temp'' detachedCluster = (Inr [], detachedCluster)
     \<and> api_listPVCs (sim decimalQuantity) ''default'' ''app=lhc-temp'' detachedCluster = (Inr [], detachedCluster)
     \<and> api_listPVs (sim decimalQuantity) ''app=lhc-temp'' detachedCluster = (Inr [], detachedCluster)"
    by (simp add: sim_def answer_def detachedCluster_def noFaults_def)
  note sweep = sweep_deletes_only_when_confirmed [where api = "sim decimalQuantity" and namespace = "''default''"]
  note none_found = sweep [where w = detachedCluster and ?w1.0 = detachedCluster and ?w2.0 = detachedCluster
      and ?w3.0 = detachedCluster, THEN conjunct2, THEN conjunct2, THEN conjunct2, rule_format, OF empty]
  have no: "EScanln ''n'' \<in> set (snd (snd (CleanupTemporaryResources (sim decimalQuantity) ''default'' (leftoverCluster, []))))"
    by (simp add: sweep_run_no)
  note refused = sweep [where w = leftoverCluster, THEN conjunct2, THEN conjunct2, THEN conjunct1, rule_format,
      of "''n''", OF conjI [OF no conjI [OF sweep_words(1) sweep_words(2)]]]
  note refused' = sweep [where w = "leftoverCluster\<lparr>cl_input := '' no''\<rparr>", THEN conjunct2, THEN conjunct2,
      THEN conjunct1, rule_format, of "'' no''",
      OF conjI [OF sweep_run_yes [THEN conjunct2, THEN conjunct2] conjI [OF sweep_words(3) sweep_words(4)]]]
  note yes = sweep [where w = lockedCluster, THEN conjunct1, rule_format, OF sweep_run_yes [THEN conjunct1]]
  note more = sweep [where w = chattyCluster, THEN conjunct1, rule_format,
      OF sweep_run_yes [THEN conjunct2, THEN conjunct1]]
  from none_found no refused refused' yes more sweep_run_yes show ?thesis
    by blast
qed

section \<open>Failures of the cleanup are warnings\<close>

lemma isWarning_simps [simp]:
  "isWarning (EPrintf ''Warning: failed to delete temporary pod %s: %v\<newline>'' args)"
  "isWarning (EPrintf ''Warning: failed to delete temporary PVC %s: %v\<newline>'' args)"
  "isWarning (EPrintf ''Warning: failed to delete temporary PV %s: %v\<newline>'' args)"
  "isWarning (EPrintf ''Warning: failed to delete pod %s: %v\<newline>'' args)"
  "isWarning (EPrintf ''Warning: failed to delete PVC %s: %v\<newline>'' args)"
  "isWarning (EPrintf ''Warning: failed to delete PV %s: %v\<newline>'' args)"
  "\<not> isWarning (EPrintf ''Deleting pod %s...\<newline>'' args)"
  "\<not> isWarning (EPrintf ''Deleting PVC %s...\<newline>'' args)"
  "\<not> isWarning (EPrintf ''Deleting PV %s...\<newline>'' args)"
  "\<not> isWarning (EPrintf ''\<newline>Deleting resources...\<newline>'' args)"
  "\<not> isWarning (EPrintf ''\<newline>Cleanup completed.\<newline>'' args)"
  "\<not> isWarning (EFailed e)" "\<not> isWarning (EDeletePod n p)" "\<not> isWarning (EDeletePVC n p)"
  "\<not> isWarning (EDeletePV p)" "\<not> isWarning (EScanln r)" "\<not> isWarning (EListPods n l)"
  "\<not> isWarning (EListPVCs n l)" "\<not> isWarning (EListPVs l)"
  by (simp_all add: isWarning_def)

lemma isFailed_simps [simp]:
  "\<not> isFailed (EPrintf f args)" "isFailed (EFailed e)" "\<not> isFailed (EDeletePod n p)"
  "\<not> isFailed (EDeletePVC n p)" "\<not> isFailed (EDeletePV p)" "\<not> isFailed (EScanln r)"
  "\<not> isFailed (EListPods n l)" "\<not> isFailed (EListPVCs n l)" "\<not> isFailed (EListPVs l)"
  by (simp_all add: isFailed_def)

lemma unreported_simps [simp]:
  "unreported [] = 0"
  "unreported (xs @ ys) = unreported xs + unreported ys"
  "unreported (x # xs) = (if isFailed x then 1 else 0) - (if isWarning x then 1 else 0) + unreported xs"
  by (simp_all add: unreported_def)

lemma cleanupTemporaryResources_run:
  "fst (cleanupTemporaryResources api volumeName namespace s) = Ok ()
   \<and> filter isDelete (snd (snd (cleanupTemporaryResources api volumeName namespace s))) =
       filter isDelete (snd s) @
       [EDeletePod namespace (''lhc-temp-pod-'' @ volumeName),
        EDeletePVC namespace (''lhc-temp-pvc-'' @ volumeName),
        EDeletePV (''lhc-temp-pv-'' @ volumeName)]
   \<and> unreported (snd (snd (cleanupTemporaryResources api volumeName namespace s))) = unreported (snd s)"
proof -
  obtain r1 s1 where c1:
    "call (EDeletePod namespace (''lhc-temp-pod-'' @ volumeName))
       (api_deletePod api namespace (''lhc-temp-pod-'' @ volumeName)) s = (r1, s1)"
    by (metis surj_pair)
  define s1' where "s1' =
    (case r1 of
       Some e \<Rightarrow> emit (EPrintf ''Warning: failed to delete temporary pod %s: %v\<newline>''
                         [AStr (''lhc-temp-pod-'' @ volumeName), AErr e]) s1
     | None \<Rightarrow> s1)"
  obtain r2 s2 where c2:
    "call (EDeletePVC namespace (''lhc-temp-pvc-'' @ volumeName))
       (api_deletePVC api namespace (''lhc-temp-pvc-'' @ volumeName)) s1' = (r2, s2)"
    by (metis surj_pair)
  define s2' where "s2' =
    (case r2 of
       Some e \<Rightarrow> emit (EPrintf ''Warning: failed to delete temporary PVC %s: %v\<newline>''
                         [AStr (''lhc-temp-pvc-'' @ volumeName), AErr e]) s2
     | None \<Rightarrow> s2)"
  obtain r3 s3 where c3:
    "call (EDeletePV (''lhc-temp-pv-'' @ volumeName))
       (api_deletePV api (''lhc-temp-pv-'' @ volumeName)) s2' = (r3, s3)"
    by (metis surj_pair)
  define s3' where "s3' =
    (case r3 of
       Some e \<Rightarrow> emit (EPrintf ''Warning: failed to delete temporary PV %s: %v\<newline>''
                         [AStr (''lhc-temp-pv-'' @ volumeName), AErr e]) s3
     | None \<Rightarrow> s3)"
  have R: "cleanupTemporaryResources api volumeName namespace s = (Ok (), s3')"
    using c1 c2 c3 by (simp add: cleanupTemporaryResources_def s1'_def s2'_def s3'_def)
  have t1: "filter isDelete (snd s1') = filter isDelete (snd s) @ [EDeletePod namespace (''lhc-temp-pod-'' @ volumeName)]"
           "unreported (snd s1') = unreported (snd s)"
    using call_trace [OF c1] by (cases r1; simp add: s1'_def emit_def)+
  have t2: "filter isDelete (snd s2') = filter isDelete (snd s1') @ [EDeletePVC namespace (''lhc-temp-pvc-'' @ volumeName)]"
           "unreported (snd s2') = unreported (snd s1')"
    using call_trace [OF c2] by (cases r2; simp add: s2'_def emit_def)+
  have t3: "filter isDelete (snd s3') = filter isDelete (snd s2') @ [EDeletePV (''lhc-temp-pv-'' @ volumeName)]"
           "unreported (snd s3') = unreported (snd s2')"
    using call_trace [OF c3] by (cases r3; simp add: s3'_def emit_def)+
  show ?thesis using R t1 t2 t3 by simp
qed

lemma deletePods_run:
  "filter isDelete (snd (deletePods api namespace pods s)) =
     filter isDelete (snd s) @ map (\<lambda>pod. EDeletePod namespace (pod_Name pod)) pods
   \<and> unreported (snd (deletePods api namespace pods s)) = unreported (snd s)"
  by (induction pods arbitrary: s)
     (simp_all add: call_def emit_def case_prod_beta split: option.splits)

lemma deletePVCs_run:
  "filter isDelete (snd (deletePVCs api namespace pvcs s)) =
     filter isDelete (snd s) @ map (\<lambda>pvc. EDeletePVC namespace (pvc_Name pvc)) pvcs
   \<and> unreported (snd (deletePVCs api namespace pvcs s)) = unreported (snd s)"
  by (induction pvcs arbitrary: s)
     (simp_all add: call_def emit_def case_prod_beta split: option.splits)

lemma deletePVs_run:
  "filter isDelete (snd (deletePVs api pvs s)) =
     filter isDelete (snd s) @ map (\<lambda>pv. EDeletePV (pv_Name pv)) pvs
   \<and> unreported (snd (deletePVs api pvs s)) = unreported (snd s)"
  by (induction pvs arbitrary: s)
     (simp_all add: call_def emit_def case_prod_beta split: option.splits)

lemma foundResources_filters [simp]:
  "filter isDelete (foundResources pods pvcs pvs) = []"
  "unreported (foundResources pods pvcs pvs) = 0"
  by (simp_all add: foundResources_def unreported_def isWarning_def isFailed_def)

lemma sweep_confirmed:
  assumes "api_listPods api namespace ''app=lhc-temp'' w = (Inr pods, w1)"
      and "api_listPVCs api namespace ''app=lhc-temp'' w1 = (Inr pvcs, w2)"
      and "api_listPVs api ''app=lhc-temp'' w2 = (Inr pvs, w3)"
      and "api_readLine api w3 = (r, w4)"
      and "scanlnWord r = ''y'' \<or> scanlnWord r = ''Y''"
  shows "fst (CleanupTemporaryResources api namespace (w, [])) = Ok ()
     \<and> filter isDelete (snd (snd (CleanupTemporaryResources api namespace (w, [])))) =
         map (\<lambda>pod. EDeletePod namespace (pod_Name pod)) pods @
         map (\<lambda>pvc. EDeletePVC namespace (pvc_Name pvc)) pvcs @
         map (\<lambda>pv. EDeletePV (pv_Name pv)) pvs
     \<and> unreported (snd (snd (CleanupTemporaryResources api namespace (w, [])))) = 0"
proof (cases "length pods + length pvcs + length pvs = 0")
  case True
  with assms show ?thesis
    by (simp add: CleanupTemporaryResources_def query_def emit_def isWarning_def)
next
  case False
  with assms show ?thesis
    by (auto simp add: CleanupTemporaryResources_def query_def scan_def emit_def emits_def
          deletePods_run deletePVCs_run deletePVs_run confirmPrompt_def isWarning_def)
qed

lemma copyCommand_exit:
  assumes "source \<noteq> []" and "dest \<noteq> []"
      and "fst (CopyVolume api producerFirst source dest namespace storageClass s) = Ok ()"
  shows "fst (copyCommand api producerFirst source dest namespace storageClass s) = 0"
  using assms by (simp add: copyCommand_def case_prod_beta split: result.splits)

lemmas fixture_defs = exampleVolume_def examplePV_def exampleClaim_def examplePod_def

lemmas resolve_defs =
  toVolume_def getLonghornVolumes_def getLonghornVolume_def targetPVCOf_def mountsClaim_def
  isVolumeInUse_def mountOf_def podMount_def findExistingPodForVolume_def createTemporaryPV_def
  createTemporaryRWXPV_def ensureTemporaryPVC_def podIsRunning_def ensureTemporaryPod_def
  createTemporaryPodForLonghorn_def createTemporaryPodForRWXVolume_def
  createSnapshotBasedAccess_def getVolumeInfo_def




lemma unreported_zero: "unreported tr = 0 \<Longrightarrow> length (filter isWarning tr) = length (filter isFailed tr)"
  by (simp add: unreported_def)

text \<open>
  C9. Failures of the cleanup never fail the command. The cleanup of one volume returns
  success from every state and with every cluster; it always calls the three deletions, of
  the pod, the claim and the PV, in that order; and its log has as many warning lines as
  failed calls. The sweep, once the lists are read and the operator has confirmed, returns
  success, calls the deletion of every pod, then of every claim, then of every PV it found,
  and logs one warning per failed call. The \<^verbatim>\<open>copy\<close> command exits with status 0 whenever
  \<^verbatim>\<open>CopyVolume\<close> succeeded, whatever the two cleanups after it did.
\<close>

theorem cleanup_failures_are_warnings:
  "fst (cleanupTemporaryResources api volumeName namespace s) = Ok ()
   \<and> filter isDelete (snd (snd (cleanupTemporaryResources api volumeName namespace (w, [])))) =
       [EDeletePod namespace (''lhc-temp-pod-'' @ volumeName),
        EDeletePVC namespace (''lhc-temp-pvc-'' @ volumeName),
        EDeletePV (''lhc-temp-pv-'' @ volumeName)]
   \<and> length (filter isWarning (snd (snd (cleanupTemporaryResources api volumeName namespace (w, []))))) =
       length (filter isFailed (snd (snd (cleanupTemporaryResources api volumeName namespace (w, [])))))
   \<and> (api_listPods api namespace ''app=lhc-temp'' w0 = (Inr pods, w1)
        \<and> api_listPVCs api namespace ''app=lhc-temp'' w1 = (Inr pvcs, w2)
        \<and> api_listPVs api ''app=lhc-temp'' w2 = (Inr pvs, w3)
        \<and> api_readLine api w3 = (r, w4) \<and> (scanlnWord r = ''y'' \<or> scanlnWord r = ''Y'')
          \<longrightarrow> fst (CleanupTemporaryResources api namespace (w0, [])) = Ok ()
              \<and> filter isDelete (snd (snd (CleanupTemporaryResources api namespace (w0, [])))) =
                  map (\<lambda>pod. EDeletePod namespace (pod_Name pod)) pods @
                  map (\<lambda>pvc. EDeletePVC namespace (pvc_Name pvc)) pvcs @
                  map (\<lambda>pv. EDeletePV (pv_Name pv)) pvs
              \<and> length (filter isWarning (snd (snd (CleanupTemporaryResources api namespace (w0, []))))) =
                  length (filter isFailed (snd (snd (CleanupTemporaryResources api namespace (w0, []))))))
   \<and> (source \<noteq> [] \<and> dest \<noteq> []
        \<and> fst (CopyVolume api producerFirst source dest namespace storageClass s') = Ok ()
          \<longrightarrow> fst (copyCommand api producerFirst source dest namespace storageClass s') = 0)"
proof -
  have a: "fst (cleanupTemporaryResources api volumeName namespace s) = Ok ()"
    using cleanupTemporaryResources_run [of api volumeName namespace s] by simp
  have b: "filter isDelete (snd (snd (cleanupTemporaryResources api volumeName namespace (w, [])))) =
       [EDeletePod namespace (''lhc-temp-pod-'' @ volumeName),
        EDeletePVC namespace (''lhc-temp-pvc-'' @ volumeName),
        EDeletePV (''lhc-temp-pv-'' @ volumeName)]"
    using cleanupTemporaryResources_run [of api volumeName namespace "(w, [])"] by simp
  have c: "length (filter isWarning (snd (snd (cleanupTemporaryResources api volumeName namespace (w, []))))) =
       length (filter isFailed (snd (snd (cleanupTemporaryResources api volumeName namespace (w, [])))))"
    using cleanupTemporaryResources_run [of api volumeName namespace "(w, [])"]
    by (intro unreported_zero) simp
  show ?thesis
    using a b c sweep_confirmed [of api namespace w0 pods w1 pvcs w2 pvs w3 r w4]
      copyCommand_exit [of source dest api producerFirst namespace storageClass s']
    by (simp add: unreported_zero)
qed

lemma cleanup_run_missing:
  "length (filter isFailed (snd (snd (cleanupTemporaryResources (sim decimalQuantity) ''data'' ''default''
      (detachedCluster, []))))) = 3"
  by code_simp

lemma sweep_run_forbidden:
  "length (filter isFailed (snd (snd (CleanupTemporaryResources (sim decimalQuantity) ''default''
      (lockedCluster, []))))) = 3"
  by code_simp

lemma copy_run:
  "fst (CopyVolume (sim decimalQuantity) True ''data'' ''backup'' ''default'' ''longhorn'' (copyCluster, [])) = Ok ()
   \<and> length (filter isFailed (snd (snd (copyCommand (sim decimalQuantity) True ''data'' ''backup'' ''default''
        ''longhorn'' (copyCluster, []))))) = 6"
  by code_simp

theorem cleanup_failures_are_warnings_witness:
  "fst (cleanupTemporaryResources (sim decimalQuantity) ''data'' ''default'' (detachedCluster, [])) = Ok ()
   \<and> length (filter isWarning (snd (snd (cleanupTemporaryResources (sim decimalQuantity) ''data'' ''default''
        (detachedCluster, []))))) = 3
   \<and> fst (CleanupTemporaryResources (sim decimalQuantity) ''default'' (lockedCluster, [])) = Ok ()
   \<and> filter isDelete (snd (snd (CleanupTemporaryResources (sim decimalQuantity) ''default'' (lockedCluster, [])))) =
       [EDeletePod ''default'' ''lhc-temp-pod-data'', EDeletePVC ''default'' ''lhc-temp-pvc-data'',
        EDeletePV ''lhc-temp-pv-data'']
   \<and> length (filter isWarning (snd (snd (CleanupTemporaryResources (sim decimalQuantity) ''default''
        (lockedCluster, []))))) = 3
   \<and> length (filter isFailed (snd (snd (copyCommand (sim decimalQuantity) True ''data'' ''backup'' ''default''
        ''longhorn'' (copyCluster, []))))) = 6
   \<and> fst (copyCommand (sim decimalQuantity) True ''data'' ''backup'' ''default'' ''longhorn'' (copyCluster, [])) = 0"
proof -
  have lists:
    "api_listPods (sim decimalQuantity) ''default'' ''app=lhc-temp'' lockedCluster =
       (Inr [temporaryPod ''lhc-temp-pod-data'' ''default'' ''temp-container'' ''/mnt/volume''
               ''lhc-temp-pvc-data''\<lparr>pod_Phase := PodRunning\<rparr>], lockedCluster)"
    "api_listPVCs (sim decimalQuantity) ''default'' ''app=lhc-temp'' lockedCluster =
       (Inr [temporaryPVC ''lhc-temp-pvc-data'' ''default'' ''longhorn'' ''lhc-temp-pv-data''
               ''1073741824''\<lparr>pvc_Phase := ClaimBound\<rparr>], lockedCluster)"
    "api_listPVs (sim decimalQuantity) ''app=lhc-temp'' lockedCluster =
       (Inr [temporaryPV ''lhc-temp-pv-data'' ''data'' ''longhorn'' ''1073741824''
               \<lparr>pv_Phase := ''Bound''\<rparr>], lockedCluster)"
    "api_readLine (sim decimalQuantity) lockedCluster = (''y'', lockedCluster)"
    "scanlnWord ''y'' = ''y''"
    by (simp_all add: sim_def answer_def selected_def lockedCluster_def leftoverCluster_def
          forbiddenDeletes_def temporaryPod_def temporaryPVC_def temporaryPV_def tempLabels_def
          scanlnWord_def spaceLen_def)
  have names:
    "pod_Name (temporaryPod ''lhc-temp-pod-data'' ''default'' ''temp-container'' ''/mnt/volume''
               ''lhc-temp-pvc-data''\<lparr>pod_Phase := PodRunning\<rparr>) = ''lhc-temp-pod-data''"
    "pvc_Name (temporaryPVC ''lhc-temp-pvc-data'' ''default'' ''longhorn'' ''lhc-temp-pv-data''
               ''1073741824''\<lparr>pvc_Phase := ClaimBound\<rparr>) = ''lhc-temp-pvc-data''"
    "pv_Name (temporaryPV ''lhc-temp-pv-data'' ''data'' ''longhorn'' ''1073741824''
               \<lparr>pv_Phase := ''Bound''\<rparr>) = ''lhc-temp-pv-data''"
    by (simp_all add: temporaryPod_def temporaryPVC_def temporaryPV_def)
  show ?thesis
    using cleanup_failures_are_warnings
      [where api = "sim decimalQuantity" and volumeName = "''data''" and namespace = "''default''"
         and s = "(detachedCluster, [])" and w = detachedCluster
         and ?w0.0 = lockedCluster and ?w1.0 = lockedCluster and ?w2.0 = lockedCluster
         and ?w3.0 = lockedCluster and ?w4.0 = lockedCluster and r = "''y''"
         and pods = "[temporaryPod ''lhc-temp-pod-data'' ''default'' ''temp-container'' ''/mnt/volume''
               ''lhc-temp-pvc-data''\<lparr>pod_Phase := PodRunning\<rparr>]"
         and pvcs = "[temporaryPVC ''lhc-temp-pvc-data'' ''default'' ''longhorn'' ''lhc-temp-pv-data''
               ''1073741824''\<lparr>pvc_Phase := ClaimBound\<rparr>]"
         and pvs = "[temporaryPV ''lhc-temp-pv-data'' ''data'' ''longhorn'' ''1073741824''
               \<lparr>pv_Phase := ''Bound''\<rparr>]"
         and source = "''data''" and dest = "''backup''" and producerFirst = True
         and storageClass = "''longhorn''" and s' = "(copyCluster, [])"]
      lists cleanup_run_missing sweep_run_forbidden copy_run
    by (simp add: names)
qed

section \<open>A volume in use is reached through the pod that uses it\<close>








lemma resolve_run_attached:
  "getVolumeInfo (sim decimalQuantity) ''data'' ''default'' ''longhorn'' (attachedCluster, []) =
     (Ok (''db-0'', ''/var/lib/db'', ''db''),
      (attachedCluster,
       [EListVolumes, EListPVCs ''default'' [], EListPods ''default'' [],
        EPrintf ''Volume %s is currently in use. Checking for existing access pod...\<newline>''
          [AStr ''data''],
        EListPVCs ''default'' [], EListPods ''default'' [],
        EPrintf ''Found existing pod %s using volume %s\<newline>'' [AStr ''db-0'', AStr ''data'']]))"
  by (simp add: resolve_defs exec_defs sim_defs fixture_defs attachedCluster_def)


section \<open>The waits of the provisioner\<close>

lemma logs_refl [intro!, simp]: "logs A s s"
  by (simp add: logs_def)

lemma logs_trans: "logs A s s1 \<Longrightarrow> logs A s1 s2 \<Longrightarrow> logs A s s2"
  by (auto simp: logs_def)

lemma logs_emit [intro!]: "logs A s s1 \<Longrightarrow> A ev \<Longrightarrow> logs A s (emit ev s1)"
  by (auto simp: logs_def emit_def)

lemma logs_sleep [intro!]: "logs A s s1 \<Longrightarrow> A (ESleep n) \<Longrightarrow> logs A s (sleep api n s1)"
  by (auto simp: logs_def sleep_def)

lemma logs_call [intro!]:
  "logs A s s1 \<Longrightarrow> A ev \<Longrightarrow> (\<And>e. A (EFailed e)) \<Longrightarrow> logs A s (snd (call ev f s1))"
  by (auto simp: logs_def call_def case_prod_beta split: option.splits)

lemma logs_query [intro!]:
  "logs A s s1 \<Longrightarrow> A ev \<Longrightarrow> (\<And>e. A (EFailed e)) \<Longrightarrow> logs A s (snd (query ev f s1))"
  by (auto simp: logs_def query_def case_prod_beta split: sum.splits)


lemmas logs_steps = logs_emit logs_sleep logs_call logs_query

lemma logs_getLonghornVolume [intro!]:
  "logs A s s1 \<Longrightarrow> A EListVolumes \<Longrightarrow> (\<And>e. A (EFailed e)) \<Longrightarrow>
   logs A s (snd (getLonghornVolume api volumeName s1))"
  by (simp add: getLonghornVolume_def getLonghornVolumes_def case_prod_beta
           split: sum.splits option.splits)
     (intro conjI impI allI logs_steps; assumption)

lemma logs_createTemporaryPV [intro!]:
  "logs A s s1 \<Longrightarrow> A EListVolumes \<Longrightarrow> (\<And>e. A (EFailed e)) \<Longrightarrow>
   A (EGetPV (''lhc-temp-pv-'' @ volumeName)) \<Longrightarrow>
   (\<And>size0. A (ECreatePV (temporaryPV (''lhc-temp-pv-'' @ volumeName) volumeName storageClass size0))) \<Longrightarrow>
   logs A s (snd (createTemporaryPV api volumeName namespace storageClass s1))"
  by (simp add: createTemporaryPV_def case_prod_beta
           split: sum.splits option.splits result.splits)
     (intro conjI impI allI logs_steps logs_getLonghornVolume; assumption)

lemma logs_waitPVCBound [intro!]:
  "logs A s s1 \<Longrightarrow> A (EGetPVC namespace pvcName) \<Longrightarrow> (\<And>e. A (EFailed e)) \<Longrightarrow> A (ESleep (Suc 0)) \<Longrightarrow>
   (\<And>pv. A (EPrintf ''PVC %s is now bound to PV %s\<newline>'' [AStr pvcName, AStr pv])) \<Longrightarrow>
   logs A s (snd (waitPVCBound api namespace pvcName n s1))"
proof (induction n arbitrary: s1)
  case 0
  then show ?case by simp
next
  case (Suc n)
  show ?case
    by (simp add: case_prod_beta split: sum.splits)
       (intro conjI impI allI logs_steps Suc.IH Suc.prems)
qed

lemma logs_waitPodRunning [intro!]:
  "logs A s s1 \<Longrightarrow> A (EGetPod namespace podName) \<Longrightarrow> (\<And>e. A (EFailed e)) \<Longrightarrow> A (ESleep (Suc 0)) \<Longrightarrow>
   logs A s (snd (waitPodRunning api namespace podName mountPath containerName n s1))"
proof (induction n arbitrary: s1)
  case 0
  then show ?case by simp
next
  case (Suc n)
  show ?case
    by (simp add: case_prod_beta split: sum.splits)
       (intro conjI impI allI logs_steps Suc.IH Suc.prems)
qed

lemma logs_ensureTemporaryPVC [intro!]:
  "logs A s s1 \<Longrightarrow> A (EGetPVC namespace pvcName) \<Longrightarrow> (\<And>e. A (EFailed e)) \<Longrightarrow> A (ESleep (Suc 0)) \<Longrightarrow>
   (\<And>pv. A (EPrintf ''PVC %s is now bound to PV %s\<newline>'' [AStr pvcName, AStr pv])) \<Longrightarrow>
   A (EPrintf ''Waiting for PVC %s to be bound...\<newline>'' [AStr pvcName]) \<Longrightarrow>
   A (ECreatePVC namespace (temporaryPVC pvcName namespace storageClass pvName size0)) \<Longrightarrow>
   logs A s (snd (ensureTemporaryPVC api namespace pvcName pvName storageClass size0 s1))"
  by (simp add: ensureTemporaryPVC_def case_prod_beta split: sum.splits option.splits)
     (intro conjI impI allI logs_steps logs_waitPVCBound; assumption)

lemma logs_ensureTemporaryPod [intro!]:
  "logs A s s1 \<Longrightarrow> A (EGetPod namespace podName) \<Longrightarrow> (\<And>e. A (EFailed e)) \<Longrightarrow> A (ESleep (Suc 0)) \<Longrightarrow>
   A (EPrintf ''Waiting for temporary pod %s to be ready...\<newline>'' [AStr podName]) \<Longrightarrow>
   A (ECreatePod namespace (temporaryPod podName namespace containerName mountPath pvcName)) \<Longrightarrow>
   logs A s (snd (ensureTemporaryPod api namespace podName pvcName mountPath containerName s1))"
  by (simp add: ensureTemporaryPod_def case_prod_beta split: sum.splits option.splits)
     (intro conjI impI allI logs_steps logs_waitPodRunning; assumption)


lemma logs_createTemporaryPodForLonghorn:
  "logs A s s1 \<Longrightarrow> (\<And>ev. provisionEvent volumeName namespace ev \<Longrightarrow> A ev) \<Longrightarrow>
   logs A s (snd (createTemporaryPodForLonghorn api volumeName namespace storageClass s1))"
  by (simp add: createTemporaryPodForLonghorn_def case_prod_beta split: result.splits)
     (intro conjI impI allI logs_getLonghornVolume logs_createTemporaryPV logs_ensureTemporaryPVC
        logs_ensureTemporaryPod;
      (assumption | simp add: provisionEvent_def temporaryPV_def temporaryPVC_def temporaryPod_def))

lemma logs_count: "logs A s s' \<Longrightarrow> \<not> A ev \<Longrightarrow> count_list (snd s') ev = count_list (snd s) ev"
  by (auto simp: logs_def list_all_iff count_list_0_iff)

lemma logs_member: "logs A s s' \<Longrightarrow> ev \<in> set (snd s) \<Longrightarrow> ev \<in> set (snd s')"
  by (auto simp: logs_def)

lemma logs_all: "logs A s s' \<Longrightarrow> list_all A (snd s) \<Longrightarrow> list_all A (snd s')"
  by (auto simp: logs_def)

lemma waitPVCBound_bounded:
  "count_list (snd (snd (waitPVCBound api namespace pvcName k s))) (ESleep 1)
     \<le> count_list (snd s) (ESleep 1) + k
   \<and> count_list (snd (snd (waitPVCBound api namespace pvcName k s))) (EGetPVC namespace pvcName)
     \<le> count_list (snd s) (EGetPVC namespace pvcName) + k
   \<and> (fst (waitPVCBound api namespace pvcName k s) = Ok ()
      \<or> (\<exists>e. fst (waitPVCBound api namespace pvcName k s) =
               Err (Errorf ''failed to get PVC status: %v'' [AErr e]))
        \<and> count_list (snd (snd (waitPVCBound api namespace pvcName k s))) (ESleep 1)
            < count_list (snd s) (ESleep 1) + k)"
proof (induction k arbitrary: s)
  case 0
  show ?case by simp
next
  case (Suc k)
  obtain r s1 where q: "query (EGetPVC namespace pvcName) (api_getPVC api namespace pvcName) s = (r, s1)"
    by (metis surj_pair)
  note t = query_trace [OF q]
  show ?case
  proof (cases r)
    case (Inl e)
    with q t show ?thesis by simp
  next
    case (Inr pvc)
    show ?thesis
    proof (cases "pvc_Phase pvc = ClaimBound")
      case True
      with q t Inr show ?thesis by (simp add: emit_def)
    next
      case False
      with q t Inr Suc.IH [of "sleep api 1 s1"] show ?thesis
        by (auto simp add: sleep_def)
    qed
  qed
qed

lemma waitPodRunning_bounded:
  "count_list (snd (snd (waitPodRunning api namespace podName mountPath containerName k s))) (ESleep 1)
     \<le> count_list (snd s) (ESleep 1) + k
   \<and> count_list (snd (snd (waitPodRunning api namespace podName mountPath containerName k s)))
       (EGetPod namespace podName)
     \<le> count_list (snd s) (EGetPod namespace podName) + k
   \<and> (fst (waitPodRunning api namespace podName mountPath containerName k s) =
         Err (Errorf ''temporary pod %s did not become ready in time'' [AStr podName])
       \<and> count_list (snd (snd (waitPodRunning api namespace podName mountPath containerName k s)))
            (EGetPod namespace podName) = count_list (snd s) (EGetPod namespace podName) + k
      \<or> (fst (waitPodRunning api namespace podName mountPath containerName k s) =
            Ok (podName, mountPath, containerName)
          \<or> (\<exists>e. fst (waitPodRunning api namespace podName mountPath containerName k s) =
                  Err (Errorf ''failed to get pod status: %v'' [AErr e])))
        \<and> count_list (snd (snd (waitPodRunning api namespace podName mountPath containerName k s)))
            (ESleep 1) < count_list (snd s) (ESleep 1) + k)"
proof (induction k arbitrary: s)
  case 0
  show ?case by simp
next
  case (Suc k)
  obtain r s1 where q: "query (EGetPod namespace podName) (api_getPod api namespace podName) s = (r, s1)"
    by (metis surj_pair)
  note t = query_trace [OF q]
  show ?case
  proof (cases r)
    case (Inl e)
    with q t show ?thesis by simp
  next
    case (Inr pod)
    show ?thesis
    proof (cases "pod_Phase pod = PodRunning")
      case True
      with q t Inr show ?thesis by simp
    next
      case False
      with q t Inr Suc.IH [of "sleep api 1 s1"] show ?thesis
        by (auto simp add: sleep_def)
    qed
  qed
qed

lemma ensureTemporaryPVC_bounded:
  "count_list (snd (snd (ensureTemporaryPVC api namespace pvcName pvName storageClass size0 s))) (ESleep 1)
     \<le> count_list (snd s) (ESleep 1) + 60
   \<and> count_list (snd (snd (ensureTemporaryPVC api namespace pvcName pvName storageClass size0 s)))
       (EGetPVC namespace pvcName)
     \<le> count_list (snd s) (EGetPVC namespace pvcName) + 61
   \<and> (count_list (snd (snd (ensureTemporaryPVC api namespace pvcName pvName storageClass size0 s))) (ESleep 1)
        = count_list (snd s) (ESleep 1) + 60
      \<longrightarrow> fst (ensureTemporaryPVC api namespace pvcName pvName storageClass size0 s) = Ok ())"
proof -
  obtain r s1 where q: "query (EGetPVC namespace pvcName) (api_getPVC api namespace pvcName) s = (r, s1)"
    by (metis surj_pair)
  note t1 = query_trace [OF q]
  show ?thesis
  proof (cases r)
    case (Inr pvc)
    with q t1 show ?thesis by (simp add: ensureTemporaryPVC_def)
  next
    case (Inl e)
    show ?thesis
    proof (cases "api_validQuantity api size0")
      case False
      with q t1 Inl show ?thesis by (simp add: ensureTemporaryPVC_def)
    next
      case True
      obtain r2 s2 where c:
        "call (ECreatePVC namespace (temporaryPVC pvcName namespace storageClass pvName size0))
           (api_createPVC api namespace (temporaryPVC pvcName namespace storageClass pvName size0)) s1
         = (r2, s2)"
        by (metis surj_pair)
      note t2 = call_trace [OF c]
      show ?thesis
      proof (cases r2)
        case (Some e')
        with q t1 Inl True c t2 show ?thesis by (simp add: ensureTemporaryPVC_def)
      next
        case None
        let ?s3 = "emit (EPrintf ''Waiting for PVC %s to be bound...\<newline>'' [AStr pvcName]) s2"
        have R: "ensureTemporaryPVC api namespace pvcName pvName storageClass size0 s =
                 waitPVCBound api namespace pvcName 60 ?s3"
          using q Inl True c None by (simp add: ensureTemporaryPVC_def)
        have t3: "count_list (snd ?s3) (ESleep 1) = count_list (snd s) (ESleep 1)"
                 "count_list (snd ?s3) (EGetPVC namespace pvcName) = count_list (snd s) (EGetPVC namespace pvcName) + 1"
          using t1 t2 Inl None by (simp_all add: emit_def)
        show ?thesis
          using waitPVCBound_bounded [of api namespace pvcName 60 ?s3] unfolding R t3 by auto
      qed
    qed
  qed
qed

lemma ensureTemporaryPod_bounded:
  "count_list (snd (snd (ensureTemporaryPod api namespace podName pvcName mountPath containerName s))) (ESleep 1)
     \<le> count_list (snd s) (ESleep 1) + 120
   \<and> count_list (snd (snd (ensureTemporaryPod api namespace podName pvcName mountPath containerName s)))
       (EGetPod namespace podName)
     \<le> count_list (snd s) (EGetPod namespace podName) + 121
   \<and> (count_list (snd (snd (ensureTemporaryPod api namespace podName pvcName mountPath containerName s)))
          (ESleep 1) = count_list (snd s) (ESleep 1) + 120
      \<longrightarrow> fst (ensureTemporaryPod api namespace podName pvcName mountPath containerName s) =
            Err (Errorf ''temporary pod %s did not become ready in time'' [AStr podName])
          \<and> count_list (snd (snd (ensureTemporaryPod api namespace podName pvcName mountPath containerName s)))
              (EGetPod namespace podName) = count_list (snd s) (EGetPod namespace podName) + 121)"
proof -
  obtain r s1 where q: "query (EGetPod namespace podName) (api_getPod api namespace podName) s = (r, s1)"
    by (metis surj_pair)
  note t1 = query_trace [OF q]
  have t1': "count_list (snd s1) (ESleep 1) = count_list (snd s) (ESleep 1)"
            "count_list (snd s1) (EGetPod namespace podName) = count_list (snd s) (EGetPod namespace podName) + 1"
    using t1 by (cases r; simp)+
  show ?thesis
  proof (cases "podIsRunning r")
    case True
    with q t1' show ?thesis by (simp add: ensureTemporaryPod_def)
  next
    case False
    obtain r2 s2 where c:
      "call (ECreatePod namespace (temporaryPod podName namespace containerName mountPath pvcName))
         (api_createPod api namespace (temporaryPod podName namespace containerName mountPath pvcName)) s1
       = (r2, s2)"
      by (metis surj_pair)
    note t2 = call_trace [OF c]
    show ?thesis
    proof (cases r2)
      case (Some e')
      with q t1' False c t2 show ?thesis by (simp add: ensureTemporaryPod_def)
    next
      case None
      let ?s3 = "emit (EPrintf ''Waiting for temporary pod %s to be ready...\<newline>'' [AStr podName]) s2"
      have R: "ensureTemporaryPod api namespace podName pvcName mountPath containerName s =
               waitPodRunning api namespace podName mountPath containerName 120 ?s3"
        using q False c None by (simp add: ensureTemporaryPod_def)
      have t3: "count_list (snd ?s3) (ESleep 1) = count_list (snd s) (ESleep 1)"
               "count_list (snd ?s3) (EGetPod namespace podName) = count_list (snd s) (EGetPod namespace podName) + 1"
        using t1' t2 None by (simp_all add: emit_def)
      show ?thesis
        using waitPodRunning_bounded [of api namespace podName mountPath containerName 120 ?s3]
        unfolding R t3 by auto
    qed
  qed
qed

lemma createTemporaryPodForLonghorn_bounded:
  "count_list (snd (snd (createTemporaryPodForLonghorn api volumeName namespace storageClass (w, []))))
     (EGetPVC namespace (''lhc-temp-pvc-'' @ volumeName)) \<le> 61
   \<and> count_list (snd (snd (createTemporaryPodForLonghorn api volumeName namespace storageClass (w, []))))
     (EGetPod namespace (''lhc-temp-pod-'' @ volumeName)) \<le> 121
   \<and> count_list (snd (snd (createTemporaryPodForLonghorn api volumeName namespace storageClass (w, []))))
     (ESleep 1) \<le> 180"
proof -
  let ?pvc = "EGetPVC namespace (''lhc-temp-pvc-'' @ volumeName)"
  let ?pod = "EGetPod namespace (''lhc-temp-pod-'' @ volumeName)"
  let ?A = "\<lambda>ev. ev \<noteq> ?pvc \<and> ev \<noteq> ?pod \<and> ev \<noteq> ESleep 1"
  define s1 where "s1 = snd (getLonghornVolume api volumeName (w, []))"
  define s2 where "s2 = snd (createTemporaryPV api volumeName namespace storageClass s1)"
  define size0 where "size0 = Size (case fst (getLonghornVolume api volumeName (w, [])) of Ok v \<Rightarrow> v)"
  define s3 where "s3 = snd (ensureTemporaryPVC api namespace (''lhc-temp-pvc-'' @ volumeName)
                       (''lhc-temp-pv-'' @ volumeName) storageClass size0 s2)"
  define s4 where "s4 = snd (ensureTemporaryPod api namespace (''lhc-temp-pod-'' @ volumeName)
                      (''lhc-temp-pvc-'' @ volumeName) ''/mnt/volume'' ''temp-container'' s3)"
  have l1: "logs ?A (w, []) s1"
    unfolding s1_def by (intro logs_getLonghornVolume logs_refl) simp_all
  have l2: "logs ?A (w, []) s2"
    unfolding s2_def by (intro logs_createTemporaryPV l1) simp_all
  have c1: "count_list (snd s1) ?pvc = 0" "count_list (snd s1) ?pod = 0" "count_list (snd s1) (ESleep 1) = 0"
    using logs_count [OF l1, of ?pvc] logs_count [OF l1, of ?pod] logs_count [OF l1, of "ESleep 1"]
    by simp_all
  have c2: "count_list (snd s2) ?pvc = 0" "count_list (snd s2) ?pod = 0" "count_list (snd s2) (ESleep 1) = 0"
    using logs_count [OF l2, of ?pvc] logs_count [OF l2, of ?pod] logs_count [OF l2, of "ESleep 1"]
    by simp_all
  have l3: "logs (\<lambda>ev. ev \<noteq> ?pod) s2 s3"
    unfolding s3_def by (intro logs_ensureTemporaryPVC logs_refl) simp_all
  have c3: "count_list (snd s3) ?pvc \<le> 61" "count_list (snd s3) ?pod = 0" "count_list (snd s3) (ESleep 1) \<le> 60"
    using ensureTemporaryPVC_bounded [of api namespace "''lhc-temp-pvc-'' @ volumeName"
        "''lhc-temp-pv-'' @ volumeName" storageClass size0 s2]
      logs_count [OF l3, of ?pod] c2
    unfolding s3_def by simp_all
  have l4: "logs (\<lambda>ev. ev \<noteq> ?pvc) s3 s4"
    unfolding s4_def by (intro logs_ensureTemporaryPod logs_refl) simp_all
  have c4: "count_list (snd s4) ?pvc \<le> 61" "count_list (snd s4) ?pod \<le> 121" "count_list (snd s4) (ESleep 1) \<le> 180"
    using ensureTemporaryPod_bounded [of api namespace "''lhc-temp-pod-'' @ volumeName"
        "''lhc-temp-pvc-'' @ volumeName" "''/mnt/volume''" "''temp-container''" s3]
      logs_count [OF l4, of ?pvc] c3
    unfolding s4_def by simp_all
  have "snd (createTemporaryPodForLonghorn api volumeName namespace storageClass (w, [])) \<in> {s1, s2, s3, s4}"
    by (simp add: createTemporaryPodForLonghorn_def case_prod_beta s1_def s2_def s3_def s4_def size0_def
          split: result.splits)
  with c1 c2 c3 c4 show ?thesis by auto
qed

lemma createTemporaryPodForLonghorn_sleeps:
  "ESleep n \<in> set (snd (snd (createTemporaryPodForLonghorn api volumeName namespace storageClass (w, []))))
   \<Longrightarrow> n = 1"
proof -
  assume a: "ESleep n \<in> set (snd (snd (createTemporaryPodForLonghorn api volumeName namespace storageClass (w, []))))"
  have "logs (provisionEvent volumeName namespace) (w, [])
          (snd (createTemporaryPodForLonghorn api volumeName namespace storageClass (w, [])))"
    by (intro logs_createTemporaryPodForLonghorn logs_refl)
  then have "list_all (provisionEvent volumeName namespace)
          (snd (snd (createTemporaryPodForLonghorn api volumeName namespace storageClass (w, []))))"
    by (simp add: logs_def)
  with a have "provisionEvent volumeName namespace (ESleep n)"
    by (auto simp: list_all_iff)
  then show ?thesis by (simp add: provisionEvent_def)
qed

lemma count_list_concat_replicate:
  "count_list (concat (replicate k xs)) x = k * count_list xs x"
  by (induction k) simp_all

lemma polls_replicate:
  "tr @ [a, b] @ concat (replicate j [a, b]) = tr @ concat (replicate (Suc j) [a, b])"
  by simp

lemma waitPVCBound_pending:
  assumes "\<forall>k<j. \<exists>pvc. api_getPVC api namespace pvcName ((api_sleep api 1 ^^ k) w) =
                         (Inr pvc, (api_sleep api 1 ^^ k) w) \<and> pvc_Phase pvc \<noteq> ClaimBound"
  shows "waitPVCBound api namespace pvcName (j + m) (w, tr) =
           waitPVCBound api namespace pvcName m
             ((api_sleep api 1 ^^ j) w, tr @ concat (replicate j [EGetPVC namespace pvcName, ESleep 1]))"
  using assms
proof (induction j arbitrary: w tr)
  case 0
  show ?case by simp
next
  case (Suc j)
  from Suc.prems [rule_format, of 0] obtain pvc where
    now: "api_getPVC api namespace pvcName w = (Inr pvc, w)" "pvc_Phase pvc \<noteq> ClaimBound"
    by auto
  have later: "\<forall>k<j. \<exists>pvc. api_getPVC api namespace pvcName ((api_sleep api 1 ^^ k) (api_sleep api 1 w)) =
                         (Inr pvc, (api_sleep api 1 ^^ k) (api_sleep api 1 w)) \<and> pvc_Phase pvc \<noteq> ClaimBound"
    using Suc.prems [rule_format, of "Suc k" for k] by (simp add: funpow_swap1)
  have "waitPVCBound api namespace pvcName (Suc j + m) (w, tr) =
      waitPVCBound api namespace pvcName (j + m)
        (api_sleep api 1 w, tr @ [EGetPVC namespace pvcName, ESleep 1])"
    using now by (simp add: query_def sleep_def)
  also have "\<dots> = waitPVCBound api namespace pvcName m
      ((api_sleep api 1 ^^ j) (api_sleep api 1 w),
       (tr @ [EGetPVC namespace pvcName, ESleep 1]) @ concat (replicate j [EGetPVC namespace pvcName, ESleep 1]))"
    by (rule Suc.IH [OF later])
  finally show ?case
    by (simp add: funpow_swap1)
qed

lemma waitPodRunning_pending:
  assumes "\<forall>k<j. \<exists>pod. api_getPod api namespace podName ((api_sleep api 1 ^^ k) w) =
                         (Inr pod, (api_sleep api 1 ^^ k) w) \<and> pod_Phase pod \<noteq> PodRunning"
  shows "waitPodRunning api namespace podName mountPath containerName (j + m) (w, tr) =
           waitPodRunning api namespace podName mountPath containerName m
             ((api_sleep api 1 ^^ j) w, tr @ concat (replicate j [EGetPod namespace podName, ESleep 1]))"
  using assms
proof (induction j arbitrary: w tr)
  case 0
  show ?case by simp
next
  case (Suc j)
  from Suc.prems [rule_format, of 0] obtain pod where
    now: "api_getPod api namespace podName w = (Inr pod, w)" "pod_Phase pod \<noteq> PodRunning"
    by auto
  have later: "\<forall>k<j. \<exists>pod. api_getPod api namespace podName ((api_sleep api 1 ^^ k) (api_sleep api 1 w)) =
                         (Inr pod, (api_sleep api 1 ^^ k) (api_sleep api 1 w)) \<and> pod_Phase pod \<noteq> PodRunning"
    using Suc.prems [rule_format, of "Suc k" for k] by (simp add: funpow_swap1)
  have "waitPodRunning api namespace podName mountPath containerName (Suc j + m) (w, tr) =
      waitPodRunning api namespace podName mountPath containerName (j + m)
        (api_sleep api 1 w, tr @ [EGetPod namespace podName, ESleep 1])"
    using now by (simp add: query_def sleep_def)
  also have "\<dots> = waitPodRunning api namespace podName mountPath containerName m
      ((api_sleep api 1 ^^ j) (api_sleep api 1 w),
       (tr @ [EGetPod namespace podName, ESleep 1]) @ concat (replicate j [EGetPod namespace podName, ESleep 1]))"
    by (rule Suc.IH [OF later])
  finally show ?case
    by (simp add: funpow_swap1)
qed

lemma waitPVCBound_failed_read:
  assumes "0 < m" and "api_getPVC api namespace pvcName w = (Inl e, w')"
  shows "waitPVCBound api namespace pvcName m (w, tr) =
           (Err (Errorf ''failed to get PVC status: %v'' [AErr e]),
            (w', tr @ [EGetPVC namespace pvcName, EFailed e]))"
  using assms by (cases m) (simp_all add: query_def)

lemma waitPodRunning_failed_read:
  assumes "0 < m" and "api_getPod api namespace podName w = (Inl e, w')"
  shows "waitPodRunning api namespace podName mountPath containerName m (w, tr) =
           (Err (Errorf ''failed to get pod status: %v'' [AErr e]),
            (w', tr @ [EGetPod namespace podName, EFailed e]))"
  using assms by (cases m) (simp_all add: query_def)


lemma ensureTemporaryPVC_waits:
  assumes "api_getPVC api namespace pvcName w = (Inl e, w1)"
      and "api_validQuantity api size0"
      and "api_createPVC api namespace (temporaryPVC pvcName namespace storageClass pvName size0) w1
             = (None, w2)"
  shows "ensureTemporaryPVC api namespace pvcName pvName storageClass size0 (w, tr) =
           waitPVCBound api namespace pvcName 60
             (w2, tr @ [EGetPVC namespace pvcName, EFailed e,
                        ECreatePVC namespace (temporaryPVC pvcName namespace storageClass pvName size0),
                        EPrintf ''Waiting for PVC %s to be bound...\<newline>'' [AStr pvcName]])"
  using assms by (simp add: ensureTemporaryPVC_def query_def call_def emit_def)

lemma ensureTemporaryPod_waits:
  assumes "api_getPod api namespace podName w = (found, w1)"
      and "\<not> podIsRunning found"
      and "api_createPod api namespace (temporaryPod podName namespace containerName mountPath pvcName) w1
             = (None, w2)"
  shows "ensureTemporaryPod api namespace podName pvcName mountPath containerName (w, tr) =
           waitPodRunning api namespace podName mountPath containerName 120
             (w2, tr @ EGetPod namespace podName # (case found of Inl e \<Rightarrow> [EFailed e] | Inr _ \<Rightarrow> [])
                     @ [ECreatePod namespace (temporaryPod podName namespace containerName mountPath pvcName),
                        EPrintf ''Waiting for temporary pod %s to be ready...\<newline>'' [AStr podName]])"
  using assms by (simp add: ensureTemporaryPod_def query_def call_def emit_def)

lemma provisioner_steps:
  assumes "getLonghornVolume api volumeName s = (Ok volume, s1)"
      and "createTemporaryPV api volumeName namespace storageClass s1 = (Ok name, s2)"
  shows "createTemporaryPodForLonghorn api volumeName namespace storageClass s =
           (case ensureTemporaryPVC api namespace (''lhc-temp-pvc-'' @ volumeName)
                   (''lhc-temp-pv-'' @ volumeName) storageClass (Size volume) s2 of
              (Err e, s3) \<Rightarrow> (Err e, s3)
            | (Panic p, s3) \<Rightarrow> (Panic p, s3)
            | (Ok _, s3) \<Rightarrow>
                ensureTemporaryPod api namespace (''lhc-temp-pod-'' @ volumeName)
                  (''lhc-temp-pvc-'' @ volumeName) ''/mnt/volume'' ''temp-container'' s3)"
  using assms by (simp add: createTemporaryPodForLonghorn_def)

lemma provisioner_claim_wait:
  assumes "api_getPVC api namespace (''lhc-temp-pvc-'' @ volumeName) w2 = (Inl e, w3)"
      and "api_validQuantity api (Size volume)"
      and "api_createPVC api namespace
             (temporaryPVC (''lhc-temp-pvc-'' @ volumeName) namespace storageClass
                (''lhc-temp-pv-'' @ volumeName) (Size volume)) w3 = (None, w4)"
      and "\<forall>k<j. \<exists>pvc. api_getPVC api namespace (''lhc-temp-pvc-'' @ volumeName) ((api_sleep api 1 ^^ k) w4) =
                         (Inr pvc, (api_sleep api 1 ^^ k) w4) \<and> pvc_Phase pvc \<noteq> ClaimBound"
      and "j \<le> 60"
  shows "ensureTemporaryPVC api namespace (''lhc-temp-pvc-'' @ volumeName)
                   (''lhc-temp-pv-'' @ volumeName) storageClass (Size volume) (w2, tr2) =
           waitPVCBound api namespace (''lhc-temp-pvc-'' @ volumeName) (60 - j)
             ((api_sleep api 1 ^^ j) w4,
              tr2 @ [EGetPVC namespace (''lhc-temp-pvc-'' @ volumeName), EFailed e,
                     ECreatePVC namespace
                       (temporaryPVC (''lhc-temp-pvc-'' @ volumeName) namespace storageClass
                          (''lhc-temp-pv-'' @ volumeName) (Size volume)),
                     EPrintf ''Waiting for PVC %s to be bound...\<newline>'' [AStr (''lhc-temp-pvc-'' @ volumeName)]]
                  @ concat (replicate j [EGetPVC namespace (''lhc-temp-pvc-'' @ volumeName), ESleep 1]))"
proof -
  from assms(5) have split: "j + (60 - j) = 60"
    by simp
  from waitPVCBound_pending [OF assms(4), where m = "60 - j"] show ?thesis
    unfolding ensureTemporaryPVC_waits [OF assms(1) assms(2) assms(3)] split
    by simp
qed

lemma provisioner_pod_wait:
  assumes "api_getPod api namespace (''lhc-temp-pod-'' @ volumeName) w5 = (found, w6)"
      and "\<not> podIsRunning found"
      and "api_createPod api namespace
             (temporaryPod (''lhc-temp-pod-'' @ volumeName) namespace ''temp-container'' ''/mnt/volume''
                (''lhc-temp-pvc-'' @ volumeName)) w6 = (None, w7)"
      and "\<forall>k<j. \<exists>pod. api_getPod api namespace (''lhc-temp-pod-'' @ volumeName) ((api_sleep api 1 ^^ k) w7) =
                         (Inr pod, (api_sleep api 1 ^^ k) w7) \<and> pod_Phase pod \<noteq> PodRunning"
      and "j \<le> 120"
  shows "ensureTemporaryPod api namespace (''lhc-temp-pod-'' @ volumeName)
                  (''lhc-temp-pvc-'' @ volumeName) ''/mnt/volume'' ''temp-container'' (w5, tr5) =
           waitPodRunning api namespace (''lhc-temp-pod-'' @ volumeName) ''/mnt/volume'' ''temp-container''
             (120 - j)
             ((api_sleep api 1 ^^ j) w7,
              tr5 @ EGetPod namespace (''lhc-temp-pod-'' @ volumeName)
                  # (case found of Inl e \<Rightarrow> [EFailed e] | Inr _ \<Rightarrow> [])
                  @ [ECreatePod namespace
                       (temporaryPod (''lhc-temp-pod-'' @ volumeName) namespace ''temp-container''
                          ''/mnt/volume'' (''lhc-temp-pvc-'' @ volumeName)),
                     EPrintf ''Waiting for temporary pod %s to be ready...\<newline>''
                       [AStr (''lhc-temp-pod-'' @ volumeName)]]
                  @ concat (replicate j [EGetPod namespace (''lhc-temp-pod-'' @ volumeName), ESleep 1]))"
proof -
  from assms(5) have split: "j + (120 - j) = 120"
    by simp
  from waitPodRunning_pending [OF assms(4), where m = "120 - j"] show ?thesis
    unfolding ensureTemporaryPod_waits [OF assms(1) assms(2) assms(3)] split
    by simp
qed


text \<open>
  C7. The waits of the provisioner are bounded. In every run of
  \<^verbatim>\<open>createTemporaryPodForLonghorn\<close>, with every client, the claim is read at most 61
  times (the lookup and at most 60 polls), the pod at most 121 times (the lookup and at
  most 120 polls), and the program sleeps at most 180 times, one second each time.

  Let the volume be found, the PV step succeed, the lookup of the claim fail and its
  creation succeed, and let \<open>w4\<close> be the world after the creation; the world at the poll
  number \<open>k\<close> is \<open>w4\<close> after \<open>k\<close> sleeps of one second. When the first 60 polls all read a
  claim that is not bound, the provisioner does not fail: after exactly 60 reads and 60
  sleeps it goes on with the pod step. When a poll before the 60th fails to read the claim,
  the polls before it having read a claim that is not bound, the provisioner returns
  that read's error at once: the failed read is the last event of its log.

  Let the claim step succeed, the lookup of the pod find no running pod and the creation of
  the pod succeed, and let \<open>w7\<close> be the world after the creation. When the first 120 polls
  all read a pod that is not running, the provisioner returns the error that the pod did
  not become ready in time, after exactly 120 reads and 120 sleeps. When a poll before the
  120th fails to read the pod, the provisioner returns that read's error at once.
\<close>

theorem provisioner_waits_are_bounded:
  "count_list (snd (snd (createTemporaryPodForLonghorn api volumeName namespace storageClass (w, []))))
     (EGetPVC namespace (''lhc-temp-pvc-'' @ volumeName)) \<le> 61
   \<and> count_list (snd (snd (createTemporaryPodForLonghorn api volumeName namespace storageClass (w, []))))
     (EGetPod namespace (''lhc-temp-pod-'' @ volumeName)) \<le> 121
   \<and> count_list (snd (snd (createTemporaryPodForLonghorn api volumeName namespace storageClass (w, []))))
     (ESleep 1) \<le> 180
   \<and> (\<forall>n. ESleep n \<in> set (snd (snd (createTemporaryPodForLonghorn api volumeName namespace storageClass (w, []))))
          \<longrightarrow> n = 1)
   \<and> (\<forall>volume s1 name w2 tr2 e w3 w4.
        getLonghornVolume api volumeName (w, []) = (Ok volume, s1)
        \<longrightarrow> createTemporaryPV api volumeName namespace storageClass s1 = (Ok name, (w2, tr2))
        \<longrightarrow> api_getPVC api namespace (''lhc-temp-pvc-'' @ volumeName) w2 = (Inl e, w3)
        \<longrightarrow> api_validQuantity api (Size volume)
        \<longrightarrow> api_createPVC api namespace
              (temporaryPVC (''lhc-temp-pvc-'' @ volumeName) namespace storageClass
                 (''lhc-temp-pv-'' @ volumeName) (Size volume)) w3 = (None, w4)
        \<longrightarrow> ((\<forall>k<60. \<exists>pvc. api_getPVC api namespace (''lhc-temp-pvc-'' @ volumeName)
                               ((api_sleep api 1 ^^ k) w4) = (Inr pvc, (api_sleep api 1 ^^ k) w4)
                            \<and> pvc_Phase pvc \<noteq> ClaimBound)
              \<longrightarrow> createTemporaryPodForLonghorn api volumeName namespace storageClass (w, []) =
                    ensureTemporaryPod api namespace (''lhc-temp-pod-'' @ volumeName)
                      (''lhc-temp-pvc-'' @ volumeName) ''/mnt/volume'' ''temp-container''
                      ((api_sleep api 1 ^^ 60) w4,
                       tr2 @ [EGetPVC namespace (''lhc-temp-pvc-'' @ volumeName), EFailed e,
                              ECreatePVC namespace
                                (temporaryPVC (''lhc-temp-pvc-'' @ volumeName) namespace storageClass
                                   (''lhc-temp-pv-'' @ volumeName) (Size volume)),
                              EPrintf ''Waiting for PVC %s to be bound...\<newline>''
                                [AStr (''lhc-temp-pvc-'' @ volumeName)]]
                           @ concat (replicate 60
                                [EGetPVC namespace (''lhc-temp-pvc-'' @ volumeName), ESleep 1])))
          \<and> (\<forall>j e' w'. j < 60
              \<longrightarrow> (\<forall>k<j. \<exists>pvc. api_getPVC api namespace (''lhc-temp-pvc-'' @ volumeName)
                               ((api_sleep api 1 ^^ k) w4) = (Inr pvc, (api_sleep api 1 ^^ k) w4)
                            \<and> pvc_Phase pvc \<noteq> ClaimBound)
              \<longrightarrow> api_getPVC api namespace (''lhc-temp-pvc-'' @ volumeName) ((api_sleep api 1 ^^ j) w4)
                    = (Inl e', w')
              \<longrightarrow> createTemporaryPodForLonghorn api volumeName namespace storageClass (w, []) =
                    (Err (Errorf ''failed to get PVC status: %v'' [AErr e']),
                     (w', tr2 @ [EGetPVC namespace (''lhc-temp-pvc-'' @ volumeName), EFailed e,
                                 ECreatePVC namespace
                                   (temporaryPVC (''lhc-temp-pvc-'' @ volumeName) namespace storageClass
                                      (''lhc-temp-pv-'' @ volumeName) (Size volume)),
                                 EPrintf ''Waiting for PVC %s to be bound...\<newline>''
                                   [AStr (''lhc-temp-pvc-'' @ volumeName)]]
                              @ concat (replicate j
                                   [EGetPVC namespace (''lhc-temp-pvc-'' @ volumeName), ESleep 1])
                              @ [EGetPVC namespace (''lhc-temp-pvc-'' @ volumeName), EFailed e']))))
   \<and> (\<forall>volume s1 name s2 w5 tr5 found w6 w7.
        getLonghornVolume api volumeName (w, []) = (Ok volume, s1)
        \<longrightarrow> createTemporaryPV api volumeName namespace storageClass s1 = (Ok name, s2)
        \<longrightarrow> ensureTemporaryPVC api namespace (''lhc-temp-pvc-'' @ volumeName)
              (''lhc-temp-pv-'' @ volumeName) storageClass (Size volume) s2 = (Ok (), (w5, tr5))
        \<longrightarrow> api_getPod api namespace (''lhc-temp-pod-'' @ volumeName) w5 = (found, w6)
        \<longrightarrow> \<not> podIsRunning found
        \<longrightarrow> api_createPod api namespace
              (temporaryPod (''lhc-temp-pod-'' @ volumeName) namespace ''temp-container'' ''/mnt/volume''
                 (''lhc-temp-pvc-'' @ volumeName)) w6 = (None, w7)
        \<longrightarrow> ((\<forall>k<120. \<exists>pod. api_getPod api namespace (''lhc-temp-pod-'' @ volumeName)
                               ((api_sleep api 1 ^^ k) w7) = (Inr pod, (api_sleep api 1 ^^ k) w7)
                            \<and> pod_Phase pod \<noteq> PodRunning)
              \<longrightarrow> createTemporaryPodForLonghorn api volumeName namespace storageClass (w, []) =
                    (Err (Errorf ''temporary pod %s did not become ready in time''
                            [AStr (''lhc-temp-pod-'' @ volumeName)]),
                     ((api_sleep api 1 ^^ 120) w7,
                      tr5 @ EGetPod namespace (''lhc-temp-pod-'' @ volumeName)
                          # (case found of Inl e \<Rightarrow> [EFailed e] | Inr _ \<Rightarrow> [])
                          @ [ECreatePod namespace
                               (temporaryPod (''lhc-temp-pod-'' @ volumeName) namespace ''temp-container''
                                  ''/mnt/volume'' (''lhc-temp-pvc-'' @ volumeName)),
                             EPrintf ''Waiting for temporary pod %s to be ready...\<newline>''
                               [AStr (''lhc-temp-pod-'' @ volumeName)]]
                          @ concat (replicate 120
                               [EGetPod namespace (''lhc-temp-pod-'' @ volumeName), ESleep 1]))))
          \<and> (\<forall>j e' w'. j < 120
              \<longrightarrow> (\<forall>k<j. \<exists>pod. api_getPod api namespace (''lhc-temp-pod-'' @ volumeName)
                               ((api_sleep api 1 ^^ k) w7) = (Inr pod, (api_sleep api 1 ^^ k) w7)
                            \<and> pod_Phase pod \<noteq> PodRunning)
              \<longrightarrow> api_getPod api namespace (''lhc-temp-pod-'' @ volumeName) ((api_sleep api 1 ^^ j) w7)
                    = (Inl e', w')
              \<longrightarrow> createTemporaryPodForLonghorn api volumeName namespace storageClass (w, []) =
                    (Err (Errorf ''failed to get pod status: %v'' [AErr e']),
                     (w', tr5 @ EGetPod namespace (''lhc-temp-pod-'' @ volumeName)
                              # (case found of Inl e \<Rightarrow> [EFailed e] | Inr _ \<Rightarrow> [])
                              @ [ECreatePod namespace
                                   (temporaryPod (''lhc-temp-pod-'' @ volumeName) namespace ''temp-container''
                                      ''/mnt/volume'' (''lhc-temp-pvc-'' @ volumeName)),
                                 EPrintf ''Waiting for temporary pod %s to be ready...\<newline>''
                                   [AStr (''lhc-temp-pod-'' @ volumeName)]]
                              @ concat (replicate j
                                   [EGetPod namespace (''lhc-temp-pod-'' @ volumeName), ESleep 1])
                              @ [EGetPod namespace (''lhc-temp-pod-'' @ volumeName), EFailed e']))))"
proof (intro conjI allI impI)
  show "count_list (snd (snd (createTemporaryPodForLonghorn api volumeName namespace storageClass (w, []))))
     (EGetPVC namespace (''lhc-temp-pvc-'' @ volumeName)) \<le> 61"
    and "count_list (snd (snd (createTemporaryPodForLonghorn api volumeName namespace storageClass (w, []))))
     (EGetPod namespace (''lhc-temp-pod-'' @ volumeName)) \<le> 121"
    and "count_list (snd (snd (createTemporaryPodForLonghorn api volumeName namespace storageClass (w, []))))
     (ESleep 1) \<le> 180"
    using createTemporaryPodForLonghorn_bounded [of api volumeName namespace storageClass w] by simp_all
next
  fix n
  assume "ESleep n \<in> set (snd (snd (createTemporaryPodForLonghorn api volumeName namespace storageClass (w, []))))"
  then show "n = 1" by (rule createTemporaryPodForLonghorn_sleeps)
next
  fix volume s1 name w2 tr2 e w3 w4
  assume g: "getLonghornVolume api volumeName (w, []) = (Ok volume, s1)"
    and pv: "createTemporaryPV api volumeName namespace storageClass s1 = (Ok name, (w2, tr2))"
    and absent: "api_getPVC api namespace (''lhc-temp-pvc-'' @ volumeName) w2 = (Inl e, w3)"
    and valid: "api_validQuantity api (Size volume)"
    and made: "api_createPVC api namespace
              (temporaryPVC (''lhc-temp-pvc-'' @ volumeName) namespace storageClass
                 (''lhc-temp-pv-'' @ volumeName) (Size volume)) w3 = (None, w4)"
    and pending: "\<forall>k<60. \<exists>pvc. api_getPVC api namespace (''lhc-temp-pvc-'' @ volumeName)
                               ((api_sleep api 1 ^^ k) w4) = (Inr pvc, (api_sleep api 1 ^^ k) w4)
                            \<and> pvc_Phase pvc \<noteq> ClaimBound"
  show "createTemporaryPodForLonghorn api volumeName namespace storageClass (w, []) =
                    ensureTemporaryPod api namespace (''lhc-temp-pod-'' @ volumeName)
                      (''lhc-temp-pvc-'' @ volumeName) ''/mnt/volume'' ''temp-container''
                      ((api_sleep api 1 ^^ 60) w4,
                       tr2 @ [EGetPVC namespace (''lhc-temp-pvc-'' @ volumeName), EFailed e,
                              ECreatePVC namespace
                                (temporaryPVC (''lhc-temp-pvc-'' @ volumeName) namespace storageClass
                                   (''lhc-temp-pv-'' @ volumeName) (Size volume)),
                              EPrintf ''Waiting for PVC %s to be bound...\<newline>''
                                [AStr (''lhc-temp-pvc-'' @ volumeName)]]
                           @ concat (replicate 60
                                [EGetPVC namespace (''lhc-temp-pvc-'' @ volumeName), ESleep 1]))"
    unfolding provisioner_steps [OF g pv]
      provisioner_claim_wait [OF absent valid made pending order_refl]
    by simp
next
  fix volume s1 name w2 tr2 e w3 w4 j e' w'
  assume g: "getLonghornVolume api volumeName (w, []) = (Ok volume, s1)"
    and pv: "createTemporaryPV api volumeName namespace storageClass s1 = (Ok name, (w2, tr2))"
    and absent: "api_getPVC api namespace (''lhc-temp-pvc-'' @ volumeName) w2 = (Inl e, w3)"
    and valid: "api_validQuantity api (Size volume)"
    and made: "api_createPVC api namespace
              (temporaryPVC (''lhc-temp-pvc-'' @ volumeName) namespace storageClass
                 (''lhc-temp-pv-'' @ volumeName) (Size volume)) w3 = (None, w4)"
    and early: "j < 60"
    and pending: "\<forall>k<j. \<exists>pvc. api_getPVC api namespace (''lhc-temp-pvc-'' @ volumeName)
                               ((api_sleep api 1 ^^ k) w4) = (Inr pvc, (api_sleep api 1 ^^ k) w4)
                            \<and> pvc_Phase pvc \<noteq> ClaimBound"
    and failed: "api_getPVC api namespace (''lhc-temp-pvc-'' @ volumeName) ((api_sleep api 1 ^^ j) w4)
                    = (Inl e', w')"
  from early have le: "j \<le> 60" and left: "0 < 60 - j"
    by simp_all
  show "createTemporaryPodForLonghorn api volumeName namespace storageClass (w, []) =
                    (Err (Errorf ''failed to get PVC status: %v'' [AErr e']),
                     (w', tr2 @ [EGetPVC namespace (''lhc-temp-pvc-'' @ volumeName), EFailed e,
                                 ECreatePVC namespace
                                   (temporaryPVC (''lhc-temp-pvc-'' @ volumeName) namespace storageClass
                                      (''lhc-temp-pv-'' @ volumeName) (Size volume)),
                                 EPrintf ''Waiting for PVC %s to be bound...\<newline>''
                                   [AStr (''lhc-temp-pvc-'' @ volumeName)]]
                              @ concat (replicate j
                                   [EGetPVC namespace (''lhc-temp-pvc-'' @ volumeName), ESleep 1])
                              @ [EGetPVC namespace (''lhc-temp-pvc-'' @ volumeName), EFailed e']))"
    unfolding provisioner_steps [OF g pv]
      provisioner_claim_wait [OF absent valid made pending le]
      waitPVCBound_failed_read [OF left failed]
    by simp
next
  fix volume s1 name s2 w5 tr5 found w6 w7
  assume g: "getLonghornVolume api volumeName (w, []) = (Ok volume, s1)"
    and pv: "createTemporaryPV api volumeName namespace storageClass s1 = (Ok name, s2)"
    and pvc: "ensureTemporaryPVC api namespace (''lhc-temp-pvc-'' @ volumeName)
              (''lhc-temp-pv-'' @ volumeName) storageClass (Size volume) s2 = (Ok (), (w5, tr5))"
    and looked: "api_getPod api namespace (''lhc-temp-pod-'' @ volumeName) w5 = (found, w6)"
    and idle: "\<not> podIsRunning found"
    and made: "api_createPod api namespace
              (temporaryPod (''lhc-temp-pod-'' @ volumeName) namespace ''temp-container'' ''/mnt/volume''
                 (''lhc-temp-pvc-'' @ volumeName)) w6 = (None, w7)"
    and pending: "\<forall>k<120. \<exists>pod. api_getPod api namespace (''lhc-temp-pod-'' @ volumeName)
                               ((api_sleep api 1 ^^ k) w7) = (Inr pod, (api_sleep api 1 ^^ k) w7)
                            \<and> pod_Phase pod \<noteq> PodRunning"
  show "createTemporaryPodForLonghorn api volumeName namespace storageClass (w, []) =
                    (Err (Errorf ''temporary pod %s did not become ready in time''
                            [AStr (''lhc-temp-pod-'' @ volumeName)]),
                     ((api_sleep api 1 ^^ 120) w7,
                      tr5 @ EGetPod namespace (''lhc-temp-pod-'' @ volumeName)
                          # (case found of Inl e \<Rightarrow> [EFailed e] | Inr _ \<Rightarrow> [])
                          @ [ECreatePod namespace
                               (temporaryPod (''lhc-temp-pod-'' @ volumeName) namespace ''temp-container''
                                  ''/mnt/volume'' (''lhc-temp-pvc-'' @ volumeName)),
                             EPrintf ''Waiting for temporary pod %s to be ready...\<newline>''
                               [AStr (''lhc-temp-pod-'' @ volumeName)]]
                          @ concat (replicate 120
                               [EGetPod namespace (''lhc-temp-pod-'' @ volumeName), ESleep 1])))"
    unfolding provisioner_steps [OF g pv] pvc prod.case result.case
      provisioner_pod_wait [OF looked idle made pending order_refl, of tr5]
    by simp
next
  fix volume s1 name s2 w5 tr5 found w6 w7 j e' w'
  assume g: "getLonghornVolume api volumeName (w, []) = (Ok volume, s1)"
    and pv: "createTemporaryPV api volumeName namespace storageClass s1 = (Ok name, s2)"
    and pvc: "ensureTemporaryPVC api namespace (''lhc-temp-pvc-'' @ volumeName)
              (''lhc-temp-pv-'' @ volumeName) storageClass (Size volume) s2 = (Ok (), (w5, tr5))"
    and looked: "api_getPod api namespace (''lhc-temp-pod-'' @ volumeName) w5 = (found, w6)"
    and idle: "\<not> podIsRunning found"
    and made: "api_createPod api namespace
              (temporaryPod (''lhc-temp-pod-'' @ volumeName) namespace ''temp-container'' ''/mnt/volume''
                 (''lhc-temp-pvc-'' @ volumeName)) w6 = (None, w7)"
    and early: "j < 120"
    and pending: "\<forall>k<j. \<exists>pod. api_getPod api namespace (''lhc-temp-pod-'' @ volumeName)
                               ((api_sleep api 1 ^^ k) w7) = (Inr pod, (api_sleep api 1 ^^ k) w7)
                            \<and> pod_Phase pod \<noteq> PodRunning"
    and failed: "api_getPod api namespace (''lhc-temp-pod-'' @ volumeName) ((api_sleep api 1 ^^ j) w7)
                    = (Inl e', w')"
  from early have le: "j \<le> 120" and left: "0 < 120 - j"
    by simp_all
  show "createTemporaryPodForLonghorn api volumeName namespace storageClass (w, []) =
                    (Err (Errorf ''failed to get pod status: %v'' [AErr e']),
                     (w', tr5 @ EGetPod namespace (''lhc-temp-pod-'' @ volumeName)
                              # (case found of Inl e \<Rightarrow> [EFailed e] | Inr _ \<Rightarrow> [])
                              @ [ECreatePod namespace
                                   (temporaryPod (''lhc-temp-pod-'' @ volumeName) namespace ''temp-container''
                                      ''/mnt/volume'' (''lhc-temp-pvc-'' @ volumeName)),
                                 EPrintf ''Waiting for temporary pod %s to be ready...\<newline>''
                                   [AStr (''lhc-temp-pod-'' @ volumeName)]]
                              @ concat (replicate j
                                   [EGetPod namespace (''lhc-temp-pod-'' @ volumeName), ESleep 1])
                              @ [EGetPod namespace (''lhc-temp-pod-'' @ volumeName), EFailed e']))"
    unfolding provisioner_steps [OF g pv] pvc prod.case result.case
      provisioner_pod_wait [OF looked idle made pending le, of tr5]
      waitPodRunning_failed_read [OF left failed]
    by simp
qed


lemma sim_sleep_tick: "api_sleep (sim valid) 1 = tick"
  by (rule ext) (simp add: sim_def)

lemma ticking:
  "k \<le> cl_delay c \<Longrightarrow> (tick ^^ k) c = c\<lparr>cl_delay := cl_delay c - k\<rparr>"
proof (induction k)
  case 0
  show ?case by simp
next
  case (Suc k)
  then have before: "(tick ^^ k) c = c\<lparr>cl_delay := cl_delay c - k\<rparr>" and left: "0 < cl_delay c - k"
    by simp_all
  have "(tick ^^ Suc k) c = tick (c\<lparr>cl_delay := cl_delay c - k\<rparr>)"
    by (simp only: funpow.simps o_apply before)
  also have "\<dots> = c\<lparr>cl_delay := cl_delay c - Suc k\<rparr>"
    using left by (simp add: tick_def)
  finally show ?case .
qed

lemma sim_sleeps:
  "k \<le> cl_delay c \<Longrightarrow> (api_sleep (sim valid) 1 ^^ k) c = c\<lparr>cl_delay := cl_delay c - k\<rparr>"
  unfolding sim_sleep_tick by (rule ticking)

lemma slow_steps:
  "getLonghornVolume (sim decimalQuantity) ''data'' (slowCluster, []) =
     (Ok \<lparr>Name = ''data'', Size = ''1073741824'', State = ''detached'', PVName = []\<rparr>,
      (slowCluster, [EListVolumes]))"
  "createTemporaryPV (sim decimalQuantity) ''data'' ''default'' ''longhorn'' (slowCluster, [EListVolumes]) =
     (Ok ''lhc-temp-pv-data'',
      (slowCluster\<lparr>cl_pvs := [temporaryPV ''lhc-temp-pv-data'' ''data'' ''longhorn'' ''1073741824''
                                  \<lparr>pv_Phase := ''Available''\<rparr>]\<rparr>,
       [EListVolumes, EGetPV ''lhc-temp-pv-data'', EFailed NotFound, EListVolumes,
        ECreatePV (temporaryPV ''lhc-temp-pv-data'' ''data'' ''longhorn'' ''1073741824'')]))"
  "api_getPVC (sim decimalQuantity) ''default'' ''lhc-temp-pvc-data''
     (slowCluster\<lparr>cl_pvs := pvs\<rparr>) = (Inl NotFound, slowCluster\<lparr>cl_pvs := pvs\<rparr>)"
  "api_createPVC (sim decimalQuantity) ''default'' pvc (slowCluster\<lparr>cl_pvs := pvs\<rparr>) =
     (None, slowCluster\<lparr>cl_pvs := pvs,
                        cl_pvcs := [pvc\<lparr>pvc_Namespace := ''default'', pvc_Phase := ''Pending''\<rparr>]\<rparr>)"
  "api_getPod (sim decimalQuantity) ''default'' ''lhc-temp-pod-data''
     (slowCluster\<lparr>cl_pvs := pvs, cl_pvcs := pvcs, cl_delay := d\<rparr>) =
     (Inl NotFound, slowCluster\<lparr>cl_pvs := pvs, cl_pvcs := pvcs, cl_delay := d\<rparr>)"
  "api_createPod (sim decimalQuantity) ''default'' pod
     (slowCluster\<lparr>cl_pvs := pvs, cl_pvcs := pvcs, cl_delay := d\<rparr>) =
     (None, slowCluster\<lparr>cl_pvs := pvs, cl_pvcs := pvcs, cl_delay := d,
                        cl_pods := [pod\<lparr>pod_Namespace := ''default'', pod_Phase := ''Pending''\<rparr>]\<rparr>)"
  by (simp_all add: getLonghornVolume_def getLonghornVolumes_def createTemporaryPV_def query_def call_def
        toVolume_def sim_def answer_def lookup_def isPV_def sim_createPV_def sim_createPVC_def
        sim_createPod_def decimalQuantity_def slowCluster_def detachedCluster_def noFaults_def)


lemma slow_delay [simp]: "cl_delay slowCluster = 1000" "cl_faults slowCluster = noFaults"
  "cl_pvcs slowCluster = []" "cl_pods slowCluster = []" "cl_pvs slowCluster = []"
  by (simp_all add: slowCluster_def detachedCluster_def)

lemma slow_claim_pending:
  "\<forall>k<60. \<exists>pvc. api_getPVC (sim decimalQuantity) ''default'' ''lhc-temp-pvc-data''
             ((api_sleep (sim decimalQuantity) 1 ^^ k)
                (slowCluster\<lparr>cl_pvs := pvs,
                   cl_pvcs := [temporaryPVC ''lhc-temp-pvc-data'' ''default'' ''longhorn''
                                 ''lhc-temp-pv-data'' ''1073741824''
                               \<lparr>pvc_Namespace := ''default'', pvc_Phase := ''Pending''\<rparr>]\<rparr>)) =
           (Inr pvc,
            (api_sleep (sim decimalQuantity) 1 ^^ k)
                (slowCluster\<lparr>cl_pvs := pvs,
                   cl_pvcs := [temporaryPVC ''lhc-temp-pvc-data'' ''default'' ''longhorn''
                                 ''lhc-temp-pv-data'' ''1073741824''
                               \<lparr>pvc_Namespace := ''default'', pvc_Phase := ''Pending''\<rparr>]\<rparr>))
         \<and> pvc_Phase pvc \<noteq> ClaimBound"
proof (intro allI impI)
  fix k :: nat
  assume "k < 60"
  then have "k \<le> cl_delay (slowCluster\<lparr>cl_pvs := pvs,
                   cl_pvcs := [temporaryPVC ''lhc-temp-pvc-data'' ''default'' ''longhorn''
                                 ''lhc-temp-pv-data'' ''1073741824''
                               \<lparr>pvc_Namespace := ''default'', pvc_Phase := ''Pending''\<rparr>]\<rparr>)"
    by simp
  note now = sim_sleeps [OF this, of decimalQuantity]
  show "\<exists>pvc. api_getPVC (sim decimalQuantity) ''default'' ''lhc-temp-pvc-data''
             ((api_sleep (sim decimalQuantity) 1 ^^ k)
                (slowCluster\<lparr>cl_pvs := pvs,
                   cl_pvcs := [temporaryPVC ''lhc-temp-pvc-data'' ''default'' ''longhorn''
                                 ''lhc-temp-pv-data'' ''1073741824''
                               \<lparr>pvc_Namespace := ''default'', pvc_Phase := ''Pending''\<rparr>]\<rparr>)) =
           (Inr pvc,
            (api_sleep (sim decimalQuantity) 1 ^^ k)
                (slowCluster\<lparr>cl_pvs := pvs,
                   cl_pvcs := [temporaryPVC ''lhc-temp-pvc-data'' ''default'' ''longhorn''
                                 ''lhc-temp-pv-data'' ''1073741824''
                               \<lparr>pvc_Namespace := ''default'', pvc_Phase := ''Pending''\<rparr>]\<rparr>))
         \<and> pvc_Phase pvc \<noteq> ClaimBound"
    unfolding now
    by (simp add: sim_def answer_def noFaults_def lookup_def isPVC_def temporaryPVC_def ClaimBound_def)
qed

lemma slow_pod_pending:
  "\<forall>k<120. \<exists>pod. api_getPod (sim decimalQuantity) ''default'' ''lhc-temp-pod-data''
             ((api_sleep (sim decimalQuantity) 1 ^^ k)
                (slowCluster\<lparr>cl_pvs := pvs, cl_pvcs := pvcs, cl_delay := 940,
                   cl_pods := [temporaryPod ''lhc-temp-pod-data'' ''default'' ''temp-container''
                                 ''/mnt/volume'' ''lhc-temp-pvc-data''
                               \<lparr>pod_Namespace := ''default'', pod_Phase := ''Pending''\<rparr>]\<rparr>)) =
           (Inr pod,
            (api_sleep (sim decimalQuantity) 1 ^^ k)
                (slowCluster\<lparr>cl_pvs := pvs, cl_pvcs := pvcs, cl_delay := 940,
                   cl_pods := [temporaryPod ''lhc-temp-pod-data'' ''default'' ''temp-container''
                                 ''/mnt/volume'' ''lhc-temp-pvc-data''
                               \<lparr>pod_Namespace := ''default'', pod_Phase := ''Pending''\<rparr>]\<rparr>))
         \<and> pod_Phase pod \<noteq> PodRunning"
proof (intro allI impI)
  fix k :: nat
  assume "k < 120"
  then have "k \<le> cl_delay (slowCluster\<lparr>cl_pvs := pvs, cl_pvcs := pvcs, cl_delay := 940,
                   cl_pods := [temporaryPod ''lhc-temp-pod-data'' ''default'' ''temp-container''
                                 ''/mnt/volume'' ''lhc-temp-pvc-data''
                               \<lparr>pod_Namespace := ''default'', pod_Phase := ''Pending''\<rparr>]\<rparr>)"
    by simp
  note now = sim_sleeps [OF this, of decimalQuantity]
  show "\<exists>pod. api_getPod (sim decimalQuantity) ''default'' ''lhc-temp-pod-data''
             ((api_sleep (sim decimalQuantity) 1 ^^ k)
                (slowCluster\<lparr>cl_pvs := pvs, cl_pvcs := pvcs, cl_delay := 940,
                   cl_pods := [temporaryPod ''lhc-temp-pod-data'' ''default'' ''temp-container''
                                 ''/mnt/volume'' ''lhc-temp-pvc-data''
                               \<lparr>pod_Namespace := ''default'', pod_Phase := ''Pending''\<rparr>]\<rparr>)) =
           (Inr pod,
            (api_sleep (sim decimalQuantity) 1 ^^ k)
                (slowCluster\<lparr>cl_pvs := pvs, cl_pvcs := pvcs, cl_delay := 940,
                   cl_pods := [temporaryPod ''lhc-temp-pod-data'' ''default'' ''temp-container''
                                 ''/mnt/volume'' ''lhc-temp-pvc-data''
                               \<lparr>pod_Namespace := ''default'', pod_Phase := ''Pending''\<rparr>]\<rparr>))
         \<and> pod_Phase pod \<noteq> PodRunning"
    unfolding now
    by (simp add: sim_def answer_def noFaults_def lookup_def isPod_def temporaryPod_def PodRunning_def)
qed


lemma slow_valid: "api_validQuantity (sim decimalQuantity) ''1073741824''"
  by (simp add: sim_def decimalQuantity_def)

lemma slow_claim_wait:
  "ensureTemporaryPVC (sim decimalQuantity) ''default'' ''lhc-temp-pvc-data'' ''lhc-temp-pv-data''
     ''longhorn'' ''1073741824'' (slowCluster\<lparr>cl_pvs := pvs\<rparr>, tr) =
     (Ok (),
      (slowCluster\<lparr>cl_pvs := pvs,
                    cl_pvcs := [temporaryPVC ''lhc-temp-pvc-data'' ''default'' ''longhorn''
                                  ''lhc-temp-pv-data'' ''1073741824''
                                \<lparr>pvc_Namespace := ''default'', pvc_Phase := ''Pending''\<rparr>],
                    cl_delay := 940\<rparr>,
       tr @ [EGetPVC ''default'' ''lhc-temp-pvc-data'', EFailed NotFound,
             ECreatePVC ''default'' (temporaryPVC ''lhc-temp-pvc-data'' ''default'' ''longhorn''
                                      ''lhc-temp-pv-data'' ''1073741824''),
             EPrintf ''Waiting for PVC %s to be bound...\<newline>'' [AStr ''lhc-temp-pvc-data'']]
          @ concat (replicate 60 [EGetPVC ''default'' ''lhc-temp-pvc-data'', ESleep 1])))"
proof -
  let ?c4 = "slowCluster\<lparr>cl_pvs := pvs,
                     cl_pvcs := [temporaryPVC ''lhc-temp-pvc-data'' ''default'' ''longhorn''
                                   ''lhc-temp-pv-data'' ''1073741824''
                                 \<lparr>pvc_Namespace := ''default'', pvc_Phase := ''Pending''\<rparr>]\<rparr>"
  have after: "(api_sleep (sim decimalQuantity) 1 ^^ 60) ?c4 = ?c4\<lparr>cl_delay := 940\<rparr>"
    using sim_sleeps [of 60 ?c4 decimalQuantity] by simp
  show ?thesis
    using provisioner_claim_wait [where api = "sim decimalQuantity" and volumeName = "''data''"
        and namespace = "''default''" and storageClass = "''longhorn''"
        and volume = "\<lparr>Name = ''data'', Size = ''1073741824'', State = ''detached'', PVName = []\<rparr>"
        and ?w2.0 = "slowCluster\<lparr>cl_pvs := pvs\<rparr>" and ?w3.0 = "slowCluster\<lparr>cl_pvs := pvs\<rparr>"
        and ?w4.0 = ?c4 and e = NotFound and j = 60 and ?tr2.0 = tr]
      slow_steps(3) [of pvs] slow_steps(4) [of _ pvs] slow_valid slow_claim_pending [of pvs] after
    by simp
qed


lemma unreadable_steps:
  "getLonghornVolume (sim decimalQuantity) ''data'' (unreadableCluster, []) =
     (Ok \<lparr>Name = ''data'', Size = ''1073741824'', State = ''detached'', PVName = []\<rparr>,
      (unreadableCluster, [EListVolumes]))"
  "createTemporaryPV (sim decimalQuantity) ''data'' ''default'' ''longhorn'' (unreadableCluster, [EListVolumes]) =
     (Ok ''lhc-temp-pv-data'',
      (unreadableCluster\<lparr>cl_pvs := [temporaryPV ''lhc-temp-pv-data'' ''data'' ''longhorn'' ''1073741824''
                                  \<lparr>pv_Phase := ''Available''\<rparr>]\<rparr>,
       [EListVolumes, EGetPV ''lhc-temp-pv-data'', EFailed NotFound, EListVolumes,
        ECreatePV (temporaryPV ''lhc-temp-pv-data'' ''data'' ''longhorn'' ''1073741824'')]))"
  "api_getPVC (sim decimalQuantity) ''default'' ''lhc-temp-pvc-data''
     (unreadableCluster\<lparr>cl_pvs := pvs\<rparr>) = (Inl Unavailable, unreadableCluster\<lparr>cl_pvs := pvs\<rparr>)"
  "api_createPVC (sim decimalQuantity) ''default'' pvc (unreadableCluster\<lparr>cl_pvs := pvs\<rparr>) =
     (None, unreadableCluster\<lparr>cl_pvs := pvs,
                        cl_pvcs := [pvc\<lparr>pvc_Namespace := ''default'', pvc_Phase := ''Pending''\<rparr>]\<rparr>)"
  "api_getPVC (sim decimalQuantity) ''default'' ''lhc-temp-pvc-data''
     (unreadableCluster\<lparr>cl_pvs := pvs, cl_pvcs := pvcs\<rparr>) =
     (Inl Unavailable, unreadableCluster\<lparr>cl_pvs := pvs, cl_pvcs := pvcs\<rparr>)"
  by (simp_all add: getLonghornVolume_def getLonghornVolumes_def createTemporaryPV_def query_def call_def
        toVolume_def sim_def answer_def lookup_def isPV_def sim_createPV_def sim_createPVC_def
        decimalQuantity_def unreadableCluster_def unreadable_def detachedCluster_def)

lemma unwatched_steps:
  "getLonghornVolume (sim decimalQuantity) ''data'' (unwatchedCluster, []) =
     (Ok \<lparr>Name = ''data'', Size = ''1073741824'', State = ''detached'', PVName = []\<rparr>,
      (unwatchedCluster, [EListVolumes]))"
  "createTemporaryPV (sim decimalQuantity) ''data'' ''default'' ''longhorn'' (unwatchedCluster, [EListVolumes]) =
     (Ok ''lhc-temp-pv-data'',
      (unwatchedCluster\<lparr>cl_pvs := [temporaryPV ''lhc-temp-pv-data'' ''data'' ''longhorn'' ''1073741824''
                                  \<lparr>pv_Phase := ''Available''\<rparr>]\<rparr>,
       [EListVolumes, EGetPV ''lhc-temp-pv-data'', EFailed NotFound, EListVolumes,
        ECreatePV (temporaryPV ''lhc-temp-pv-data'' ''data'' ''longhorn'' ''1073741824'')]))"
  "api_getPod (sim decimalQuantity) ''default'' ''lhc-temp-pod-data''
     (unwatchedCluster\<lparr>cl_pvs := pvs, cl_pvcs := pvcs\<rparr>) =
     (Inl Unavailable, unwatchedCluster\<lparr>cl_pvs := pvs, cl_pvcs := pvcs\<rparr>)"
  "api_createPod (sim decimalQuantity) ''default'' pod (unwatchedCluster\<lparr>cl_pvs := pvs, cl_pvcs := pvcs\<rparr>) =
     (None, unwatchedCluster\<lparr>cl_pvs := pvs, cl_pvcs := pvcs,
                        cl_pods := [pod\<lparr>pod_Namespace := ''default'', pod_Phase := ''Pending''\<rparr>]\<rparr>)"
  "api_getPod (sim decimalQuantity) ''default'' ''lhc-temp-pod-data''
     (unwatchedCluster\<lparr>cl_pvs := pvs, cl_pvcs := pvcs, cl_pods := pods\<rparr>) =
     (Inl Unavailable, unwatchedCluster\<lparr>cl_pvs := pvs, cl_pvcs := pvcs, cl_pods := pods\<rparr>)"
  by (simp_all add: getLonghornVolume_def getLonghornVolumes_def createTemporaryPV_def query_def call_def
        toVolume_def sim_def answer_def lookup_def isPV_def sim_createPV_def sim_createPod_def
        decimalQuantity_def unwatchedCluster_def unreadablePods_def detachedCluster_def)

lemma waitPVCBound_found:
  assumes "0 < m" and "api_getPVC api namespace pvcName w = (Inr pvc, w')"
      and "pvc_Phase pvc = ClaimBound"
  shows "waitPVCBound api namespace pvcName m (w, tr) =
           (Ok (), (w', tr @ [EGetPVC namespace pvcName,
                              EPrintf ''PVC %s is now bound to PV %s\<newline>''
                                [AStr pvcName, AStr (pvc_VolumeName pvc)]]))"
  using assms by (cases m) (simp_all add: query_def emit_def)

lemma unwatched_claim_step:
  "ensureTemporaryPVC (sim decimalQuantity) ''default'' ''lhc-temp-pvc-data'' ''lhc-temp-pv-data''
     ''longhorn'' ''1073741824''
     (unwatchedCluster\<lparr>cl_pvs := [temporaryPV ''lhc-temp-pv-data'' ''data'' ''longhorn'' ''1073741824''
                                  \<lparr>pv_Phase := ''Available''\<rparr>]\<rparr>, tr) =
     (Ok (),
      (unwatchedCluster\<lparr>cl_pvs := [temporaryPV ''lhc-temp-pv-data'' ''data'' ''longhorn'' ''1073741824''
                                  \<lparr>pv_Phase := ''Available''\<rparr>],
                    cl_pvcs := [temporaryPVC ''lhc-temp-pvc-data'' ''default'' ''longhorn''
                                  ''lhc-temp-pv-data'' ''1073741824''
                                \<lparr>pvc_Namespace := ''default'', pvc_Phase := ClaimBound\<rparr>]\<rparr>,
       tr @ [EGetPVC ''default'' ''lhc-temp-pvc-data'', EFailed NotFound,
             ECreatePVC ''default'' (temporaryPVC ''lhc-temp-pvc-data'' ''default'' ''longhorn''
                                      ''lhc-temp-pv-data'' ''1073741824''),
             EPrintf ''Waiting for PVC %s to be bound...\<newline>'' [AStr ''lhc-temp-pvc-data''],
             EGetPVC ''default'' ''lhc-temp-pvc-data'', ESleep 1,
             EGetPVC ''default'' ''lhc-temp-pvc-data'',
             EPrintf ''PVC %s is now bound to PV %s\<newline>''
               [AStr ''lhc-temp-pvc-data'', AStr ''lhc-temp-pv-data'']]))"
proof -
  let ?pvs = "[temporaryPV ''lhc-temp-pv-data'' ''data'' ''longhorn'' ''1073741824''
                 \<lparr>pv_Phase := ''Available''\<rparr>]"
  let ?pvc = "temporaryPVC ''lhc-temp-pvc-data'' ''default'' ''longhorn'' ''lhc-temp-pv-data'' ''1073741824''"
  let ?c2 = "unwatchedCluster\<lparr>cl_pvs := ?pvs\<rparr>"
  let ?c4 = "unwatchedCluster\<lparr>cl_pvs := ?pvs,
               cl_pvcs := [?pvc\<lparr>pvc_Namespace := ''default'', pvc_Phase := ''Pending''\<rparr>]\<rparr>"
  let ?c5 = "unwatchedCluster\<lparr>cl_pvs := ?pvs,
               cl_pvcs := [?pvc\<lparr>pvc_Namespace := ''default'', pvc_Phase := ClaimBound\<rparr>]\<rparr>"
  have absent: "api_getPVC (sim decimalQuantity) ''default'' (''lhc-temp-pvc-'' @ ''data'') ?c2
      = (Inl NotFound, ?c2)"
    and made: "api_createPVC (sim decimalQuantity) ''default''
        (temporaryPVC (''lhc-temp-pvc-'' @ ''data'') ''default'' ''longhorn'' (''lhc-temp-pv-'' @ ''data'')
           (Size \<lparr>Name = ''data'', Size = ''1073741824'', State = ''detached'', PVName = []\<rparr>)) ?c2
      = (None, ?c4)"
    and valid: "api_validQuantity (sim decimalQuantity)
        (Size \<lparr>Name = ''data'', Size = ''1073741824'', State = ''detached'', PVName = []\<rparr>)"
    and first: "\<forall>k<1. \<exists>pvc. api_getPVC (sim decimalQuantity) ''default'' (''lhc-temp-pvc-'' @ ''data'')
                      ((api_sleep (sim decimalQuantity) 1 ^^ k) ?c4) =
                    (Inr pvc, (api_sleep (sim decimalQuantity) 1 ^^ k) ?c4) \<and> pvc_Phase pvc \<noteq> ClaimBound"
    and second: "api_getPVC (sim decimalQuantity) ''default'' (''lhc-temp-pvc-'' @ ''data'')
                   ((api_sleep (sim decimalQuantity) 1 ^^ 1) ?c4) =
                 (Inr (?pvc\<lparr>pvc_Namespace := ''default'', pvc_Phase := ClaimBound\<rparr>), ?c5)"
    by (simp_all add: sim_defs unwatchedCluster_def unreadablePods_def detachedCluster_def temporaryPVC_def)
  have bound: "pvc_Phase (?pvc\<lparr>pvc_Namespace := ''default'', pvc_Phase := ClaimBound\<rparr>) = ClaimBound"
    and left: "0 < (60::nat) - 1" and le: "(1::nat) \<le> 60"
    by simp_all
  show ?thesis
    using provisioner_claim_wait [OF absent valid made first le, of tr]
      waitPVCBound_found [OF left second bound]
    by (simp add: temporaryPVC_def)
qed


theorem provisioner_waits_are_bounded_witness:
  "createTemporaryPodForLonghorn (sim decimalQuantity) ''data'' ''default'' ''longhorn'' (slowCluster, []) =
     ensureTemporaryPod (sim decimalQuantity) ''default'' ''lhc-temp-pod-data'' ''lhc-temp-pvc-data''
       ''/mnt/volume'' ''temp-container''
       (slowCluster\<lparr>cl_pvs := [temporaryPV ''lhc-temp-pv-data'' ''data'' ''longhorn'' ''1073741824''\<lparr>pv_Phase := ''Available''\<rparr>],
          cl_pvcs := [temporaryPVC ''lhc-temp-pvc-data'' ''default'' ''longhorn'' ''lhc-temp-pv-data'' ''1073741824''\<lparr>pvc_Namespace := ''default'', pvc_Phase := ''Pending''\<rparr>], cl_delay := 940\<rparr>,
        [EListVolumes, EGetPV ''lhc-temp-pv-data'', EFailed NotFound, EListVolumes,
          ECreatePV (temporaryPV ''lhc-temp-pv-data'' ''data'' ''longhorn'' ''1073741824'')]
        @ [EGetPVC ''default'' ''lhc-temp-pvc-data'', EFailed NotFound,
          ECreatePVC ''default'' (temporaryPVC ''lhc-temp-pvc-data'' ''default'' ''longhorn'' ''lhc-temp-pv-data'' ''1073741824''),
          EPrintf ''Waiting for PVC %s to be bound...\<newline>'' [AStr ''lhc-temp-pvc-data'']]
        @ concat (replicate 60 [EGetPVC ''default'' ''lhc-temp-pvc-data'', ESleep 1]))
   \<and> createTemporaryPodForLonghorn (sim decimalQuantity) ''data'' ''default'' ''longhorn'' (slowCluster, []) =
     (Err (Errorf ''temporary pod %s did not become ready in time'' [AStr ''lhc-temp-pod-data'']),
      (slowCluster\<lparr>cl_pvs := [temporaryPV ''lhc-temp-pv-data'' ''data'' ''longhorn'' ''1073741824''\<lparr>pv_Phase := ''Available''\<rparr>],
          cl_pvcs := [temporaryPVC ''lhc-temp-pvc-data'' ''default'' ''longhorn'' ''lhc-temp-pv-data'' ''1073741824''\<lparr>pvc_Namespace := ''default'', pvc_Phase := ''Pending''\<rparr>],
          cl_pods := [temporaryPod ''lhc-temp-pod-data'' ''default'' ''temp-container'' ''/mnt/volume'' ''lhc-temp-pvc-data''\<lparr>pod_Namespace := ''default'', pod_Phase := ''Pending''\<rparr>], cl_delay := 820\<rparr>,
        [EListVolumes, EGetPV ''lhc-temp-pv-data'', EFailed NotFound, EListVolumes,
          ECreatePV (temporaryPV ''lhc-temp-pv-data'' ''data'' ''longhorn'' ''1073741824'')]
        @ [EGetPVC ''default'' ''lhc-temp-pvc-data'', EFailed NotFound,
          ECreatePVC ''default'' (temporaryPVC ''lhc-temp-pvc-data'' ''default'' ''longhorn'' ''lhc-temp-pv-data'' ''1073741824''),
          EPrintf ''Waiting for PVC %s to be bound...\<newline>'' [AStr ''lhc-temp-pvc-data'']]
        @ concat (replicate 60 [EGetPVC ''default'' ''lhc-temp-pvc-data'', ESleep 1])
        @ [EGetPod ''default'' ''lhc-temp-pod-data'', EFailed NotFound,
          ECreatePod ''default'' (temporaryPod ''lhc-temp-pod-data'' ''default'' ''temp-container'' ''/mnt/volume'' ''lhc-temp-pvc-data''),
          EPrintf ''Waiting for temporary pod %s to be ready...\<newline>'' [AStr ''lhc-temp-pod-data'']]
        @ concat (replicate 120 [EGetPod ''default'' ''lhc-temp-pod-data'', ESleep 1])))
   \<and> count_list (snd (snd (createTemporaryPodForLonghorn (sim decimalQuantity) ''data'' ''default'' ''longhorn'' (slowCluster, []))))
       (EGetPVC ''default'' ''lhc-temp-pvc-data'') = 61
   \<and> count_list (snd (snd (createTemporaryPodForLonghorn (sim decimalQuantity) ''data'' ''default'' ''longhorn'' (slowCluster, []))))
       (EGetPod ''default'' ''lhc-temp-pod-data'') = 121
   \<and> count_list (snd (snd (createTemporaryPodForLonghorn (sim decimalQuantity) ''data'' ''default'' ''longhorn'' (slowCluster, []))))
       (ESleep 1) = 180
   \<and> createTemporaryPodForLonghorn (sim decimalQuantity) ''data'' ''default'' ''longhorn'' (unreadableCluster, []) =
     (Err (Errorf ''failed to get PVC status: %v'' [AErr Unavailable]),
      (unreadableCluster\<lparr>cl_pvs := [temporaryPV ''lhc-temp-pv-data'' ''data'' ''longhorn'' ''1073741824''\<lparr>pv_Phase := ''Available''\<rparr>],
          cl_pvcs := [temporaryPVC ''lhc-temp-pvc-data'' ''default'' ''longhorn'' ''lhc-temp-pv-data'' ''1073741824''\<lparr>pvc_Namespace := ''default'', pvc_Phase := ''Pending''\<rparr>]\<rparr>,
        [EListVolumes, EGetPV ''lhc-temp-pv-data'', EFailed NotFound, EListVolumes,
          ECreatePV (temporaryPV ''lhc-temp-pv-data'' ''data'' ''longhorn'' ''1073741824'')]
        @ [EGetPVC ''default'' ''lhc-temp-pvc-data'', EFailed Unavailable,
          ECreatePVC ''default'' (temporaryPVC ''lhc-temp-pvc-data'' ''default'' ''longhorn'' ''lhc-temp-pv-data'' ''1073741824''),
          EPrintf ''Waiting for PVC %s to be bound...\<newline>'' [AStr ''lhc-temp-pvc-data'']]
        @ [EGetPVC ''default'' ''lhc-temp-pvc-data'', EFailed Unavailable]))
   \<and> createTemporaryPodForLonghorn (sim decimalQuantity) ''data'' ''default'' ''longhorn'' (unwatchedCluster, []) =
     (Err (Errorf ''failed to get pod status: %v'' [AErr Unavailable]),
      (unwatchedCluster\<lparr>cl_pvs := [temporaryPV ''lhc-temp-pv-data'' ''data'' ''longhorn'' ''1073741824''\<lparr>pv_Phase := ''Available''\<rparr>],
          cl_pvcs := [temporaryPVC ''lhc-temp-pvc-data'' ''default'' ''longhorn'' ''lhc-temp-pv-data'' ''1073741824''\<lparr>pvc_Namespace := ''default'', pvc_Phase := ClaimBound\<rparr>],
          cl_pods := [temporaryPod ''lhc-temp-pod-data'' ''default'' ''temp-container'' ''/mnt/volume'' ''lhc-temp-pvc-data''\<lparr>pod_Namespace := ''default'', pod_Phase := ''Pending''\<rparr>]\<rparr>,
        [EListVolumes, EGetPV ''lhc-temp-pv-data'', EFailed NotFound, EListVolumes,
          ECreatePV (temporaryPV ''lhc-temp-pv-data'' ''data'' ''longhorn'' ''1073741824'')]
        @ [EGetPVC ''default'' ''lhc-temp-pvc-data'', EFailed NotFound,
          ECreatePVC ''default'' (temporaryPVC ''lhc-temp-pvc-data'' ''default'' ''longhorn'' ''lhc-temp-pv-data'' ''1073741824''),
          EPrintf ''Waiting for PVC %s to be bound...\<newline>'' [AStr ''lhc-temp-pvc-data'']]
        @ [EGetPVC ''default'' ''lhc-temp-pvc-data'', ESleep 1, EGetPVC ''default'' ''lhc-temp-pvc-data'',
           EPrintf ''PVC %s is now bound to PV %s\<newline>'' [AStr ''lhc-temp-pvc-data'', AStr ''lhc-temp-pv-data'']]
        @ [EGetPod ''default'' ''lhc-temp-pod-data'', EFailed Unavailable,
          ECreatePod ''default'' (temporaryPod ''lhc-temp-pod-data'' ''default'' ''temp-container'' ''/mnt/volume'' ''lhc-temp-pvc-data''),
          EPrintf ''Waiting for temporary pod %s to be ready...\<newline>'' [AStr ''lhc-temp-pod-data'']]
        @ [EGetPod ''default'' ''lhc-temp-pod-data'', EFailed Unavailable]))"
proof -
  let ?pvs = "[temporaryPV ''lhc-temp-pv-data'' ''data'' ''longhorn'' ''1073741824''\<lparr>pv_Phase := ''Available''\<rparr>]"
  let ?pvcs = "[temporaryPVC ''lhc-temp-pvc-data'' ''default'' ''longhorn'' ''lhc-temp-pv-data'' ''1073741824''\<lparr>pvc_Namespace := ''default'', pvc_Phase := ''Pending''\<rparr>]"
  let ?bound = "[temporaryPVC ''lhc-temp-pvc-data'' ''default'' ''longhorn'' ''lhc-temp-pv-data'' ''1073741824''\<lparr>pvc_Namespace := ''default'', pvc_Phase := ClaimBound\<rparr>]"
  let ?pods = "[temporaryPod ''lhc-temp-pod-data'' ''default'' ''temp-container'' ''/mnt/volume'' ''lhc-temp-pvc-data''\<lparr>pod_Namespace := ''default'', pod_Phase := ''Pending''\<rparr>]"
  let ?tr2 = "[EListVolumes, EGetPV ''lhc-temp-pv-data'', EFailed NotFound, EListVolumes,
          ECreatePV (temporaryPV ''lhc-temp-pv-data'' ''data'' ''longhorn'' ''1073741824'')]"
  let ?volume = "\<lparr>Name = ''data'', Size = ''1073741824'', State = ''detached'', PVName = []\<rparr>"
  note waits = provisioner_waits_are_bounded
      [where api = "sim decimalQuantity" and volumeName = "''data''" and namespace = "''default''"
         and storageClass = "''longhorn''"]
  note claim = waits [THEN conjunct2, THEN conjunct2, THEN conjunct2, THEN conjunct2, THEN conjunct1,
      rule_format]
  note pod = waits [THEN conjunct2, THEN conjunct2, THEN conjunct2, THEN conjunct2, THEN conjunct2,
      rule_format]
  have slept: "(api_sleep (sim decimalQuantity) 1 ^^ 60) (slowCluster\<lparr>cl_pvs := ?pvs, cl_pvcs := ?pvcs\<rparr>)
      = slowCluster\<lparr>cl_pvs := ?pvs, cl_pvcs := ?pvcs, cl_delay := 940\<rparr>"
    using sim_sleeps [of 60 "slowCluster\<lparr>cl_pvs := ?pvs, cl_pvcs := ?pvcs\<rparr>" decimalQuantity] by simp
  have slept': "(api_sleep (sim decimalQuantity) 1 ^^ 120)
        (slowCluster\<lparr>cl_pvs := ?pvs, cl_pvcs := ?pvcs, cl_delay := 940, cl_pods := ?pods\<rparr>)
      = slowCluster\<lparr>cl_pvs := ?pvs, cl_pvcs := ?pvcs, cl_pods := ?pods, cl_delay := 820\<rparr>"
    using sim_sleeps [of 120 "slowCluster\<lparr>cl_pvs := ?pvs, cl_pvcs := ?pvcs, cl_delay := 940, cl_pods := ?pods\<rparr>"
        decimalQuantity] by simp
  have w1: "createTemporaryPodForLonghorn (sim decimalQuantity) ''data'' ''default'' ''longhorn'' (slowCluster, []) =
     ensureTemporaryPod (sim decimalQuantity) ''default'' ''lhc-temp-pod-data'' ''lhc-temp-pvc-data''
       ''/mnt/volume'' ''temp-container''
       (slowCluster\<lparr>cl_pvs := [temporaryPV ''lhc-temp-pv-data'' ''data'' ''longhorn'' ''1073741824''\<lparr>pv_Phase := ''Available''\<rparr>],
          cl_pvcs := [temporaryPVC ''lhc-temp-pvc-data'' ''default'' ''longhorn'' ''lhc-temp-pv-data'' ''1073741824''\<lparr>pvc_Namespace := ''default'', pvc_Phase := ''Pending''\<rparr>], cl_delay := 940\<rparr>,
        [EListVolumes, EGetPV ''lhc-temp-pv-data'', EFailed NotFound, EListVolumes,
          ECreatePV (temporaryPV ''lhc-temp-pv-data'' ''data'' ''longhorn'' ''1073741824'')]
        @ [EGetPVC ''default'' ''lhc-temp-pvc-data'', EFailed NotFound,
          ECreatePVC ''default'' (temporaryPVC ''lhc-temp-pvc-data'' ''default'' ''longhorn'' ''lhc-temp-pv-data'' ''1073741824''),
          EPrintf ''Waiting for PVC %s to be bound...\<newline>'' [AStr ''lhc-temp-pvc-data'']]
        @ concat (replicate 60 [EGetPVC ''default'' ''lhc-temp-pvc-data'', ESleep 1]))"
    using claim [where w = slowCluster and volume = ?volume and ?s1.0 = "(slowCluster, [EListVolumes])"
        and name = "''lhc-temp-pv-data''" and ?w2.0 = "slowCluster\<lparr>cl_pvs := ?pvs\<rparr>" and ?tr2.0 = ?tr2
        and e = NotFound and ?w3.0 = "slowCluster\<lparr>cl_pvs := ?pvs\<rparr>"
        and ?w4.0 = "slowCluster\<lparr>cl_pvs := ?pvs, cl_pvcs := ?pvcs\<rparr>", THEN conjunct1, rule_format]
      slow_steps(1) slow_steps(2) slow_steps(3) [where pvs = ?pvs] slow_steps(4) [where pvs = ?pvs] slow_valid
      slow_claim_pending [where pvs = ?pvs] slept
    by simp
  have w2: "createTemporaryPodForLonghorn (sim decimalQuantity) ''data'' ''default'' ''longhorn'' (slowCluster, []) =
     (Err (Errorf ''temporary pod %s did not become ready in time'' [AStr ''lhc-temp-pod-data'']),
      (slowCluster\<lparr>cl_pvs := [temporaryPV ''lhc-temp-pv-data'' ''data'' ''longhorn'' ''1073741824''\<lparr>pv_Phase := ''Available''\<rparr>],
          cl_pvcs := [temporaryPVC ''lhc-temp-pvc-data'' ''default'' ''longhorn'' ''lhc-temp-pv-data'' ''1073741824''\<lparr>pvc_Namespace := ''default'', pvc_Phase := ''Pending''\<rparr>],
          cl_pods := [temporaryPod ''lhc-temp-pod-data'' ''default'' ''temp-container'' ''/mnt/volume'' ''lhc-temp-pvc-data''\<lparr>pod_Namespace := ''default'', pod_Phase := ''Pending''\<rparr>], cl_delay := 820\<rparr>,
        [EListVolumes, EGetPV ''lhc-temp-pv-data'', EFailed NotFound, EListVolumes,
          ECreatePV (temporaryPV ''lhc-temp-pv-data'' ''data'' ''longhorn'' ''1073741824'')]
        @ [EGetPVC ''default'' ''lhc-temp-pvc-data'', EFailed NotFound,
          ECreatePVC ''default'' (temporaryPVC ''lhc-temp-pvc-data'' ''default'' ''longhorn'' ''lhc-temp-pv-data'' ''1073741824''),
          EPrintf ''Waiting for PVC %s to be bound...\<newline>'' [AStr ''lhc-temp-pvc-data'']]
        @ concat (replicate 60 [EGetPVC ''default'' ''lhc-temp-pvc-data'', ESleep 1])
        @ [EGetPod ''default'' ''lhc-temp-pod-data'', EFailed NotFound,
          ECreatePod ''default'' (temporaryPod ''lhc-temp-pod-data'' ''default'' ''temp-container'' ''/mnt/volume'' ''lhc-temp-pvc-data''),
          EPrintf ''Waiting for temporary pod %s to be ready...\<newline>'' [AStr ''lhc-temp-pod-data'']]
        @ concat (replicate 120 [EGetPod ''default'' ''lhc-temp-pod-data'', ESleep 1])))"
    using pod [where w = slowCluster and volume = ?volume and ?s1.0 = "(slowCluster, [EListVolumes])"
        and name = "''lhc-temp-pv-data''" and ?s2.0 = "(slowCluster\<lparr>cl_pvs := ?pvs\<rparr>, ?tr2)"
        and ?w5.0 = "slowCluster\<lparr>cl_pvs := ?pvs, cl_pvcs := ?pvcs, cl_delay := 940\<rparr>"
        and ?tr5.0 = "?tr2 @ [EGetPVC ''default'' ''lhc-temp-pvc-data'', EFailed NotFound,
          ECreatePVC ''default'' (temporaryPVC ''lhc-temp-pvc-data'' ''default'' ''longhorn'' ''lhc-temp-pv-data'' ''1073741824''),
          EPrintf ''Waiting for PVC %s to be bound...\<newline>'' [AStr ''lhc-temp-pvc-data'']] @ concat (replicate 60 [EGetPVC ''default'' ''lhc-temp-pvc-data'', ESleep 1])"
        and found = "Inl NotFound"
        and ?w6.0 = "slowCluster\<lparr>cl_pvs := ?pvs, cl_pvcs := ?pvcs, cl_delay := 940\<rparr>"
        and ?w7.0 = "slowCluster\<lparr>cl_pvs := ?pvs, cl_pvcs := ?pvcs, cl_delay := 940, cl_pods := ?pods\<rparr>",
        THEN conjunct1, rule_format]
      slow_steps(1) slow_steps(2) slow_claim_wait [where pvs = ?pvs and tr = ?tr2] slow_steps(5) [where pvs = ?pvs and pvcs = ?pvcs and d = 940]
      slow_steps(6) [where pvs = ?pvs and pvcs = ?pvcs and d = 940] slow_pod_pending [where pvs = ?pvs and pvcs = ?pvcs] slept'
    by (simp add: podIsRunning_def)
  have w3: "createTemporaryPodForLonghorn (sim decimalQuantity) ''data'' ''default'' ''longhorn'' (unreadableCluster, []) =
     (Err (Errorf ''failed to get PVC status: %v'' [AErr Unavailable]),
      (unreadableCluster\<lparr>cl_pvs := [temporaryPV ''lhc-temp-pv-data'' ''data'' ''longhorn'' ''1073741824''\<lparr>pv_Phase := ''Available''\<rparr>],
          cl_pvcs := [temporaryPVC ''lhc-temp-pvc-data'' ''default'' ''longhorn'' ''lhc-temp-pv-data'' ''1073741824''\<lparr>pvc_Namespace := ''default'', pvc_Phase := ''Pending''\<rparr>]\<rparr>,
        [EListVolumes, EGetPV ''lhc-temp-pv-data'', EFailed NotFound, EListVolumes,
          ECreatePV (temporaryPV ''lhc-temp-pv-data'' ''data'' ''longhorn'' ''1073741824'')]
        @ [EGetPVC ''default'' ''lhc-temp-pvc-data'', EFailed Unavailable,
          ECreatePVC ''default'' (temporaryPVC ''lhc-temp-pvc-data'' ''default'' ''longhorn'' ''lhc-temp-pv-data'' ''1073741824''),
          EPrintf ''Waiting for PVC %s to be bound...\<newline>'' [AStr ''lhc-temp-pvc-data'']]
        @ [EGetPVC ''default'' ''lhc-temp-pvc-data'', EFailed Unavailable]))"
    using claim [where w = unreadableCluster and volume = ?volume
        and ?s1.0 = "(unreadableCluster, [EListVolumes])"
        and name = "''lhc-temp-pv-data''" and ?w2.0 = "unreadableCluster\<lparr>cl_pvs := ?pvs\<rparr>" and ?tr2.0 = ?tr2
        and e = Unavailable and ?w3.0 = "unreadableCluster\<lparr>cl_pvs := ?pvs\<rparr>"
        and ?w4.0 = "unreadableCluster\<lparr>cl_pvs := ?pvs, cl_pvcs := ?pvcs\<rparr>", THEN conjunct2, rule_format,
        where j = 0 and e' = Unavailable and w' = "unreadableCluster\<lparr>cl_pvs := ?pvs, cl_pvcs := ?pvcs\<rparr>"]
      unreadable_steps(1) unreadable_steps(2) unreadable_steps(3) [where pvs = ?pvs] unreadable_steps(4) [where pvs = ?pvs]
      unreadable_steps(5) [where pvs = ?pvs and pvcs = ?pvcs] slow_valid
    by simp
  have w4: "createTemporaryPodForLonghorn (sim decimalQuantity) ''data'' ''default'' ''longhorn'' (unwatchedCluster, []) =
     (Err (Errorf ''failed to get pod status: %v'' [AErr Unavailable]),
      (unwatchedCluster\<lparr>cl_pvs := [temporaryPV ''lhc-temp-pv-data'' ''data'' ''longhorn'' ''1073741824''\<lparr>pv_Phase := ''Available''\<rparr>],
          cl_pvcs := [temporaryPVC ''lhc-temp-pvc-data'' ''default'' ''longhorn'' ''lhc-temp-pv-data'' ''1073741824''\<lparr>pvc_Namespace := ''default'', pvc_Phase := ClaimBound\<rparr>],
          cl_pods := [temporaryPod ''lhc-temp-pod-data'' ''default'' ''temp-container'' ''/mnt/volume'' ''lhc-temp-pvc-data''\<lparr>pod_Namespace := ''default'', pod_Phase := ''Pending''\<rparr>]\<rparr>,
        [EListVolumes, EGetPV ''lhc-temp-pv-data'', EFailed NotFound, EListVolumes,
          ECreatePV (temporaryPV ''lhc-temp-pv-data'' ''data'' ''longhorn'' ''1073741824'')]
        @ [EGetPVC ''default'' ''lhc-temp-pvc-data'', EFailed NotFound,
          ECreatePVC ''default'' (temporaryPVC ''lhc-temp-pvc-data'' ''default'' ''longhorn'' ''lhc-temp-pv-data'' ''1073741824''),
          EPrintf ''Waiting for PVC %s to be bound...\<newline>'' [AStr ''lhc-temp-pvc-data'']]
        @ [EGetPVC ''default'' ''lhc-temp-pvc-data'', ESleep 1, EGetPVC ''default'' ''lhc-temp-pvc-data'',
           EPrintf ''PVC %s is now bound to PV %s\<newline>'' [AStr ''lhc-temp-pvc-data'', AStr ''lhc-temp-pv-data'']]
        @ [EGetPod ''default'' ''lhc-temp-pod-data'', EFailed Unavailable,
          ECreatePod ''default'' (temporaryPod ''lhc-temp-pod-data'' ''default'' ''temp-container'' ''/mnt/volume'' ''lhc-temp-pvc-data''),
          EPrintf ''Waiting for temporary pod %s to be ready...\<newline>'' [AStr ''lhc-temp-pod-data'']]
        @ [EGetPod ''default'' ''lhc-temp-pod-data'', EFailed Unavailable]))"
    using pod [where w = unwatchedCluster and volume = ?volume
        and ?s1.0 = "(unwatchedCluster, [EListVolumes])"
        and name = "''lhc-temp-pv-data''" and ?s2.0 = "(unwatchedCluster\<lparr>cl_pvs := ?pvs\<rparr>, ?tr2)"
        and ?w5.0 = "unwatchedCluster\<lparr>cl_pvs := ?pvs, cl_pvcs := ?bound\<rparr>"
        and ?tr5.0 = "[EListVolumes, EGetPV ''lhc-temp-pv-data'', EFailed NotFound, EListVolumes,
          ECreatePV (temporaryPV ''lhc-temp-pv-data'' ''data'' ''longhorn'' ''1073741824'')]
        @ [EGetPVC ''default'' ''lhc-temp-pvc-data'', EFailed NotFound,
          ECreatePVC ''default'' (temporaryPVC ''lhc-temp-pvc-data'' ''default'' ''longhorn'' ''lhc-temp-pv-data'' ''1073741824''),
          EPrintf ''Waiting for PVC %s to be bound...\<newline>'' [AStr ''lhc-temp-pvc-data'']]
        @ [EGetPVC ''default'' ''lhc-temp-pvc-data'', ESleep 1, EGetPVC ''default'' ''lhc-temp-pvc-data'',
           EPrintf ''PVC %s is now bound to PV %s\<newline>'' [AStr ''lhc-temp-pvc-data'', AStr ''lhc-temp-pv-data'']]"
        and found = "Inl Unavailable"
        and ?w6.0 = "unwatchedCluster\<lparr>cl_pvs := ?pvs, cl_pvcs := ?bound\<rparr>"
        and ?w7.0 = "unwatchedCluster\<lparr>cl_pvs := ?pvs, cl_pvcs := ?bound, cl_pods := ?pods\<rparr>",
        THEN conjunct2, rule_format,
        where j = 0 and e' = Unavailable
          and w' = "unwatchedCluster\<lparr>cl_pvs := ?pvs, cl_pvcs := ?bound, cl_pods := ?pods\<rparr>"]
      unwatched_steps(1) unwatched_steps(2) unwatched_claim_step [where tr = ?tr2] unwatched_steps(3) [where pvs = ?pvs and pvcs = ?bound]
      unwatched_steps(4) [where pvs = ?pvs and pvcs = ?bound] unwatched_steps(5) [where pvs = ?pvs and pvcs = ?bound and pods = ?pods]
    by (simp add: podIsRunning_def)
  have counts: "count_list (snd (snd (createTemporaryPodForLonghorn (sim decimalQuantity) ''data'' ''default'' ''longhorn'' (slowCluster, []))))
       (EGetPVC ''default'' ''lhc-temp-pvc-data'') = 61" "count_list (snd (snd (createTemporaryPodForLonghorn (sim decimalQuantity) ''data'' ''default'' ''longhorn'' (slowCluster, []))))
       (EGetPod ''default'' ''lhc-temp-pod-data'') = 121" "count_list (snd (snd (createTemporaryPodForLonghorn (sim decimalQuantity) ''data'' ''default'' ''longhorn'' (slowCluster, []))))
       (ESleep 1) = 180"
    unfolding w2 by (simp_all add: count_list_concat_replicate)
  from w1 w2 counts w3 w4 show ?thesis
    by (intro conjI)
qed

section \<open>Get-or-create: what a failed lookup leads to\<close>

text \<open>
  C2. The claim: only a \<^verbatim>\<open>NotFound\<close> answer of the lookup leads to the creation, any other
  error of the lookup is returned. Each step tests \<^verbatim>\<open>err == nil\<close> or \<^verbatim>\<open>err != nil\<close>
  and nothing else, under the comments \<^verbatim>\<open>// Check if PV already exists\<close>,
  \<^verbatim>\<open>// Check if temporary PVC already exists\<close> and
  \<^verbatim>\<open>// Check if temporary pod already exists and is running\<close>. Here the cluster holds the temporary PV,
  claim and pod of the volume \<^verbatim>\<open>data\<close> and its reads fail with \<^verbatim>\<open>Unavailable\<close>: each step
  takes the failed read for absence, calls the creation of an object that exists, which the
  cluster refuses with \<^verbatim>\<open>AlreadyExists\<close>, and returns the creation's error. The read's
  error is logged and not returned.
\<close>

theorem outage_read_is_taken_for_absence:
  "createTemporaryPV (sim decimalQuantity) ''data'' ''default'' ''longhorn'' (outageCluster, []) =
     (Err (Errorf ''failed to create temporary PV: %v'' [AErr AlreadyExists]),
      (outageCluster,
       [EGetPV ''lhc-temp-pv-data'', EFailed Unavailable, EListVolumes,
        ECreatePV (temporaryPV ''lhc-temp-pv-data'' ''data'' ''longhorn'' ''1073741824''),
        EFailed AlreadyExists]))
   \<and> ensureTemporaryPVC (sim decimalQuantity) ''default'' ''lhc-temp-pvc-data'' ''lhc-temp-pv-data''
        ''longhorn'' ''1073741824'' (outageCluster, []) =
     (Err (Errorf ''failed to create temporary PVC: %v'' [AErr AlreadyExists]),
      (outageCluster,
       [EGetPVC ''default'' ''lhc-temp-pvc-data'', EFailed Unavailable,
        ECreatePVC ''default'' (temporaryPVC ''lhc-temp-pvc-data'' ''default'' ''longhorn''
                                 ''lhc-temp-pv-data'' ''1073741824''),
        EFailed AlreadyExists]))
   \<and> ensureTemporaryPod (sim decimalQuantity) ''default'' ''lhc-temp-pod-data'' ''lhc-temp-pvc-data''
        ''/mnt/volume'' ''temp-container'' (outageCluster, []) =
     (Err (Errorf ''failed to create temporary pod: %v'' [AErr AlreadyExists]),
      (outageCluster,
       [EGetPod ''default'' ''lhc-temp-pod-data'', EFailed Unavailable,
        ECreatePod ''default'' (temporaryPod ''lhc-temp-pod-data'' ''default'' ''temp-container''
                                 ''/mnt/volume'' ''lhc-temp-pvc-data''),
        EFailed AlreadyExists]))"
  by (simp add: createTemporaryPV_def ensureTemporaryPVC_def ensureTemporaryPod_def podIsRunning_def
        getLonghornVolume_def getLonghornVolumes_def toVolume_def query_def call_def emit_def
        sim_def answer_def outageCluster_def outage_def leftoverCluster_def decimalQuantity_def
        sim_createPV_def sim_createPVC_def sim_createPod_def isPV_def isPVC_def isPod_def
        temporaryPV_def temporaryPVC_def temporaryPod_def)

section \<open>Resolving a volume that is not in use\<close>

lemma logs_isVolumeInUse:
  "logs A s s1 \<Longrightarrow> A (EListPVCs namespace []) \<Longrightarrow> A (EListPods namespace []) \<Longrightarrow>
   (\<And>e. A (EFailed e)) \<Longrightarrow> logs A s (snd (isVolumeInUse api pvName namespace s1))"
  by (simp add: isVolumeInUse_def case_prod_beta split: sum.splits)
     (intro conjI impI allI logs_steps; assumption)

lemma provisionEvent_direct: "provisionEvent volumeName namespace ev \<Longrightarrow> \<not> fallbackEvent ev"
  by (cases ev) (auto simp: provisionEvent_def fallbackEvent_def)

lemma getVolumeInfo_direct:
  assumes "\<forall>volume. fst (getLonghornVolume api volumeName s) = Ok volume \<longrightarrow> PVName volume \<noteq> []
             \<longrightarrow> fst (isVolumeInUse api (PVName volume) namespace (snd (getLonghornVolume api volumeName s)))
                   \<noteq> Ok True"
  shows "logs (\<lambda>ev. \<not> fallbackEvent ev) s (snd (getVolumeInfo api volumeName namespace storageClass s))"
proof -
  let ?A = "\<lambda>ev. \<not> fallbackEvent ev"
  have quiet [simp]: "\<not> fallbackEvent EListVolumes" "\<And>e. \<not> fallbackEvent (EFailed e)"
    "\<And>ns sel. \<not> fallbackEvent (EListPVCs ns sel)" "\<And>ns sel. \<not> fallbackEvent (EListPods ns sel)"
    "\<And>name. \<not> fallbackEvent (EGetPV name)"
    "\<And>name v sc z. \<not> fallbackEvent (ECreatePV (temporaryPV name v sc z))"
    by (simp_all add: fallbackEvent_def temporaryPV_def)
  obtain r s1 where g: "getLonghornVolume api volumeName s = (r, s1)"
    by (metis surj_pair)
  have l1: "logs ?A s s1"
    using logs_getLonghornVolume [of ?A s s api volumeName] by (simp add: g)
  have pod: "logs ?A s (snd (createTemporaryPodForLonghorn api volumeName namespace storageClass s2))"
    if "logs ?A s s2" for s2
    using that by (rule logs_createTemporaryPodForLonghorn) (rule provisionEvent_direct)
  show ?thesis
  proof (cases r)
    case (Err e)
    with g l1 show ?thesis by (simp add: getVolumeInfo_def)
  next
    case (Panic p)
    with g l1 show ?thesis by (simp add: getVolumeInfo_def)
  next
    case (Ok volume)
    show ?thesis
    proof (cases "PVName volume = []")
      case True
      obtain q s3 where c: "createTemporaryPV api volumeName namespace storageClass s1 = (q, s3)"
        by (metis surj_pair)
      have l3: "logs ?A s s3"
        using logs_createTemporaryPV [of ?A s s1 volumeName storageClass api namespace] l1
        by (simp add: c)
      show ?thesis
        using g Ok True c l3 pod [OF l3]
        by (cases q) (simp_all add: getVolumeInfo_def)
    next
      case False
      obtain b s2 where u: "isVolumeInUse api (PVName volume) namespace s1 = (b, s2)"
        by (metis surj_pair)
      have l2: "logs ?A s s2"
        using logs_isVolumeInUse [of ?A s s1 namespace api "PVName volume"] l1
        by (simp add: u)
      have free: "b \<noteq> Ok True"
        using assms g Ok False u by simp
      show ?thesis
        using g Ok False u l2 free pod [OF l2]
        by (cases b) (simp_all add: getVolumeInfo_def)
    qed
  qed
qed


text \<open>
  C4. Resolving access to a volume that is not in use never takes the fallback path. For
  every client: when the volume is found and either has no bound PV or the in-use check
  answers \<^verbatim>\<open>false\<close>, the log of \<^verbatim>\<open>getVolumeInfo\<close> holds no event of
  \<^verbatim>\<open>createSnapshotBasedAccess\<close>: neither its first printed line nor the creation of an RWX
  PV. And whenever the log holds such an event, the volume was found, has a bound PV, and
  the in-use check answered \<^verbatim>\<open>true\<close>.
\<close>

theorem fallback_only_when_in_use:
  "(\<forall>volume s1.
      getLonghornVolume api volumeName (w, []) = (Ok volume, s1)
      \<longrightarrow> (PVName volume = [] \<or> fst (isVolumeInUse api (PVName volume) namespace s1) = Ok False)
      \<longrightarrow> \<not> list_ex fallbackEvent (snd (snd (getVolumeInfo api volumeName namespace storageClass (w, [])))))
   \<and> (list_ex fallbackEvent (snd (snd (getVolumeInfo api volumeName namespace storageClass (w, []))))
      \<longrightarrow> (case getLonghornVolume api volumeName (w, []) of
             (Ok volume, s1) \<Rightarrow>
               PVName volume \<noteq> [] \<and> fst (isVolumeInUse api (PVName volume) namespace s1) = Ok True
           | _ \<Rightarrow> False))"
proof -
  let ?T = "snd (snd (getVolumeInfo api volumeName namespace storageClass (w, [])))"
  have direct: "\<not> list_ex fallbackEvent ?T"
    if "\<forall>volume. fst (getLonghornVolume api volumeName (w, [])) = Ok volume \<longrightarrow> PVName volume \<noteq> []
          \<longrightarrow> fst (isVolumeInUse api (PVName volume) namespace
                     (snd (getLonghornVolume api volumeName (w, [])))) \<noteq> Ok True"
    using logs_all [OF getVolumeInfo_direct [OF that], of storageClass]
    by (simp add: list_all_iff list_ex_iff)
  have first: "\<not> list_ex fallbackEvent ?T"
    if "getLonghornVolume api volumeName (w, []) = (Ok volume, s1)"
      and "PVName volume = [] \<or> fst (isVolumeInUse api (PVName volume) namespace s1) = Ok False"
    for volume s1
    using that by (intro direct) auto
  have second: "case getLonghornVolume api volumeName (w, []) of
             (Ok volume, s1) \<Rightarrow>
               PVName volume \<noteq> [] \<and> fst (isVolumeInUse api (PVName volume) namespace s1) = Ok True
           | _ \<Rightarrow> False"
    if "list_ex fallbackEvent ?T"
  proof (rule ccontr)
    assume "\<not> ?thesis"
    then have "\<not> list_ex fallbackEvent ?T"
      by (intro direct) (auto simp: case_prod_beta split: result.splits)
    with that show False by simp
  qed
  from first second show ?thesis by blast
qed

lemma detached_lookup:
  "getLonghornVolume (sim decimalQuantity) ''data'' (detachedCluster, []) =
     (Ok \<lparr>Name = ''data'', Size = ''1073741824'', State = ''detached'', PVName = []\<rparr>,
      (detachedCluster, [EListVolumes]))"
  by (simp add: getLonghornVolume_def getLonghornVolumes_def query_def toVolume_def sim_def answer_def
        detachedCluster_def noFaults_def)

lemma idle_lookup:
  "getLonghornVolume (sim decimalQuantity) ''data'' (idleCluster, []) =
     (Ok \<lparr>Name = ''data'', Size = ''1073741824'', State = ''attached'', PVName = ''pv-data''\<rparr>,
      (idleCluster, [EListVolumes]))"
  "fst (isVolumeInUse (sim decimalQuantity) ''pv-data'' ''default'' (idleCluster, [EListVolumes])) = Ok False"
  by (simp_all add: getLonghornVolume_def getLonghornVolumes_def isVolumeInUse_def targetPVCOf_def
        mountsClaim_def query_def toVolume_def sim_def answer_def selected_def
        idleCluster_def attachedCluster_def noFaults_def fixture_defs ClaimBound_def)

lemma sidecar_lookup:
  "getLonghornVolume (sim decimalQuantity) ''data'' (sidecarCluster, []) =
     (Ok \<lparr>Name = ''data'', Size = ''1073741824'', State = ''attached'', PVName = ''pv-data''\<rparr>,
      (sidecarCluster, [EListVolumes]))"
  by (simp add: getLonghornVolume_def getLonghornVolumes_def query_def toVolume_def sim_def answer_def
        sidecarCluster_def attachedCluster_def noFaults_def fixture_defs)

lemma sidecar_run:
  "list_ex fallbackEvent
     (snd (snd (getVolumeInfo (sim decimalQuantity) ''data'' ''default'' ''longhorn'' (sidecarCluster, []))))"
  by code_simp

theorem fallback_only_when_in_use_witness:
  "\<not> list_ex fallbackEvent
       (snd (snd (getVolumeInfo (sim decimalQuantity) ''data'' ''default'' ''longhorn'' (detachedCluster, []))))
   \<and> \<not> list_ex fallbackEvent
       (snd (snd (getVolumeInfo (sim decimalQuantity) ''data'' ''default'' ''longhorn'' (idleCluster, []))))
   \<and> list_ex fallbackEvent
       (snd (snd (getVolumeInfo (sim decimalQuantity) ''data'' ''default'' ''longhorn'' (sidecarCluster, []))))
   \<and> fst (isVolumeInUse (sim decimalQuantity) ''pv-data'' ''default'' (sidecarCluster, [EListVolumes])) = Ok True"
proof -
  note resolve = fallback_only_when_in_use
      [where api = "sim decimalQuantity" and volumeName = "''data''" and namespace = "''default''"
         and storageClass = "''longhorn''"]
  show ?thesis
    using resolve [where w = detachedCluster, THEN conjunct1, rule_format, OF detached_lookup]
      resolve [where w = idleCluster, THEN conjunct1, rule_format, OF idle_lookup(1)]
      resolve [where w = sidecarCluster, THEN conjunct2, rule_format, OF sidecar_run]
      idle_lookup(2) sidecar_run
    by (simp add: sidecar_lookup)
qed

section \<open>The access to a volume that is not in use\<close>

lemma waitPodRunning_handle:
  "fst (waitPodRunning api namespace podName mountPath containerName k s) = Ok access \<Longrightarrow>
   access = (podName, mountPath, containerName)"
  by (induction k arbitrary: s) (auto simp: case_prod_beta split: sum.splits if_splits)

lemma ensureTemporaryPod_handle:
  "fst (ensureTemporaryPod api namespace podName pvcName mountPath containerName s) = Ok access \<Longrightarrow>
   access = (podName, mountPath, containerName)"
  by (auto simp: ensureTemporaryPod_def case_prod_beta dest: waitPodRunning_handle
           split: if_splits option.splits)

lemma createTemporaryPodForLonghorn_handle:
  "fst (createTemporaryPodForLonghorn api volumeName namespace storageClass s) = Ok access \<Longrightarrow>
   access = (''lhc-temp-pod-'' @ volumeName, ''/mnt/volume'', ''temp-container'')"
  by (auto simp: createTemporaryPodForLonghorn_def case_prod_beta dest: ensureTemporaryPod_handle
           split: result.splits)

lemma logs_any [simp]: "logs (\<lambda>ev. True) s (snd (createTemporaryPodForLonghorn api volumeName namespace storageClass s))"
  by (rule logs_createTemporaryPodForLonghorn) simp_all

lemma query_logged: "ev \<in> set (snd (snd (query ev f s)))"
  by (cases s) (simp add: query_def case_prod_beta)

lemma call_logged: "ev \<in> set (snd (snd (call ev f s)))"
  by (cases s) (simp add: call_def case_prod_beta)

lemma createTemporaryPV_looks:
  "EGetPV (''lhc-temp-pv-'' @ volumeName)
     \<in> set (snd (snd (createTemporaryPV api volumeName namespace storageClass s)))"
proof -
  let ?s1 = "snd (query (EGetPV (''lhc-temp-pv-'' @ volumeName)) (api_getPV api (''lhc-temp-pv-'' @ volumeName)) s)"
  have "logs (\<lambda>ev. True) ?s1 (snd (createTemporaryPV api volumeName namespace storageClass s))"
    by (simp add: createTemporaryPV_def case_prod_beta split: sum.splits result.splits option.splits)
       (intro conjI impI allI logs_refl logs_steps logs_getLonghornVolume; simp)
  from logs_member [OF this query_logged] show ?thesis .
qed

lemma createTemporaryPV_attempts:
  assumes "api_getPV api (''lhc-temp-pv-'' @ volumeName) w = (Inl e, w1)"
      and "api_listVolumes api w1 = (Inr items, w2)"
      and "find (\<lambda>volume. Name volume = volumeName) (map toVolume items) = Some volume"
      and "api_validQuantity api (Size volume)"
  shows "ECreatePV (temporaryPV (''lhc-temp-pv-'' @ volumeName) volumeName storageClass (Size volume))
           \<in> set (snd (snd (createTemporaryPV api volumeName namespace storageClass (w, tr))))"
proof -
  obtain r w3 where c:
    "api_createPV api (temporaryPV (''lhc-temp-pv-'' @ volumeName) volumeName storageClass (Size volume)) w2
       = (r, w3)"
    by (metis surj_pair)
  show ?thesis
    using assms c
    by (cases r)
       (simp_all add: createTemporaryPV_def getLonghornVolume_def getLonghornVolumes_def query_def call_def)
qed

lemma provisioner_extends:
  assumes "getLonghornVolume api volumeName s = (Ok volume, s1)"
  shows "set (snd (snd (createTemporaryPV api volumeName namespace storageClass s1)))
           \<subseteq> set (snd (snd (createTemporaryPodForLonghorn api volumeName namespace storageClass s)))"
proof -
  let ?s2 = "snd (createTemporaryPV api volumeName namespace storageClass s1)"
  have "logs (\<lambda>ev. True) ?s2 (snd (createTemporaryPodForLonghorn api volumeName namespace storageClass s))"
    by (simp add: createTemporaryPodForLonghorn_def assms case_prod_beta split: result.splits)
       (intro conjI impI allI logs_refl logs_ensureTemporaryPVC logs_ensureTemporaryPod; simp)
  then show ?thesis
    by (auto dest: logs_member)
qed

lemma getVolumeInfo_extends:
  assumes "getLonghornVolume api volumeName s = (Ok volume, s1)" and "PVName volume = []"
  shows "set (snd (snd (createTemporaryPV api volumeName namespace storageClass s1)))
           \<subseteq> set (snd (snd (getVolumeInfo api volumeName namespace storageClass s)))"
proof -
  let ?s2 = "snd (createTemporaryPV api volumeName namespace storageClass s1)"
  have "logs (\<lambda>ev. True) ?s2 (snd (getVolumeInfo api volumeName namespace storageClass s))"
    by (simp add: getVolumeInfo_def assms case_prod_beta split: result.splits)
  then show ?thesis
    by (auto dest: logs_member)
qed


lemma getVolumeInfo_unbound:
  assumes "getLonghornVolume api volumeName s = (Ok volume, s1)" and "PVName volume = []"
      and "fst (getVolumeInfo api volumeName namespace storageClass s) = Ok access"
  shows "getVolumeInfo api volumeName namespace storageClass s =
           createTemporaryPodForLonghorn api volumeName namespace storageClass
             (snd (createTemporaryPV api volumeName namespace storageClass s1))"
  using assms by (simp add: getVolumeInfo_def case_prod_beta split: result.splits)

lemma getVolumeInfo_unused:
  assumes "getLonghornVolume api volumeName s = (Ok volume, s1)" and "PVName volume \<noteq> []"
      and "fst (isVolumeInUse api (PVName volume) namespace s1) = Ok False"
  shows "getVolumeInfo api volumeName namespace storageClass s =
           createTemporaryPodForLonghorn api volumeName namespace storageClass
             (snd (isVolumeInUse api (PVName volume) namespace s1))"
  using assms by (simp add: getVolumeInfo_def case_prod_beta split: result.splits)

text \<open>
  C10. A volume that resolves as not in use gets the temporary pod, and the temporary PV is
  looked up and created whether or not the volume has a bound PV. For every client, when
  the volume is found and it has no bound PV or the in-use check answers \<^verbatim>\<open>false\<close>: an
  access that \<^verbatim>\<open>getVolumeInfo\<close> returns is the pod \<^verbatim>\<open>lhc-temp-pod-<volume>\<close>, the mount
  path \<^verbatim>\<open>/mnt/volume\<close> and the container \<^verbatim>\<open>temp-container\<close>. Whether the run succeeds or
  fails later, its log holds the lookup of the PV \<^verbatim>\<open>lhc-temp-pv-<volume>\<close>: always when the
  volume has no bound PV, and as soon as the provisioner has read the volume again when it
  has one. And when that lookup fails, the volume is listed with a size that parses, the log
  holds the creation of the temporary PV for the volume, with that name.
\<close>

theorem unused_volume_gets_temporary_pod:
  "(\<forall>volume s1 access.
      getLonghornVolume api volumeName (w, []) = (Ok volume, s1)
      \<longrightarrow> (PVName volume = [] \<or> fst (isVolumeInUse api (PVName volume) namespace s1) = Ok False)
      \<longrightarrow> fst (getVolumeInfo api volumeName namespace storageClass (w, [])) = Ok access
      \<longrightarrow> access = (''lhc-temp-pod-'' @ volumeName, ''/mnt/volume'', ''temp-container''))
   \<and> (\<forall>volume s1.
      getLonghornVolume api volumeName (w, []) = (Ok volume, s1)
      \<longrightarrow> PVName volume = []
      \<longrightarrow> EGetPV (''lhc-temp-pv-'' @ volumeName)
            \<in> set (snd (snd (getVolumeInfo api volumeName namespace storageClass (w, [])))))
   \<and> (\<forall>volume w1 tr1 e w2 items w3 listed.
      getLonghornVolume api volumeName (w, []) = (Ok volume, (w1, tr1))
      \<longrightarrow> PVName volume = []
      \<longrightarrow> api_getPV api (''lhc-temp-pv-'' @ volumeName) w1 = (Inl e, w2)
      \<longrightarrow> api_listVolumes api w2 = (Inr items, w3)
      \<longrightarrow> find (\<lambda>volume. Name volume = volumeName) (map toVolume items) = Some listed
      \<longrightarrow> api_validQuantity api (Size listed)
      \<longrightarrow> ECreatePV (temporaryPV (''lhc-temp-pv-'' @ volumeName) volumeName storageClass (Size listed))
            \<in> set (snd (snd (getVolumeInfo api volumeName namespace storageClass (w, [])))))
   \<and> (\<forall>volume s1 s2 volume' s3.
      getLonghornVolume api volumeName (w, []) = (Ok volume, s1)
      \<longrightarrow> PVName volume \<noteq> []
      \<longrightarrow> isVolumeInUse api (PVName volume) namespace s1 = (Ok False, s2)
      \<longrightarrow> getLonghornVolume api volumeName s2 = (Ok volume', s3)
      \<longrightarrow> EGetPV (''lhc-temp-pv-'' @ volumeName)
            \<in> set (snd (snd (getVolumeInfo api volumeName namespace storageClass (w, [])))))
   \<and> (\<forall>volume s1 s2 volume' w3 tr3 e w4 items w5 listed.
      getLonghornVolume api volumeName (w, []) = (Ok volume, s1)
      \<longrightarrow> PVName volume \<noteq> []
      \<longrightarrow> isVolumeInUse api (PVName volume) namespace s1 = (Ok False, s2)
      \<longrightarrow> getLonghornVolume api volumeName s2 = (Ok volume', (w3, tr3))
      \<longrightarrow> api_getPV api (''lhc-temp-pv-'' @ volumeName) w3 = (Inl e, w4)
      \<longrightarrow> api_listVolumes api w4 = (Inr items, w5)
      \<longrightarrow> find (\<lambda>volume. Name volume = volumeName) (map toVolume items) = Some listed
      \<longrightarrow> api_validQuantity api (Size listed)
      \<longrightarrow> ECreatePV (temporaryPV (''lhc-temp-pv-'' @ volumeName) volumeName storageClass (Size listed))
            \<in> set (snd (snd (getVolumeInfo api volumeName namespace storageClass (w, [])))))"
proof (intro conjI allI impI)
  fix volume s1 access
  assume g: "getLonghornVolume api volumeName (w, []) = (Ok volume, s1)"
    and free: "PVName volume = [] \<or> fst (isVolumeInUse api (PVName volume) namespace s1) = Ok False"
    and ok: "fst (getVolumeInfo api volumeName namespace storageClass (w, [])) = Ok access"
  have "\<exists>s'. getVolumeInfo api volumeName namespace storageClass (w, []) =
               createTemporaryPodForLonghorn api volumeName namespace storageClass s'"
    using getVolumeInfo_unbound [OF g _ ok] getVolumeInfo_unused [OF g] free by metis
  then obtain s' where run: "getVolumeInfo api volumeName namespace storageClass (w, []) =
               createTemporaryPodForLonghorn api volumeName namespace storageClass s'" ..
  from ok show "access = (''lhc-temp-pod-'' @ volumeName, ''/mnt/volume'', ''temp-container'')"
    unfolding run by (rule createTemporaryPodForLonghorn_handle)
next
  fix volume s1
  assume g: "getLonghornVolume api volumeName (w, []) = (Ok volume, s1)" and none: "PVName volume = []"
  from getVolumeInfo_extends [OF g none] createTemporaryPV_looks
  show "EGetPV (''lhc-temp-pv-'' @ volumeName)
      \<in> set (snd (snd (getVolumeInfo api volumeName namespace storageClass (w, []))))"
    by blast
next
  fix volume w1 tr1 e w2 items w3 listed
  assume g: "getLonghornVolume api volumeName (w, []) = (Ok volume, (w1, tr1))"
    and none: "PVName volume = []"
    and missing: "api_getPV api (''lhc-temp-pv-'' @ volumeName) w1 = (Inl e, w2)"
    and listing: "api_listVolumes api w2 = (Inr items, w3)"
    and found: "find (\<lambda>volume. Name volume = volumeName) (map toVolume items) = Some listed"
    and valid: "api_validQuantity api (Size listed)"
  from getVolumeInfo_extends [OF g none] createTemporaryPV_attempts [OF missing listing found valid]
  show "ECreatePV (temporaryPV (''lhc-temp-pv-'' @ volumeName) volumeName storageClass (Size listed))
      \<in> set (snd (snd (getVolumeInfo api volumeName namespace storageClass (w, []))))"
    by blast
next
  fix volume s1 s2 volume' s3
  assume g: "getLonghornVolume api volumeName (w, []) = (Ok volume, s1)"
    and bound: "PVName volume \<noteq> []"
    and free: "isVolumeInUse api (PVName volume) namespace s1 = (Ok False, s2)"
    and g': "getLonghornVolume api volumeName s2 = (Ok volume', s3)"
  have run: "getVolumeInfo api volumeName namespace storageClass (w, []) =
               createTemporaryPodForLonghorn api volumeName namespace storageClass s2"
    using getVolumeInfo_unused [OF g bound, of namespace storageClass] free by simp
  from provisioner_extends [OF g'] createTemporaryPV_looks
  show "EGetPV (''lhc-temp-pv-'' @ volumeName)
      \<in> set (snd (snd (getVolumeInfo api volumeName namespace storageClass (w, []))))"
    unfolding run by blast
next
  fix volume s1 s2 volume' w3 tr3 e w4 items w5 listed
  assume g: "getLonghornVolume api volumeName (w, []) = (Ok volume, s1)"
    and bound: "PVName volume \<noteq> []"
    and free: "isVolumeInUse api (PVName volume) namespace s1 = (Ok False, s2)"
    and g': "getLonghornVolume api volumeName s2 = (Ok volume', (w3, tr3))"
    and missing: "api_getPV api (''lhc-temp-pv-'' @ volumeName) w3 = (Inl e, w4)"
    and listing: "api_listVolumes api w4 = (Inr items, w5)"
    and found: "find (\<lambda>volume. Name volume = volumeName) (map toVolume items) = Some listed"
    and valid: "api_validQuantity api (Size listed)"
  have run: "getVolumeInfo api volumeName namespace storageClass (w, []) =
               createTemporaryPodForLonghorn api volumeName namespace storageClass s2"
    using getVolumeInfo_unused [OF g bound, of namespace storageClass] free by simp
  from provisioner_extends [OF g'] createTemporaryPV_attempts [OF missing listing found valid]
  show "ECreatePV (temporaryPV (''lhc-temp-pv-'' @ volumeName) volumeName storageClass (Size listed))
      \<in> set (snd (snd (getVolumeInfo api volumeName namespace storageClass (w, []))))"
    unfolding run by blast
qed


lemma bound_volume_steps:
  assumes "c = idleCluster \<or> c = deniedCluster"
  shows "getLonghornVolume (sim decimalQuantity) ''data'' (c, []) =
           (Ok \<lparr>Name = ''data'', Size = ''1073741824'', State = ''attached'', PVName = ''pv-data''\<rparr>,
            (c, [EListVolumes]))"
    and "isVolumeInUse (sim decimalQuantity) ''pv-data'' ''default'' (c, [EListVolumes]) =
           (Ok False, (c, [EListVolumes, EListPVCs ''default'' [], EListPods ''default'' []]))"
    and "getLonghornVolume (sim decimalQuantity) ''data''
           (c, [EListVolumes, EListPVCs ''default'' [], EListPods ''default'' []]) =
           (Ok \<lparr>Name = ''data'', Size = ''1073741824'', State = ''attached'', PVName = ''pv-data''\<rparr>,
            (c, [EListVolumes, EListPVCs ''default'' [], EListPods ''default'' [], EListVolumes]))"
    and "api_getPV (sim decimalQuantity) ''lhc-temp-pv-data'' c = (Inl NotFound, c)"
    and "api_listVolumes (sim decimalQuantity) c =
           (Inr [exampleVolume ''data'' ''attached'' (Some ''pv-data'')], c)"
  using assms
  by (auto simp: getLonghornVolume_def getLonghornVolumes_def isVolumeInUse_def targetPVCOf_def
        mountsClaim_def query_def toVolume_def sim_def answer_def selected_def lookup_def isPV_def
        idleCluster_def deniedCluster_def podsForbidden_def attachedCluster_def noFaults_def
        fixture_defs ClaimBound_def)

lemma listed_volume:
  "find (\<lambda>volume. Name volume = ''data'') (map toVolume [exampleVolume ''data'' ''attached'' (Some ''pv-data'')]) =
     Some \<lparr>Name = ''data'', Size = ''1073741824'', State = ''attached'', PVName = ''pv-data''\<rparr>"
  "find (\<lambda>volume. Name volume = ''data'') (map toVolume (cl_volumes detachedCluster)) =
     Some \<lparr>Name = ''data'', Size = ''1073741824'', State = ''detached'', PVName = []\<rparr>"
  "api_validQuantity (sim decimalQuantity) ''1073741824''"
  "api_getPV (sim decimalQuantity) ''lhc-temp-pv-data'' detachedCluster = (Inl NotFound, detachedCluster)"
  "api_listVolumes (sim decimalQuantity) detachedCluster = (Inr (cl_volumes detachedCluster), detachedCluster)"
  by (simp_all add: toVolume_def fixture_defs sim_def answer_def decimalQuantity_def detachedCluster_def
        noFaults_def lookup_def)

lemma denied_run:
  "fst (getVolumeInfo (sim decimalQuantity) ''data'' ''default'' ''longhorn'' (deniedCluster, [])) =
     Err (Errorf ''failed to create temporary pod: %v'' [AErr Forbidden])"
  by code_simp

lemma idle_run:
  "case fst (getVolumeInfo (sim decimalQuantity) ''data'' ''default'' ''longhorn'' (idleCluster, [])) of
     Ok access \<Rightarrow> True | _ \<Rightarrow> False"
  by code_simp

lemma detached_run:
  "case fst (getVolumeInfo (sim decimalQuantity) ''data'' ''default'' ''longhorn'' (detachedCluster, [])) of
     Ok access \<Rightarrow> True | _ \<Rightarrow> False"
  by code_simp

theorem unused_volume_gets_temporary_pod_witness:
  "fst (getVolumeInfo (sim decimalQuantity) ''data'' ''default'' ''longhorn'' (idleCluster, [])) =
     Ok (''lhc-temp-pod-data'', ''/mnt/volume'', ''temp-container'')
   \<and> EGetPV ''lhc-temp-pv-data''
       \<in> set (snd (snd (getVolumeInfo (sim decimalQuantity) ''data'' ''default'' ''longhorn'' (idleCluster, []))))
   \<and> ECreatePV (temporaryPV ''lhc-temp-pv-data'' ''data'' ''longhorn'' ''1073741824'')
       \<in> set (snd (snd (getVolumeInfo (sim decimalQuantity) ''data'' ''default'' ''longhorn'' (idleCluster, []))))
   \<and> fst (getVolumeInfo (sim decimalQuantity) ''data'' ''default'' ''longhorn'' (deniedCluster, [])) =
     Err (Errorf ''failed to create temporary pod: %v'' [AErr Forbidden])
   \<and> EGetPV ''lhc-temp-pv-data''
       \<in> set (snd (snd (getVolumeInfo (sim decimalQuantity) ''data'' ''default'' ''longhorn'' (deniedCluster, []))))
   \<and> ECreatePV (temporaryPV ''lhc-temp-pv-data'' ''data'' ''longhorn'' ''1073741824'')
       \<in> set (snd (snd (getVolumeInfo (sim decimalQuantity) ''data'' ''default'' ''longhorn'' (deniedCluster, []))))
   \<and> fst (getVolumeInfo (sim decimalQuantity) ''data'' ''default'' ''longhorn'' (detachedCluster, [])) =
     Ok (''lhc-temp-pod-data'', ''/mnt/volume'', ''temp-container'')
   \<and> EGetPV ''lhc-temp-pv-data''
       \<in> set (snd (snd (getVolumeInfo (sim decimalQuantity) ''data'' ''default'' ''longhorn'' (detachedCluster, []))))
   \<and> ECreatePV (temporaryPV ''lhc-temp-pv-data'' ''data'' ''longhorn'' ''1073741824'')
       \<in> set (snd (snd (getVolumeInfo (sim decimalQuantity) ''data'' ''default'' ''longhorn'' (detachedCluster, []))))"
proof -
  note resolve = unused_volume_gets_temporary_pod
      [where api = "sim decimalQuantity" and volumeName = "''data''" and namespace = "''default''"
         and storageClass = "''longhorn''"]
  let ?bound = "\<lparr>Name = ''data'', Size = ''1073741824'', State = ''attached'', PVName = ''pv-data''\<rparr>"
  let ?unbound = "\<lparr>Name = ''data'', Size = ''1073741824'', State = ''detached'', PVName = []\<rparr>"
  obtain a where a: "fst (getVolumeInfo (sim decimalQuantity) ''data'' ''default'' ''longhorn'' (idleCluster, []))
      = Ok a"
    using idle_run by (auto split: result.splits)
  obtain b where b: "fst (getVolumeInfo (sim decimalQuantity) ''data'' ''default'' ''longhorn'' (detachedCluster, []))
      = Ok b"
    using detached_run by (auto split: result.splits)
  have free: "PVName ?bound = []
      \<or> fst (isVolumeInUse (sim decimalQuantity) (PVName ?bound) ''default'' (idleCluster, [EListVolumes])) = Ok False"
    by (simp add: idle_lookup(2))
  have bound: "PVName ?bound \<noteq> []" and none: "PVName ?unbound = []"
    by simp_all
  have unbound: "PVName ?unbound = []
      \<or> fst (isVolumeInUse (sim decimalQuantity) (PVName ?unbound) ''default'' (detachedCluster, [EListVolumes]))
          = Ok False"
    by simp
  have size: "api_validQuantity (sim decimalQuantity) (Size ?bound)"
    "api_validQuantity (sim decimalQuantity) (Size ?unbound)"
    using listed_volume(3) by simp_all
  have use: "isVolumeInUse (sim decimalQuantity) (PVName ?bound) ''default'' (c, [EListVolumes]) =
           (Ok False, (c, [EListVolumes, EListPVCs ''default'' [], EListPods ''default'' []]))"
    if "c = idleCluster \<or> c = deniedCluster" for c
    using bound_volume_steps(2) [OF that] by simp
  have idle: "idleCluster = idleCluster \<or> idleCluster = deniedCluster"
    and denied: "deniedCluster = idleCluster \<or> deniedCluster = deniedCluster"
    by simp_all
  have lookup_idle: "api_getPV (sim decimalQuantity) (''lhc-temp-pv-'' @ ''data'') idleCluster
      = (Inl NotFound, idleCluster)"
    and lookup_denied: "api_getPV (sim decimalQuantity) (''lhc-temp-pv-'' @ ''data'') deniedCluster
      = (Inl NotFound, deniedCluster)"
    and lookup_detached: "api_getPV (sim decimalQuantity) (''lhc-temp-pv-'' @ ''data'') detachedCluster
      = (Inl NotFound, detachedCluster)"
    using bound_volume_steps(4) [OF idle] bound_volume_steps(4) [OF denied] listed_volume(4) by simp_all
  note handle_idle = resolve [where w = idleCluster, THEN conjunct1, rule_format,
      OF bound_volume_steps(1) [OF idle] free a]
  note handle_detached = resolve [where w = detachedCluster, THEN conjunct1, rule_format,
      OF detached_lookup unbound b]
  note look_detached = resolve [where w = detachedCluster, THEN conjunct2, THEN conjunct1, rule_format,
      OF detached_lookup none]
  note create_detached = resolve [where w = detachedCluster, THEN conjunct2, THEN conjunct2, THEN conjunct1,
      rule_format, OF detached_lookup none lookup_detached listed_volume(5) listed_volume(2) size(2)]
  note look_idle = resolve [where w = idleCluster, THEN conjunct2, THEN conjunct2, THEN conjunct2,
      THEN conjunct1, rule_format,
      OF bound_volume_steps(1) [OF idle] bound use [OF idle] bound_volume_steps(3) [OF idle]]
  note look_denied = resolve [where w = deniedCluster, THEN conjunct2, THEN conjunct2, THEN conjunct2,
      THEN conjunct1, rule_format,
      OF bound_volume_steps(1) [OF denied] bound use [OF denied] bound_volume_steps(3) [OF denied]]
  note create_idle = resolve [where w = idleCluster, THEN conjunct2, THEN conjunct2, THEN conjunct2,
      THEN conjunct2, rule_format,
      OF bound_volume_steps(1) [OF idle] bound use [OF idle] bound_volume_steps(3) [OF idle]
         lookup_idle bound_volume_steps(5) [OF idle] listed_volume(1) size(1)]
  note create_denied = resolve [where w = deniedCluster, THEN conjunct2, THEN conjunct2, THEN conjunct2,
      THEN conjunct2, rule_format,
      OF bound_volume_steps(1) [OF denied] bound use [OF denied] bound_volume_steps(3) [OF denied]
         lookup_denied bound_volume_steps(5) [OF denied] listed_volume(1) size(1)]
  from a b handle_idle handle_detached look_idle look_denied look_detached create_idle create_denied
    create_detached denied_run
  show ?thesis
    by simp
qed

section \<open>Provisioning twice\<close>

lemma sim_quiet:
  assumes "cl_faults c = noFaults"
  shows "api_listVolumes (sim valid) c = (Inr (cl_volumes c), c)"
    and "api_getPV (sim valid) name c = (lookup (isPV name) (cl_pvs c), c)"
    and "api_getPVC (sim valid) namespace name c = (lookup (isPVC namespace name) (cl_pvcs c), c)"
    and "api_getPod (sim valid) namespace name c = (lookup (isPod namespace name) (cl_pods c), c)"
    and "api_createPV (sim valid) pv c = sim_createPV pv c"
    and "api_createPVC (sim valid) namespace pvc c = sim_createPVC namespace pvc c"
    and "api_createPod (sim valid) namespace pod c = sim_createPod namespace pod c"
  using assms by (simp_all add: sim_def answer_def noFaults_def)

lemma sim_sleep: "api_sleep (sim valid) n c = ticks n c"
  by (simp add: sim_def)

lemma keeps_refl [simp]: "keeps c c"
  by (simp add: keeps_def)

lemma keeps_trans: "keeps c c1 \<Longrightarrow> keeps c1 c2 \<Longrightarrow> keeps c c2"
  by (simp add: keeps_def)

lemma keeps_faults: "keeps c c' \<Longrightarrow> cl_faults c = noFaults \<Longrightarrow> cl_faults c' = noFaults"
  by (simp add: keeps_def)

lemma isPVC_bindClaim [simp]: "isPVC namespace name (bindClaim c pvc) = isPVC namespace name pvc"
  by (simp add: isPVC_def bindClaim_def)

lemma list_ex_bindClaim [simp]:
  "list_ex (isPVC namespace name) (map (bindClaim c) pvcs) = list_ex (isPVC namespace name) pvcs"
  by (induction pvcs) simp_all

lemma keeps_tick: "keeps c (tick c)"
  by (simp add: keeps_def tick_def)

lemma keeps_ticks: "keeps c (ticks n c)"
  by (induction n arbitrary: c) (auto intro: keeps_trans keeps_tick)

lemma keeps_createPV: "keeps c (snd (sim_createPV pv c))"
  by (auto simp: keeps_def sim_createPV_def list_ex_iff)

lemma keeps_createPVC: "keeps c (snd (sim_createPVC namespace pvc c))"
  by (auto simp: keeps_def sim_createPVC_def list_ex_iff)

lemma keeps_createPod: "keeps c (snd (sim_createPod namespace pod c))"
  by (auto simp: keeps_def sim_createPod_def list_ex_iff)

lemma lookup_found: "list_ex p xs \<Longrightarrow> \<exists>x. lookup p xs = Inr x"
  by (induction xs) (auto simp: lookup_def)

lemma lookup_Inr: "lookup p xs = Inr x \<Longrightarrow> list_ex p xs"
  by (auto simp: lookup_def list_ex_iff split: option.splits dest: find_Some_iff [THEN iffD1])
     (metis find_Some_iff nth_mem)


lemma getLonghornVolume_sim:
  assumes "cl_faults c = noFaults"
  shows "getLonghornVolume (sim valid) volumeName (c, tr) =
           ((case find (\<lambda>volume. Name volume = volumeName) (map toVolume (cl_volumes c)) of
               Some volume \<Rightarrow> Ok volume
             | None \<Rightarrow> Err (Errorf ''Longhorn volume %s not found'' [AStr volumeName])),
            (c, tr @ [EListVolumes]))"
  by (simp add: getLonghornVolume_def getLonghornVolumes_def query_def sim_quiet [OF assms]
        split: option.splits)

lemma createTemporaryPV_sim:
  assumes "cl_faults c = noFaults"
  shows "keeps c (fst (snd (createTemporaryPV (sim valid) volumeName namespace storageClass (c, tr))))"
    and "fst (createTemporaryPV (sim valid) volumeName namespace storageClass (c, tr)) = Ok x \<Longrightarrow>
         list_ex (isPV (''lhc-temp-pv-'' @ volumeName))
           (cl_pvs (fst (snd (createTemporaryPV (sim valid) volumeName namespace storageClass (c, tr)))))"
proof -
  let ?name = "''lhc-temp-pv-'' @ volumeName"
  show "keeps c (fst (snd (createTemporaryPV (sim valid) volumeName namespace storageClass (c, tr))))"
    using keeps_createPV [of c]
    by (simp add: createTemporaryPV_def query_def call_def sim_quiet [OF assms]
          getLonghornVolume_sim [OF assms] case_prod_beta
          split: sum.splits option.splits)
  assume "fst (createTemporaryPV (sim valid) volumeName namespace storageClass (c, tr)) = Ok x"
  then show "list_ex (isPV ?name)
      (cl_pvs (fst (snd (createTemporaryPV (sim valid) volumeName namespace storageClass (c, tr)))))"
    by (auto simp: createTemporaryPV_def query_def call_def sim_quiet [OF assms]
          getLonghornVolume_sim [OF assms] case_prod_beta sim_createPV_def temporaryPV_def isPV_def
          dest: lookup_Inr
          split: sum.splits option.splits if_splits)
qed


lemma waitPVCBound_sim:
  assumes "cl_faults c = noFaults"
  shows "keeps c (fst (snd (waitPVCBound (sim valid) namespace pvcName k (c, tr))))"
  using assms
proof (induction k arbitrary: c tr)
  case 0
  show ?case by simp
next
  case (Suc k)
  have next_faults: "cl_faults (tick c) = noFaults"
    using keeps_faults [OF keeps_tick Suc.prems] .
  from Suc.IH [OF next_faults] have "keeps c (fst (snd (waitPVCBound (sim valid) namespace pvcName k (tick c, tr'))))"
    for tr'
    using keeps_trans [OF keeps_tick] by blast
  then show ?case
    by (simp add: query_def sleep_def emit_def sim_quiet [OF Suc.prems] sim_sleep split: sum.splits)
qed

lemma ensureTemporaryPVC_sim:
  assumes "cl_faults c = noFaults"
  shows "keeps c (fst (snd (ensureTemporaryPVC (sim valid) namespace pvcName pvName storageClass size0 (c, tr))))"
    and "fst (ensureTemporaryPVC (sim valid) namespace pvcName pvName storageClass size0 (c, tr)) = Ok x \<Longrightarrow>
         list_ex (isPVC namespace pvcName)
           (cl_pvcs (fst (snd (ensureTemporaryPVC (sim valid) namespace pvcName pvName storageClass size0 (c, tr)))))"
proof -
  let ?pvc = "temporaryPVC pvcName namespace storageClass pvName size0"
  let ?c1 = "c\<lparr>cl_pvcs := cl_pvcs c @ [?pvc\<lparr>pvc_Namespace := namespace, pvc_Phase := ''Pending''\<rparr>]\<rparr>"
  have f1: "cl_faults ?c1 = noFaults"
    using assms by simp
  have k1: "keeps c ?c1"
    by (auto simp: keeps_def list_ex_iff)
  have made: "list_ex (isPVC namespace pvcName) (cl_pvcs ?c1)"
    by (simp add: isPVC_def temporaryPVC_def)
  have wait: "keeps ?c1 (fst (snd (waitPVCBound (sim valid) namespace pvcName 60 (?c1, tr'))))" for tr'
    by (rule waitPVCBound_sim [OF f1])
  show "keeps c (fst (snd (ensureTemporaryPVC (sim valid) namespace pvcName pvName storageClass size0 (c, tr))))"
    using keeps_trans [OF k1 wait]
    by (simp add: ensureTemporaryPVC_def query_def call_def emit_def sim_quiet [OF assms]
          sim_createPVC_def split: sum.splits)
  assume "fst (ensureTemporaryPVC (sim valid) namespace pvcName pvName storageClass size0 (c, tr)) = Ok x"
  then show "list_ex (isPVC namespace pvcName)
      (cl_pvcs (fst (snd (ensureTemporaryPVC (sim valid) namespace pvcName pvName storageClass size0 (c, tr)))))"
    using wait made
    by (auto simp: ensureTemporaryPVC_def query_def call_def emit_def sim_quiet [OF assms]
          sim_createPVC_def keeps_def
          dest: lookup_Inr split: sum.splits if_splits)
qed


lemma runs_found:
  "lookup (isPod namespace podName) (cl_pods c) = Inr pod \<Longrightarrow> pod_Phase pod = PodRunning \<Longrightarrow>
   runs namespace podName c"
  by (simp add: runs_def)

lemma waitPodRunning_sim:
  assumes "cl_faults c = noFaults"
  shows "keeps c (fst (snd (waitPodRunning (sim valid) namespace podName mountPath containerName k (c, tr))))
         \<and> (\<forall>access. fst (waitPodRunning (sim valid) namespace podName mountPath containerName k (c, tr)) = Ok access
              \<longrightarrow> runs namespace podName
                    (fst (snd (waitPodRunning (sim valid) namespace podName mountPath containerName k (c, tr)))))"
  using assms
proof (induction k arbitrary: c tr)
  case 0
  show ?case by simp
next
  case (Suc k)
  have next_faults: "cl_faults (tick c) = noFaults"
    using keeps_faults [OF keeps_tick Suc.prems] .
  note step = Suc.IH [OF next_faults]
  have later: "keeps c (fst (snd (waitPodRunning (sim valid) namespace podName mountPath containerName k (tick c, tr'))))"
    for tr'
    using step keeps_trans [OF keeps_tick] by blast
  show ?case
    using step later
    by (auto simp: query_def sleep_def sim_quiet [OF Suc.prems] sim_sleep runs_found split: sum.splits)
qed

lemma ensureTemporaryPod_sim:
  assumes "cl_faults c = noFaults"
  shows "keeps c (fst (snd (ensureTemporaryPod (sim valid) namespace podName pvcName mountPath containerName (c, tr))))
         \<and> (\<forall>access. fst (ensureTemporaryPod (sim valid) namespace podName pvcName mountPath containerName (c, tr))
                        = Ok access
              \<longrightarrow> runs namespace podName
                    (fst (snd (ensureTemporaryPod (sim valid) namespace podName pvcName mountPath containerName (c, tr)))))"
proof -
  let ?pod = "temporaryPod podName namespace containerName mountPath pvcName"
  let ?c1 = "c\<lparr>cl_pods := cl_pods c @ [?pod\<lparr>pod_Namespace := namespace, pod_Phase := ''Pending''\<rparr>]\<rparr>"
  have f1: "cl_faults ?c1 = noFaults"
    using assms by simp
  have k1: "keeps c ?c1"
    by (auto simp: keeps_def list_ex_iff)
  note wait = waitPodRunning_sim [OF f1, of valid namespace podName mountPath containerName 120]
  have later: "keeps c (fst (snd (waitPodRunning (sim valid) namespace podName mountPath containerName 120 (?c1, tr'))))"
    for tr'
    using wait keeps_trans [OF k1] by blast
  show ?thesis
    using wait later
    by (auto simp: ensureTemporaryPod_def podIsRunning_def query_def call_def emit_def sim_quiet [OF assms]
          sim_createPod_def runs_found split: sum.splits)
qed


lemma provision_again:
  assumes "cl_faults c = noFaults"
      and "find (\<lambda>volume. Name volume = volumeName) (map toVolume (cl_volumes c)) = Some volume"
      and "list_ex (isPV (''lhc-temp-pv-'' @ volumeName)) (cl_pvs c)"
      and "list_ex (isPVC namespace (''lhc-temp-pvc-'' @ volumeName)) (cl_pvcs c)"
      and "runs namespace (''lhc-temp-pod-'' @ volumeName) c"
  shows "createTemporaryPodForLonghorn (sim valid) volumeName namespace storageClass (c, tr) =
           (Ok (''lhc-temp-pod-'' @ volumeName, ''/mnt/volume'', ''temp-container''),
            (c, tr @ [EListVolumes, EGetPV (''lhc-temp-pv-'' @ volumeName),
                      EGetPVC namespace (''lhc-temp-pvc-'' @ volumeName),
                      EGetPod namespace (''lhc-temp-pod-'' @ volumeName)]))"
proof -
  from lookup_found [OF assms(3)] obtain pv where
    pv: "lookup (isPV (''lhc-temp-pv-'' @ volumeName)) (cl_pvs c) = Inr pv" ..
  from lookup_found [OF assms(4)] obtain pvc where
    pvc: "lookup (isPVC namespace (''lhc-temp-pvc-'' @ volumeName)) (cl_pvcs c) = Inr pvc" ..
  from assms(5) obtain pod where
    pod: "lookup (isPod namespace (''lhc-temp-pod-'' @ volumeName)) (cl_pods c) = Inr pod"
      "pod_Phase pod = PodRunning"
    by (auto simp: runs_def split: sum.splits)
  have step1: "createTemporaryPV (sim valid) volumeName namespace storageClass (c, tr1) =
      (Ok (''lhc-temp-pv-'' @ volumeName), (c, tr1 @ [EGetPV (''lhc-temp-pv-'' @ volumeName)]))" for tr1
    using pv by (simp add: createTemporaryPV_def query_def sim_quiet [OF assms(1)])
  have step2: "ensureTemporaryPVC (sim valid) namespace (''lhc-temp-pvc-'' @ volumeName)
        (''lhc-temp-pv-'' @ volumeName) storageClass size0 (c, tr1) =
      (Ok (), (c, tr1 @ [EGetPVC namespace (''lhc-temp-pvc-'' @ volumeName)]))" for tr1 size0
    using pvc by (simp add: ensureTemporaryPVC_def query_def sim_quiet [OF assms(1)])
  have step3: "ensureTemporaryPod (sim valid) namespace (''lhc-temp-pod-'' @ volumeName)
        (''lhc-temp-pvc-'' @ volumeName) ''/mnt/volume'' ''temp-container'' (c, tr1) =
      (Ok (''lhc-temp-pod-'' @ volumeName, ''/mnt/volume'', ''temp-container''),
       (c, tr1 @ [EGetPod namespace (''lhc-temp-pod-'' @ volumeName)]))" for tr1
    using pod by (simp add: ensureTemporaryPod_def podIsRunning_def query_def sim_quiet [OF assms(1)])
  show ?thesis
    unfolding createTemporaryPodForLonghorn_def getLonghornVolume_sim [OF assms(1)] assms(2)
    by (simp add: step1 [simplified] step2 [simplified] step3 [simplified])
qed

lemma provision_post:
  assumes "cl_faults c = noFaults"
      and "createTemporaryPodForLonghorn (sim valid) volumeName namespace storageClass (c, tr) =
             (Ok access, (c', tr'))"
  shows "cl_faults c' = noFaults"
    and "\<exists>volume. find (\<lambda>volume. Name volume = volumeName) (map toVolume (cl_volumes c')) = Some volume"
    and "list_ex (isPV (''lhc-temp-pv-'' @ volumeName)) (cl_pvs c')"
    and "list_ex (isPVC namespace (''lhc-temp-pvc-'' @ volumeName)) (cl_pvcs c')"
    and "runs namespace (''lhc-temp-pod-'' @ volumeName) c'"
proof -
  let ?pv = "''lhc-temp-pv-'' @ volumeName" and ?pvc = "''lhc-temp-pvc-'' @ volumeName"
  let ?pod = "''lhc-temp-pod-'' @ volumeName"
  obtain volume where found:
    "find (\<lambda>volume. Name volume = volumeName) (map toVolume (cl_volumes c)) = Some volume"
    using assms(2)
    by (cases "find (\<lambda>volume. Name volume = volumeName) (map toVolume (cl_volumes c))")
       (simp_all add: createTemporaryPodForLonghorn_def getLonghornVolume_sim [OF assms(1)])
  obtain q c2 tr2 where s2:
    "createTemporaryPV (sim valid) volumeName namespace storageClass (c, tr @ [EListVolumes]) = (q, (c2, tr2))"
    by (metis surj_pair)
  obtain p c3 tr3 where s3:
    "ensureTemporaryPVC (sim valid) namespace ?pvc ?pv storageClass (Size volume) (c2, tr2) = (p, (c3, tr3))"
    by (metis surj_pair)
  have run: "createTemporaryPodForLonghorn (sim valid) volumeName namespace storageClass (c, tr) =
      (case q of
         Err e \<Rightarrow> (Err (Errorf ''failed to create temporary PV: %v'' [AErr e]), (c2, tr2))
       | Panic x \<Rightarrow> (Panic x, (c2, tr2))
       | Ok _ \<Rightarrow>
           (case p of
              Err e \<Rightarrow> (Err e, (c3, tr3))
            | Panic x \<Rightarrow> (Panic x, (c3, tr3))
            | Ok _ \<Rightarrow> ensureTemporaryPod (sim valid) namespace ?pod ?pvc ''/mnt/volume'' ''temp-container''
                        (c3, tr3)))"
    unfolding createTemporaryPodForLonghorn_def getLonghornVolume_sim [OF assms(1)] found
    by (simp add: s2 [simplified] s3 [simplified] split: result.splits)
  from assms(2) run obtain x y where q: "q = Ok x" and p: "p = Ok y"
    and last: "ensureTemporaryPod (sim valid) namespace ?pod ?pvc ''/mnt/volume'' ''temp-container'' (c3, tr3)
                 = (Ok access, (c', tr'))"
    by (cases q; cases p) simp_all
  have k2: "keeps c c2" and pv2: "list_ex (isPV ?pv) (cl_pvs c2)"
    using createTemporaryPV_sim(1) [OF assms(1), of valid volumeName namespace storageClass "tr @ [EListVolumes]"]
      createTemporaryPV_sim(2) [OF assms(1), of valid volumeName namespace storageClass "tr @ [EListVolumes]" x]
    by (simp_all add: s2 q)
  have f2: "cl_faults c2 = noFaults"
    using keeps_faults [OF k2 assms(1)] .
  have k3: "keeps c2 c3" and pvc3: "list_ex (isPVC namespace ?pvc) (cl_pvcs c3)"
    using ensureTemporaryPVC_sim(1) [OF f2, of valid namespace ?pvc ?pv storageClass "Size volume" tr2]
      ensureTemporaryPVC_sim(2) [OF f2, of valid namespace ?pvc ?pv storageClass "Size volume" tr2 y]
    by (simp_all add: s3 [simplified] p)
  have f3: "cl_faults c3 = noFaults"
    using keeps_faults [OF k3 f2] .
  have k4: "keeps c3 c'" and pod4: "runs namespace ?pod c'"
    using ensureTemporaryPod_sim [OF f3, of valid namespace ?pod ?pvc "''/mnt/volume''" "''temp-container''" tr3]
    by (cases access; simp add: last [simplified])+
  have k: "keeps c c'"
    using keeps_trans [OF keeps_trans [OF k2 k3] k4] .
  show "cl_faults c' = noFaults"
    using keeps_faults [OF k assms(1)] .
  show "\<exists>volume. find (\<lambda>volume. Name volume = volumeName) (map toVolume (cl_volumes c')) = Some volume"
    using k found by (simp add: keeps_def)
  show "list_ex (isPV ?pv) (cl_pvs c')"
    using keeps_trans [OF k3 k4] pv2 by (simp add: keeps_def)
  show "list_ex (isPVC namespace ?pvc) (cl_pvcs c')"
    using k4 pvc3 by (simp add: keeps_def)
  show "runs namespace ?pod c'"
    using pod4 .
qed


text \<open>
  C5. Provisioning twice gives the same access and creates nothing the second time. On
  every cluster whose API server answers every call (no faults), whatever objects it holds
  at the start and whatever quantities it accepts: when a first run of
  \<^verbatim>\<open>createTemporaryPodForLonghorn\<close> succeeds with an access and leaves the cluster \<open>c'\<close>, a
  second run started on \<open>c'\<close> returns the same access, makes four calls, all of them reads
  (the volume listing and the lookups of the temporary PV, claim and pod), and leaves \<open>c'\<close>
  as it is.
\<close>

theorem provision_is_idempotent:
  assumes "cl_faults c = noFaults"
      and "createTemporaryPodForLonghorn (sim valid) volumeName namespace storageClass (c, []) =
             (Ok access, (c', tr))"
  shows "createTemporaryPodForLonghorn (sim valid) volumeName namespace storageClass (c', []) =
           (Ok access,
            (c', [EListVolumes, EGetPV (''lhc-temp-pv-'' @ volumeName),
                  EGetPVC namespace (''lhc-temp-pvc-'' @ volumeName),
                  EGetPod namespace (''lhc-temp-pod-'' @ volumeName)]))"
proof -
  note post = provision_post [OF assms]
  from post(2) obtain volume where
    found: "find (\<lambda>volume. Name volume = volumeName) (map toVolume (cl_volumes c')) = Some volume" ..
  have "access = (''lhc-temp-pod-'' @ volumeName, ''/mnt/volume'', ''temp-container'')"
    using createTemporaryPodForLonghorn_handle [of "sim valid" volumeName namespace storageClass "(c, [])" access]
    by (simp add: assms(2))
  with provision_again [OF post(1) found post(3) post(4) post(5), of valid storageClass "[]"]
  show ?thesis
    by simp
qed

lemma detached_first_run:
  "fst (createTemporaryPodForLonghorn (sim decimalQuantity) ''data'' ''default'' ''longhorn''
          (detachedCluster, [])) =
     Ok (''lhc-temp-pod-data'', ''/mnt/volume'', ''temp-container'')"
  "map pv_Name (cl_pvs (fst (snd (createTemporaryPodForLonghorn (sim decimalQuantity) ''data'' ''default''
          ''longhorn'' (detachedCluster, []))))) = [''lhc-temp-pv-data'']"
  "length (filter (\<lambda>ev. case ev of ECreatePV _ \<Rightarrow> True | ECreatePVC _ _ \<Rightarrow> True | ECreatePod _ _ \<Rightarrow> True
                              | _ \<Rightarrow> False)
     (snd (snd (createTemporaryPodForLonghorn (sim decimalQuantity) ''data'' ''default''
          ''longhorn'' (detachedCluster, []))))) = 3"
  by code_simp+

theorem provision_is_idempotent_witness:
  "fst (createTemporaryPodForLonghorn (sim decimalQuantity) ''data'' ''default'' ''longhorn''
          (detachedCluster, [])) =
     Ok (''lhc-temp-pod-data'', ''/mnt/volume'', ''temp-container'')
   \<and> map pv_Name (cl_pvs (fst (snd (createTemporaryPodForLonghorn (sim decimalQuantity) ''data'' ''default''
          ''longhorn'' (detachedCluster, []))))) = [''lhc-temp-pv-data'']
   \<and> createTemporaryPodForLonghorn (sim decimalQuantity) ''data'' ''default'' ''longhorn''
        (fst (snd (createTemporaryPodForLonghorn (sim decimalQuantity) ''data'' ''default'' ''longhorn''
                     (detachedCluster, []))), []) =
     (Ok (''lhc-temp-pod-data'', ''/mnt/volume'', ''temp-container''),
      (fst (snd (createTemporaryPodForLonghorn (sim decimalQuantity) ''data'' ''default'' ''longhorn''
                   (detachedCluster, []))),
       [EListVolumes, EGetPV ''lhc-temp-pv-data'', EGetPVC ''default'' ''lhc-temp-pvc-data'',
        EGetPod ''default'' ''lhc-temp-pod-data'']))"
proof -
  let ?first = "createTemporaryPodForLonghorn (sim decimalQuantity) ''data'' ''default'' ''longhorn''
                  (detachedCluster, [])"
  have quiet: "cl_faults detachedCluster = noFaults"
    by (simp add: detachedCluster_def)
  have first: "?first = (Ok (''lhc-temp-pod-data'', ''/mnt/volume'', ''temp-container''),
                         (fst (snd ?first), snd (snd ?first)))"
    using detached_first_run(1) by (metis prod.collapse)
  from provision_is_idempotent [OF quiet first] detached_first_run
  show ?thesis
    by simp
qed

end
